theory Spec2Isabelle
  imports Main
begin

section \<open>Python values, exceptions and dictionaries\<close>

text \<open>
  The module \<^verbatim>\<open>cmlutils/project_entrypoint.py\<close> holds three commands:
  \<^verbatim>\<open>project_export_cmd\<close>, \<^verbatim>\<open>project_import_cmd\<close> and
  \<^verbatim>\<open>populate_engine_runtimes_mapping\<close>. They sequence calls to collaborators
  (\<^verbatim>\<open>ProjectExporter\<close>, \<^verbatim>\<open>ProjectImporter\<close>, the validators, the JSON
  reader, the runtime parser) that live in other modules. The collaborators are
  parameters of the model; the commands are embedded statement by statement.

  Values that come out of JSON documents or out of the remote API are dynamically
  typed in the source, so they are modelled by one datatype of Python values.
\<close>

datatype pyval =
    PNone
  | PBool bool
  | PInt int
  | PStr string
  | PList "pyval list"
  | PDict "(string \<times> pyval) list"

text \<open>
  Exceptions. \<open>RuntimeError args\<close> is Python's \<^verbatim>\<open>RuntimeError(*args)\<close>,
  \<open>KeyError k\<close> is raised by \<^verbatim>\<open>d[k]\<close> on a missing key, \<open>TypeError\<close> by
  \<^verbatim>\<open>len\<close> and \<^verbatim>\<open>+\<close> on values they do not accept, \<open>AttributeError\<close> by
  \<^verbatim>\<open>.get\<close> on a value that is no dictionary, \<open>SystemExit\<close> is raised by
  \<^verbatim>\<open>exit()\<close>, and \<open>Failure d\<close> is any other exception, raised inside a
  collaborator or a library call.
\<close>

datatype error =
    RuntimeError "string list"
  | KeyError string
  | TypeError
  | AttributeError
  | SystemExit
  | Failure string

text \<open>A JSON object read into a Python \<^verbatim>\<open>dict\<close>: keys in insertion order.\<close>

type_synonym dict = "(string \<times> pyval) list"

definition dict_contains :: "string \<Rightarrow> dict \<Rightarrow> bool" where
  \<comment> \<open>\<^verbatim>\<open>k in d\<close>\<close>
  "dict_contains k d = (map_of d k \<noteq> None)"

definition dict_pop :: "string \<Rightarrow> dict \<Rightarrow> dict" where
  \<comment> \<open>the dictionary after \<^verbatim>\<open>d.pop(k, None)\<close>\<close>
  "dict_pop k d = filter (\<lambda>kv. fst kv \<noteq> k) d"

definition dict_getitem :: "dict \<Rightarrow> string \<Rightarrow> error + pyval" where
  \<comment> \<open>\<^verbatim>\<open>d[k]\<close>\<close>
  "dict_getitem d k = (case map_of d k of None \<Rightarrow> Inl (KeyError k) | Some v \<Rightarrow> Inr v)"

definition dict_get :: "dict \<Rightarrow> string \<Rightarrow> pyval \<Rightarrow> pyval" where
  \<comment> \<open>\<^verbatim>\<open>d.get(k, default)\<close>\<close>
  "dict_get d k dflt = (case map_of d k of None \<Rightarrow> dflt | Some v \<Rightarrow> v)"

text \<open>
  The operations that the catalog command applies to values of the remote API, whose
  type the source does not check: the truth value tested by \<^verbatim>\<open>if not response\<close>,
  \<^verbatim>\<open>response.get(k, default)\<close>, \<^verbatim>\<open>len(x)\<close> and \<^verbatim>\<open>x + y\<close>.
\<close>

fun truthy :: "pyval \<Rightarrow> bool" where
  "truthy PNone = False"
| "truthy (PBool b) = b"
| "truthy (PInt i) = (i \<noteq> 0)"
| "truthy (PStr s) = (s \<noteq> [])"
| "truthy (PList l) = (l \<noteq> [])"
| "truthy (PDict d) = (d \<noteq> [])"

fun py_get :: "pyval \<Rightarrow> string \<Rightarrow> pyval \<Rightarrow> error + pyval" where
  "py_get (PDict d) k dflt = Inr (dict_get d k dflt)"
| "py_get PNone k dflt = Inl AttributeError"
| "py_get (PBool b) k dflt = Inl AttributeError"
| "py_get (PInt i) k dflt = Inl AttributeError"
| "py_get (PStr s) k dflt = Inl AttributeError"
| "py_get (PList l) k dflt = Inl AttributeError"

fun py_len :: "pyval \<Rightarrow> error + nat" where
  "py_len (PStr s) = Inr (length s)"
| "py_len (PList l) = Inr (length l)"
| "py_len (PDict d) = Inr (length (remdups (map fst d)))"
| "py_len PNone = Inl TypeError"
| "py_len (PBool b) = Inl TypeError"
| "py_len (PInt i) = Inl TypeError"

fun py_int :: "pyval \<Rightarrow> int option" where
  \<comment> \<open>the numbers: \<^verbatim>\<open>bool\<close> is a subclass of \<^verbatim>\<open>int\<close>\<close>
  "py_int (PInt i) = Some i"
| "py_int (PBool b) = Some (if b then 1 else 0)"
| "py_int PNone = None"
| "py_int (PStr s) = None"
| "py_int (PList l) = None"
| "py_int (PDict d) = None"

definition py_add :: "pyval \<Rightarrow> pyval \<Rightarrow> error + pyval" where
  "py_add x y =
     (case (x, y) of
        (PList a, PList b) \<Rightarrow> Inr (PList (a @ b))
      | (PStr a, PStr b) \<Rightarrow> Inr (PStr (a @ b))
      | _ \<Rightarrow> (case (py_int x, py_int y) of
                (Some i, Some j) \<Rightarrow> Inr (PInt (i + j))
              | _ \<Rightarrow> Inl TypeError))"

section \<open>Data of the commands\<close>

text \<open>
  Modelled from the spec: the enumeration \<^verbatim>\<open>ValidationResponseStatus\<close> of
  \<^verbatim>\<open>cmlutils.script_models\<close> is not part of the module; the specification gives a
  validation result the two statuses PASSED and FAILED and a message.
\<close>

datatype ValidationResponseStatus = PASSED | FAILED

record validation_response =
  validation_status :: ValidationResponseStatus
  validation_msg :: string

text \<open>
  The local variables that the commands read from the configuration file (lines 92 to
  99 of the module), after \<^verbatim>\<open>get_absolute_path\<close>.
\<close>

record config =
  cfg_username :: string
  cfg_url :: string
  cfg_apiv1_key :: string
  cfg_output_dir :: string
  cfg_ca_path :: string

text \<open>
  The constructor arguments of \<^verbatim>\<open>ProjectImporter\<close>; \<^verbatim>\<open>ProjectExporter\<close> takes
  \<^verbatim>\<open>owner_type\<close> in addition. The user name and the slug receive values returned by
  the remote API or read from the metadata document, hence \<open>pyval\<close>.
\<close>

record ProjectImporter =
  host :: string
  username :: pyval
  project_name :: string
  api_key :: string
  top_level_dir :: string
  ca_path :: string
  project_slug :: pyval

record ProjectExporter = ProjectImporter +
  owner_type :: pyval

text \<open>The keyword arguments of the two validator factories (the import one has no slug).\<close>

record validator_args =
  v_host :: string
  v_username :: pyval
  v_project_name :: string
  v_top_level_directory :: string
  v_apiv1_key :: string
  v_ca_path :: string
  v_project_slug :: "pyval option"

text \<open>
  What a file opened by the command itself holds: a complete JSON dump of a value, or
  the incomplete text that \<^verbatim>\<open>open(path, "w")\<close> leaves until the dump has finished
  and the file has been closed.
\<close>

datatype content = Json pyval | Incomplete

section \<open>Observable events\<close>

text \<open>
  Every call to a collaborator is recorded with its arguments and with what it
  returned or raised. \<open>Log_exception e\<close> is \<^verbatim>\<open>logging.error("Exception:", exc_info=1)\<close>
  inside a handler that caught \<open>e\<close>; \<open>Exit\<close> is the call of \<^verbatim>\<open>exit()\<close>.
\<close>

datatype log_level = INFO | WARNING | ERROR

datatype event =
    Configure string string "error + config"
  | Log log_level string "pyval list"
  | Log_exception error
  | Exit
  | Exporter_get_creator_username ProjectExporter "error + pyval \<times> pyval \<times> pyval"
  | Initialize_validators validator_args "error + nat"
  | Validate nat "error + validation_response"
  | Transfer_project_files ProjectExporter "error + unit"
  | Dump_project_and_related_metadata ProjectExporter "error + unit"
  | Exporter_terminate_ssh_session ProjectExporter "error + unit"
  | Get_project_metadata_file_path string string "error + string"
  | Read_json_file string "error + dict"
  | Check_project_exist ProjectImporter pyval "error + pyval"
  | Create_project_v2 ProjectImporter dict "error + pyval"
  | Importer_get_creator_username ProjectImporter "error + pyval \<times> pyval"
  | Transfer_project ProjectImporter "error + unit"
  | Importer_terminate_ssh_session ProjectImporter "error + unit"
  | Convert_project_to_engine_based ProjectImporter dict "error + unit"
  | Import_metadata ProjectImporter pyval "error + unit"
  | Get_all_runtimes_v2 ProjectImporter pyval "error + pyval"
  | Parse_runtimes_v2 pyval "error + pyval"
  | Open_w string "error + unit"
  | Json_dump pyval string "error + unit"
  | Close_w string "error + unit"

section \<open>State and collaborators\<close>

text \<open>
  \<open>world\<close> is everything outside the command (the remote installations, the SSH
  session, the disk as the collaborators see it); \<open>files\<close> holds the files that the
  command opens itself; \<open>trace\<close> is the list of events so far; \<open>handle\<close> is the
  local variable \<^verbatim>\<open>pexport\<close> or \<^verbatim>\<open>pimport\<close>, which the exception handler
  reads.
\<close>

record ('w, 'h) state =
  world :: 'w
  files :: "string \<rightharpoonup> content"
  trace :: "event list"
  handle :: "'h option"

type_synonym ('w, 'a) action = "'w \<Rightarrow> (error + 'a) \<times> 'w"

type_synonym ('w, 'h, 'a) prog = "('w, 'h) state \<Rightarrow> (error + 'a) \<times> ('w, 'h) state"

text \<open>
  The collaborators. Each one may change the world and either returns or raises.
  \<open>configure file name\<close> stands for the prefix of each command: reading the section
  \<open>name\<close> of the configuration file, making the two paths absolute and configuring
  the log. \<open>home\<close> is \<^verbatim>\<open>os.path.expanduser("~")\<close>.
\<close>

record 'w env =
  home :: string
  configure :: "string \<Rightarrow> string \<Rightarrow> ('w, config) action"
  exporter_get_creator_username :: "ProjectExporter \<Rightarrow> ('w, pyval \<times> pyval \<times> pyval) action"
  initialize_export_validators :: "validator_args \<Rightarrow> ('w, ('w, validation_response) action list) action"
  transfer_project_files :: "ProjectExporter \<Rightarrow> ('w, unit) action"
  dump_project_and_related_metadata :: "ProjectExporter \<Rightarrow> ('w, unit) action"
  exporter_terminate_ssh_session :: "ProjectExporter \<Rightarrow> ('w, unit) action"
  initialize_import_validators :: "validator_args \<Rightarrow> ('w, ('w, validation_response) action list) action"
  get_project_metadata_file_path :: "string \<Rightarrow> string \<Rightarrow> ('w, string) action"
  read_json_file :: "string \<Rightarrow> ('w, dict) action"
  check_project_exist :: "ProjectImporter \<Rightarrow> pyval \<Rightarrow> ('w, pyval) action"
  create_project_v2 :: "ProjectImporter \<Rightarrow> dict \<Rightarrow> ('w, pyval) action"
  importer_get_creator_username :: "ProjectImporter \<Rightarrow> ('w, pyval \<times> pyval) action"
  transfer_project :: "ProjectImporter \<Rightarrow> ('w, unit) action"
  importer_terminate_ssh_session :: "ProjectImporter \<Rightarrow> ('w, unit) action"
  convert_project_to_engine_based :: "ProjectImporter \<Rightarrow> dict \<Rightarrow> ('w, unit) action"
  import_metadata :: "ProjectImporter \<Rightarrow> pyval \<Rightarrow> ('w, unit) action"
  get_all_runtimes_v2 :: "ProjectImporter \<Rightarrow> pyval \<Rightarrow> ('w, pyval) action"
  parse_runtimes_v2 :: "pyval \<Rightarrow> ('w, pyval) action"
  open_w :: "string \<Rightarrow> ('w, unit) action"
  json_dump :: "pyval \<Rightarrow> string \<Rightarrow> ('w, unit) action"
  close_w :: "string \<Rightarrow> ('w, unit) action"

section \<open>Sequencing, raising and handling\<close>

definition ret :: "'a \<Rightarrow> ('w, 'h, 'a) prog" where
  "ret x s = (Inr x, s)"

definition raise :: "error \<Rightarrow> ('w, 'h, 'a) prog" where
  "raise e s = (Inl e, s)"

definition seq :: "('w, 'h, 'a) prog \<Rightarrow> ('a \<Rightarrow> ('w, 'h, 'b) prog) \<Rightarrow> ('w, 'h, 'b) prog" where
  "seq m k s = (case m s of (Inl e, s') \<Rightarrow> (Inl e, s') | (Inr x, s') \<Rightarrow> k x s')"

definition try_except :: "('w, 'h, 'a) prog \<Rightarrow> (error \<Rightarrow> ('w, 'h, 'a) prog) \<Rightarrow> ('w, 'h, 'a) prog" where
  "try_except m h s = (case m s of (Inl e, s') \<Rightarrow> h e s' | (Inr x, s') \<Rightarrow> (Inr x, s'))"

definition emit :: "event \<Rightarrow> ('w, 'h, unit) prog" where
  "emit ev s = (Inr (), s\<lparr>trace := trace s @ [ev]\<rparr>)"

definition call :: "((error + 'a) \<Rightarrow> event) \<Rightarrow> ('w, 'a) action \<Rightarrow> ('w, 'h, 'a) prog" where
  "call ev f s = (case f (world s) of (r, w') \<Rightarrow> (r, s\<lparr>world := w', trace := trace s @ [ev r]\<rparr>))"

definition assign :: "'h option \<Rightarrow> ('w, 'h, unit) prog" where
  "assign v s = (Inr (), s\<lparr>handle := v\<rparr>)"

definition outcome :: "('a \<Rightarrow> 'b) \<Rightarrow> error + 'a \<Rightarrow> error + 'b" where
  "outcome f r = (case r of Inl e \<Rightarrow> Inl e | Inr x \<Rightarrow> Inr (f x))"

section \<open>The validator chain\<close>

text \<open>
  The loop \<^verbatim>\<open>for v in validators\<close> of both commands (lines 134 to 144 and 212 to
  222). The two copies differ in the format string of the logged error only, which is
  the parameter \<open>fmt\<close>; \<open>i\<close> is the position of the validator in the chain.
\<close>

fun run_validators ::
  "string \<Rightarrow> string \<Rightarrow> ('w, validation_response) action list \<Rightarrow> nat \<Rightarrow> ('w, 'h, unit) prog" where
  "run_validators fmt pname [] i = ret ()"
| "run_validators fmt pname (v # vs) i =
     seq (call (Validate i) v) (\<lambda>validation_response.
       if validation_status validation_response = FAILED then
         seq (emit (Log ERROR fmt [PStr pname, PStr (validation_msg validation_response)])) (\<lambda>_.
           raise (RuntimeError [''validation error'', validation_msg validation_response]))
       else run_validators fmt pname vs (Suc i))"

section \<open>The export command\<close>

definition new_ProjectExporter :: "config \<Rightarrow> string \<Rightarrow> pyval \<Rightarrow> pyval \<Rightarrow> pyval \<Rightarrow> ProjectExporter" where
  "new_ProjectExporter config pname user slug otype =
     \<lparr>host = cfg_url config, username = user, project_name = pname,
      api_key = cfg_apiv1_key config, top_level_dir = cfg_output_dir config,
      ca_path = cfg_ca_path config, project_slug = slug, owner_type = otype\<rparr>"

text \<open>The keyword arguments of \<^verbatim>\<open>initialize_export_validators\<close> (lines 125 to 133).\<close>

definition export_validator_args :: "config \<Rightarrow> string \<Rightarrow> pyval \<Rightarrow> pyval \<Rightarrow> validator_args" where
  "export_validator_args config pname creator_username slug =
     \<lparr>v_host = cfg_url config, v_username = creator_username, v_project_name = pname,
      v_top_level_directory = cfg_output_dir config, v_apiv1_key = cfg_apiv1_key config,
      v_ca_path = cfg_ca_path config, v_project_slug = Some slug\<rparr>"

text \<open>The handler of the bare \<^verbatim>\<open>except:\<close> (lines 161 to 165).\<close>

definition export_handler :: "'w env \<Rightarrow> error \<Rightarrow> ('w, ProjectExporter, unit) prog" where
  "export_handler env e =
     seq (emit (Log_exception e)) (\<lambda>_.
     seq (\<lambda>s. (case handle s of
                 None \<Rightarrow> ret ()
               | Some pexport \<Rightarrow>
                   call (Exporter_terminate_ssh_session pexport)
                     (exporter_terminate_ssh_session env pexport)) s) (\<lambda>_.
     seq (emit Exit) (\<lambda>_.
     raise SystemExit)))"

text \<open>The body of the \<^verbatim>\<open>try\<close> (lines 105 to 160).\<close>

definition project_export_body :: "'w env \<Rightarrow> config \<Rightarrow> string \<Rightarrow> ('w, ProjectExporter, unit) prog" where
  "project_export_body env config pname =
    (let pobj = new_ProjectExporter config pname (PStr (cfg_username config)) (PStr pname) (PStr '''') in
     seq (call (Exporter_get_creator_username pobj) (exporter_get_creator_username env pobj))
       (\<lambda>(creator_username, project_slug, owner_type).
     seq (if creator_username = PNone then
            seq (emit (Log ERROR ''Validation error: Cannot find project - %s under username %s''
                        [PStr pname, PStr (cfg_username config)])) (\<lambda>_.
            raise (RuntimeError [''Validation error'']))
          else ret ()) (\<lambda>_.
     seq (emit (Log INFO ''Begin validating for export.'' [])) (\<lambda>_.
     let args = export_validator_args config pname creator_username project_slug in
     seq (call (\<lambda>r. Initialize_validators args (outcome length r))
            (initialize_export_validators env args)) (\<lambda>validators.
     seq (run_validators ''Validation error: %s'' pname validators 0) (\<lambda>_.
     seq (emit (Log INFO ''Finished validating export validations for project %s.'' [PStr pname])) (\<lambda>_.
     seq (emit (Log INFO ''File transfer has started.'' [])) (\<lambda>_.
     let pexport = new_ProjectExporter config pname creator_username project_slug owner_type in
     seq (assign (Some pexport)) (\<lambda>_.
     seq (call (Transfer_project_files pexport) (transfer_project_files env pexport)) (\<lambda>_.
     call (Dump_project_and_related_metadata pexport)
       (dump_project_and_related_metadata env pexport)))))))))))"

text \<open>
  \<^verbatim>\<open>project_export_cmd\<close> (lines 86 to 165). The result \<open>Inr ()\<close> is the normal
  return, \<open>Inl SystemExit\<close> the exit through the handler, any other \<open>Inl e\<close> an
  exception that leaves the command.
\<close>

definition project_export_cmd :: "'w env \<Rightarrow> string \<Rightarrow> ('w, ProjectExporter, unit) prog" where
  "project_export_cmd env pname =
     seq (assign None) (\<lambda>_.
     seq (call (Configure ''export-config.ini'' pname) (configure env ''export-config.ini'' pname)) (\<lambda>config.
     seq (emit (Log INFO ''Started exporting project: %s'' [PStr pname])) (\<lambda>_.
     try_except (project_export_body env config pname) (export_handler env))))"

section \<open>The import command\<close>

definition new_ProjectImporter :: "config \<Rightarrow> string \<Rightarrow> pyval \<Rightarrow> pyval \<Rightarrow> ProjectImporter" where
  "new_ProjectImporter config pname user slug =
     \<lparr>host = cfg_url config, username = user, project_name = pname,
      api_key = cfg_apiv1_key config, top_level_dir = cfg_output_dir config,
      ca_path = cfg_ca_path config, project_slug = slug\<rparr>"

text \<open>The keyword arguments of \<^verbatim>\<open>initialize_import_validators\<close> (lines 203 to 210).\<close>

definition import_validator_args :: "config \<Rightarrow> string \<Rightarrow> validator_args" where
  "import_validator_args config pname =
     \<lparr>v_host = cfg_url config, v_username = PStr (cfg_username config), v_project_name = pname,
      v_top_level_directory = cfg_output_dir config, v_apiv1_key = cfg_apiv1_key config,
      v_ca_path = cfg_ca_path config, v_project_slug = None\<rparr>"

text \<open>The handler of the bare \<^verbatim>\<open>except:\<close> (lines 269 to 273).\<close>

definition import_handler :: "'w env \<Rightarrow> error \<Rightarrow> ('w, ProjectImporter, unit) prog" where
  "import_handler env e =
     seq (emit (Log_exception e)) (\<lambda>_.
     seq (\<lambda>s. (case handle s of
                 None \<Rightarrow> ret ()
               | Some pimport \<Rightarrow>
                   call (Importer_terminate_ssh_session pimport)
                     (importer_terminate_ssh_session env pimport)) s) (\<lambda>_.
     seq (emit Exit) (\<lambda>_.
     raise SystemExit)))"

definition legacy_engine_key :: string where
  "legacy_engine_key = ''default_project_engine_type''"

definition already_exists_warning :: string where
  "already_exists_warning =
     ''Project %s already exist in the target workspace. Retrying the import won't update existing project settings or artifacts. Only missing artifacts will be migrated, However the project files will be synced via rsync.''"

text \<open>
  Lines 226 to 249: reading the metadata document, finding or creating the
  destination project and choosing the acting user. \<open>p\<close> is the importer built at
  line 192. The block leaves the values of \<^verbatim>\<open>uses_engine\<close>, \<^verbatim>\<open>project_id\<close>,
  \<^verbatim>\<open>username\<close> and \<^verbatim>\<open>project_slug\<close>.
\<close>

definition import_prepare ::
  "'w env \<Rightarrow> config \<Rightarrow> string \<Rightarrow> ProjectImporter \<Rightarrow> ('w, 'h, bool \<times> pyval \<times> pyval \<times> pyval) prog" where
  "import_prepare env config pname p =
     seq (call (Get_project_metadata_file_path (cfg_output_dir config) pname)
            (get_project_metadata_file_path env (cfg_output_dir config) pname)) (\<lambda>project_filepath.
     seq (call (Read_json_file project_filepath) (read_json_file env project_filepath)) (\<lambda>read_metadata.
     let uses_engine = dict_contains legacy_engine_key read_metadata;
         project_metadata = (if uses_engine then dict_pop legacy_engine_key read_metadata
                             else read_metadata) in
     seq (\<lambda>s. (dict_getitem project_metadata ''name'', s)) (\<lambda>name.
     seq (call (Check_project_exist p name) (check_project_exist env p name)) (\<lambda>found_id.
     seq (if found_id = PNone then
            seq (emit (Log INFO ''Creating project %s to migrate files and metadata.'' [PStr pname])) (\<lambda>_.
            call (Create_project_v2 p project_metadata) (create_project_v2 env p project_metadata))
          else
            seq (emit (Log WARNING already_exists_warning [dict_get project_metadata ''name'' (PStr '''')])) (\<lambda>_.
            ret found_id)) (\<lambda>project_id.
     let user = (if dict_contains ''team_name'' project_metadata
                 then dict_get project_metadata ''team_name'' PNone
                 else PStr (cfg_username config)) in
     seq (call (Importer_get_creator_username p) (importer_get_creator_username env p))
       (\<lambda>(creator_username, project_slug).
     ret (uses_engine, project_id, user, project_slug)))))))"

text \<open>Lines 259 to 268: the transfer, the end of the session and the metadata.\<close>

definition import_transfer ::
  "'w env \<Rightarrow> ProjectImporter \<Rightarrow> bool \<Rightarrow> pyval \<Rightarrow> ('w, 'h, unit) prog" where
  "import_transfer env pimport uses_engine project_id =
     seq (call (Transfer_project pimport) (transfer_project env pimport)) (\<lambda>_.
     seq (call (Importer_terminate_ssh_session pimport) (importer_terminate_ssh_session env pimport)) (\<lambda>_.
     seq (if uses_engine then
            call (Convert_project_to_engine_based pimport [(legacy_engine_key, PStr ''legacy_engine'')])
              (convert_project_to_engine_based env pimport [(legacy_engine_key, PStr ''legacy_engine'')])
          else ret ()) (\<lambda>_.
     call (Import_metadata pimport project_id) (import_metadata env pimport project_id))))"

text \<open>
  Lines 226 to 268, the second half of the \<^verbatim>\<open>try\<close>: the two blocks, joined by
  the construction of \<^verbatim>\<open>pimport\<close> (lines 250 to 258).
\<close>

definition import_project ::
  "'w env \<Rightarrow> config \<Rightarrow> string \<Rightarrow> ProjectImporter \<Rightarrow> ('w, ProjectImporter, unit) prog" where
  "import_project env config pname p =
     seq (import_prepare env config pname p) (\<lambda>(uses_engine, project_id, user, project_slug).
     let pimport = new_ProjectImporter config pname user project_slug in
     seq (assign (Some pimport)) (\<lambda>_.
     import_transfer env pimport uses_engine project_id))"

text \<open>The body of the \<^verbatim>\<open>try\<close> (lines 203 to 268).\<close>

definition project_import_body ::
  "'w env \<Rightarrow> config \<Rightarrow> string \<Rightarrow> ProjectImporter \<Rightarrow> ('w, ProjectImporter, unit) prog" where
  "project_import_body env config pname p =
    (let args = import_validator_args config pname in
     seq (call (\<lambda>r. Initialize_validators args (outcome length r))
            (initialize_import_validators env args)) (\<lambda>validators.
     seq (emit (Log INFO ''Begin validating for import.'' [])) (\<lambda>_.
     seq (run_validators ''Validation error for project %s: %s'' pname validators 0) (\<lambda>_.
     seq (emit (Log INFO ''Finished validating import validations for project %s.'' [PStr pname])) (\<lambda>_.
     import_project env config pname p)))))"

text \<open>\<^verbatim>\<open>project_import_cmd\<close> (lines 175 to 273).\<close>

definition project_import_cmd :: "'w env \<Rightarrow> string \<Rightarrow> ('w, ProjectImporter, unit) prog" where
  "project_import_cmd env pname =
     seq (assign None) (\<lambda>_.
     seq (call (Configure ''import-config.ini'' pname) (configure env ''import-config.ini'' pname)) (\<lambda>config.
     let p = new_ProjectImporter config pname (PStr (cfg_username config)) (PStr pname) in
     seq (emit (Log INFO ''Started importing project: %s'' [PStr pname])) (\<lambda>_.
     try_except (project_import_body env config pname p) (import_handler env))))"

section \<open>The runtime catalog command\<close>

definition catalog_path :: "'w env \<Rightarrow> string" where
  "catalog_path env = home env @ ''/.cmlutils/'' @ ''legacy_engine_runtime_constants.json''"

text \<open>
  The loop \<^verbatim>\<open>while len(page_token) > 0\<close> (lines 323 to 328). Nothing bounds the
  number of pages, so the loop is a partial function: \<open>None\<close> is a run that never
  leaves the loop. A falsy response leaves the loop by \<^verbatim>\<open>break\<close>, with the runtimes
  aggregated so far.
\<close>

partial_function (option) fetch_pages ::
  "'w env \<Rightarrow> ProjectImporter \<Rightarrow> pyval \<Rightarrow> pyval \<Rightarrow> ('w, 'h) state
     \<Rightarrow> ((error + pyval) \<times> ('w, 'h) state) option" where
  "fetch_pages env p runtimes page_token s =
     (case py_len page_token of
        Inl e \<Rightarrow> Some (Inl e, s)
      | Inr n \<Rightarrow>
          if n > 0 then
            (case call (Get_all_runtimes_v2 p page_token) (get_all_runtimes_v2 env p page_token) s of
               (Inl e, s') \<Rightarrow> Some (Inl e, s')
             | (Inr response, s') \<Rightarrow>
                 if \<not> truthy response then Some (Inr runtimes, s')
                 else
                   (case py_get response ''runtimes'' (PList []) of
                      Inl e \<Rightarrow> Some (Inl e, s')
                    | Inr rs \<Rightarrow>
                        (case py_add runtimes rs of
                           Inl e \<Rightarrow> Some (Inl e, s')
                         | Inr runtimes' \<Rightarrow>
                             (case py_get response ''next_page_token'' (PStr []) of
                                Inl e \<Rightarrow> Some (Inl e, s')
                              | Inr page_token' \<Rightarrow> fetch_pages env p runtimes' page_token' s'))))
          else Some (Inr runtimes, s))"

text \<open>
  The \<^verbatim>\<open>with open(path, "w") as f: dump(map, f)\<close> of lines 341 to 347. Opening
  truncates the file. The file is closed when the block is left, also when the dump
  raised, and closing can raise as well; the file holds the complete document once the
  dump has returned and the file has been closed.
\<close>

definition set_content :: "string \<Rightarrow> content \<Rightarrow> ('w, 'h, unit) prog" where
  "set_content path c s = (Inr (), s\<lparr>files := (files s)(path \<mapsto> c)\<rparr>)"

definition write_catalog :: "'w env \<Rightarrow> pyval \<Rightarrow> ('w, 'h, unit) prog" where
  "write_catalog env legacy_runtime_image_map =
     seq (call (Open_w (catalog_path env)) (open_w env (catalog_path env))) (\<lambda>_.
     seq (set_content (catalog_path env) Incomplete) (\<lambda>_.
     seq (try_except
            (call (Json_dump legacy_runtime_image_map (catalog_path env))
               (json_dump env legacy_runtime_image_map (catalog_path env)))
            (\<lambda>e. seq (call (Close_w (catalog_path env)) (close_w env (catalog_path env))) (\<lambda>_.
                  raise e))) (\<lambda>_.
     seq (call (Close_w (catalog_path env)) (close_w env (catalog_path env))) (\<lambda>_.
     set_content (catalog_path env) (Json legacy_runtime_image_map)))))"

text \<open>Lines 330 to 355: what the command does with the aggregated runtimes.\<close>

definition store_runtimes :: "'w env \<Rightarrow> pyval \<Rightarrow> ('w, 'h, unit) prog" where
  "store_runtimes env runtimes =
     seq (\<lambda>s. (py_len runtimes, s)) (\<lambda>n.
     if n > 0 then
       seq (call (Parse_runtimes_v2 runtimes) (parse_runtimes_v2 env runtimes)) (\<lambda>legacy_runtime_image_map.
       try_except (write_catalog env legacy_runtime_image_map) (\<lambda>e.
         emit (Log ERROR ''populate_engine_runtimes_mapping: Please make sure Write Perms are set write/overwrite data.Encountered Error during write/overwrite data in ''
                 [PStr (catalog_path env)])))
     else
       emit (Log ERROR ''populate_engine_runtimes_mapping: No runtimes present in the get_runtimes API response'' []))"

text \<open>\<^verbatim>\<open>populate_engine_runtimes_mapping\<close> (lines 284 to 355).\<close>

definition populate_engine_runtimes_mapping ::
  "'w env \<Rightarrow> ('w, 'h) state \<Rightarrow> ((error + unit) \<times> ('w, 'h) state) option" where
  "populate_engine_runtimes_mapping env s =
     (case call (Configure ''import-config.ini'' ''DEFAULT'') (configure env ''import-config.ini'' ''DEFAULT'') s of
        (Inl e, s1) \<Rightarrow> Some (Inl e, s1)
      | (Inr config, s1) \<Rightarrow>
          (let p = new_ProjectImporter config ''DEFAULT'' (PStr (cfg_username config)) (PStr ''DEFAULT'');
               page_token = PStr [] in
           case call (Get_all_runtimes_v2 p page_token) (get_all_runtimes_v2 env p page_token) s1 of
             (Inl e, s2) \<Rightarrow> Some (Inl e, s2)
           | (Inr response, s2) \<Rightarrow>
               if \<not> truthy response then
                 Some (emit (Log INFO ''populate_engine_runtimes_mapping: Get Runtimes API returned empty response'' []) s2)
               else
                 (case py_get response ''runtimes'' (PList []) of
                    Inl e \<Rightarrow> Some (Inl e, s2)
                  | Inr runtimes \<Rightarrow>
                      (case py_get response ''next_page_token'' (PStr []) of
                         Inl e \<Rightarrow> Some (Inl e, s2)
                       | Inr page_token' \<Rightarrow>
                           (case fetch_pages env p runtimes page_token' s2 of
                              None \<Rightarrow> None
                            | Some (Inl e, s3) \<Rightarrow> Some (Inl e, s3)
                            | Some (Inr runtimes', s3) \<Rightarrow> Some (store_runtimes env runtimes' s3))))))"

section \<open>Runs of the commands\<close>

text \<open>A command starts with an empty trace and no handle.\<close>

definition initial :: "'w \<Rightarrow> (string \<rightharpoonup> content) \<Rightarrow> ('w, 'h) state" where
  "initial w fs = \<lparr>world = w, files = fs, trace = [], handle = None\<rparr>"

text \<open>
  The remaining definitions of this section describe the event sequences that the
  blocks of the commands can leave, one rule for each way through a block. They are
  used in the proofs only: each is shown to cover every run of its block.
\<close>

definition acting_user :: "config \<Rightarrow> dict \<Rightarrow> pyval" where
  "acting_user cfg md =
     (case map_of md ''team_name'' of Some t \<Rightarrow> t | None \<Rightarrow> PStr (cfg_username cfg))"

inductive validation :: "string \<Rightarrow> string \<Rightarrow> nat \<Rightarrow> event list \<Rightarrow> error + unit \<Rightarrow> bool"
  for fmt pn where
  all_passed: "validation fmt pn i [] (Inr ())"
| raised: "validation fmt pn i [Validate i (Inl e)] (Inl e)"
| failed: "validation_status resp = FAILED \<Longrightarrow>
    validation fmt pn i [Validate i (Inr resp), Log ERROR fmt [PStr pn, PStr (validation_msg resp)]]
      (Inl (RuntimeError [''validation error'', validation_msg resp]))"
| passed: "validation_status resp \<noteq> FAILED \<Longrightarrow> validation fmt pn (Suc i) evs r \<Longrightarrow>
    validation fmt pn i (Validate i (Inr resp) # evs) r"

inductive prepared :: "config \<Rightarrow> string \<Rightarrow> ProjectImporter \<Rightarrow> event list
    \<Rightarrow> error + bool \<times> pyval \<times> pyval \<times> pyval \<Rightarrow> bool" for cfg pn p where
  path_raised:
    "prepared cfg pn p [Get_project_metadata_file_path (cfg_output_dir cfg) pn (Inl e)] (Inl e)"
| read_raised:
    "prepared cfg pn p
       [Get_project_metadata_file_path (cfg_output_dir cfg) pn (Inr path),
        Read_json_file path (Inl e)] (Inl e)"
| no_name:
    "map_of md ''name'' = None \<Longrightarrow>
     prepared cfg pn p
       [Get_project_metadata_file_path (cfg_output_dir cfg) pn (Inr path),
        Read_json_file path (Inr md)] (Inl (KeyError ''name''))"
| check_raised:
    "map_of md ''name'' = Some name \<Longrightarrow>
     prepared cfg pn p
       [Get_project_metadata_file_path (cfg_output_dir cfg) pn (Inr path),
        Read_json_file path (Inr md),
        Check_project_exist p name (Inl e)] (Inl e)"
| create_raised:
    "map_of md ''name'' = Some name \<Longrightarrow> pm = dict_pop legacy_engine_key md \<Longrightarrow>
     prepared cfg pn p
       [Get_project_metadata_file_path (cfg_output_dir cfg) pn (Inr path),
        Read_json_file path (Inr md),
        Check_project_exist p name (Inr PNone),
        Log INFO ''Creating project %s to migrate files and metadata.'' [PStr pn],
        Create_project_v2 p pm (Inl e)] (Inl e)"
| created:
    "map_of md ''name'' = Some name \<Longrightarrow> pm = dict_pop legacy_engine_key md \<Longrightarrow>
     r = outcome (\<lambda>(creator, slug). (dict_contains legacy_engine_key md, pid, acting_user cfg md, slug)) x \<Longrightarrow>
     prepared cfg pn p
       [Get_project_metadata_file_path (cfg_output_dir cfg) pn (Inr path),
        Read_json_file path (Inr md),
        Check_project_exist p name (Inr PNone),
        Log INFO ''Creating project %s to migrate files and metadata.'' [PStr pn],
        Create_project_v2 p pm (Inr pid),
        Importer_get_creator_username p x] r"
| existing:
    "map_of md ''name'' = Some name \<Longrightarrow> found \<noteq> PNone \<Longrightarrow>
     r = outcome (\<lambda>(creator, slug). (dict_contains legacy_engine_key md, found, acting_user cfg md, slug)) x \<Longrightarrow>
     prepared cfg pn p
       [Get_project_metadata_file_path (cfg_output_dir cfg) pn (Inr path),
        Read_json_file path (Inr md),
        Check_project_exist p name (Inr found),
        Log WARNING already_exists_warning [name],
        Importer_get_creator_username p x] r"

inductive transferred :: "ProjectImporter \<Rightarrow> bool \<Rightarrow> pyval \<Rightarrow> event list \<Rightarrow> error + unit \<Rightarrow> bool"
  for pi ue pid where
  transfer_raised:
    "transferred pi ue pid [Transfer_project pi (Inl e)] (Inl e)"
| close_raised:
    "transferred pi ue pid
       [Transfer_project pi (Inr ()), Importer_terminate_ssh_session pi (Inl e)] (Inl e)"
| convert_raised:
    "ue \<Longrightarrow> transferred pi ue pid
       [Transfer_project pi (Inr ()), Importer_terminate_ssh_session pi (Inr ()),
        Convert_project_to_engine_based pi [(legacy_engine_key, PStr ''legacy_engine'')] (Inl e)] (Inl e)"
| converted:
    "ue \<Longrightarrow> transferred pi ue pid
       [Transfer_project pi (Inr ()), Importer_terminate_ssh_session pi (Inr ()),
        Convert_project_to_engine_based pi [(legacy_engine_key, PStr ''legacy_engine'')] (Inr ()),
        Import_metadata pi pid x] x"
| unconverted:
    "\<not> ue \<Longrightarrow> transferred pi ue pid
       [Transfer_project pi (Inr ()), Importer_terminate_ssh_session pi (Inr ()),
        Import_metadata pi pid x] x"

inductive import_handled :: "error \<Rightarrow> ProjectImporter option \<Rightarrow> event list \<Rightarrow> error + unit \<Rightarrow> bool"
  for e where
  no_session: "import_handled e None [Log_exception e, Exit] (Inl SystemExit)"
| closed: "import_handled e (Some pi)
     [Log_exception e, Importer_terminate_ssh_session pi (Inr ()), Exit] (Inl SystemExit)"
| close_failed: "import_handled e (Some pi)
     [Log_exception e, Importer_terminate_ssh_session pi (Inl e')] (Inl e')"

inductive import_body_run :: "string \<Rightarrow> config \<Rightarrow> error + unit \<Rightarrow> event list \<Rightarrow> bool"
  for pn cfg where
  no_validators:
    "import_handled e None hevs r \<Longrightarrow>
     import_body_run pn cfg r
       (Initialize_validators (import_validator_args cfg pn) (Inl e) # hevs)"
| invalid:
    "validation ''Validation error for project %s: %s'' pn 0 vevs (Inl e) \<Longrightarrow>
     import_handled e None hevs r \<Longrightarrow>
     import_body_run pn cfg r
       (Initialize_validators (import_validator_args cfg pn) (Inr n) #
        Log INFO ''Begin validating for import.'' [] # vevs @ hevs)"
| unprepared:
    "validation ''Validation error for project %s: %s'' pn 0 vevs (Inr ()) \<Longrightarrow>
     prepared cfg pn (new_ProjectImporter cfg pn (PStr (cfg_username cfg)) (PStr pn)) pevs (Inl e) \<Longrightarrow>
     import_handled e None hevs r \<Longrightarrow>
     import_body_run pn cfg r
       (Initialize_validators (import_validator_args cfg pn) (Inr n) #
        Log INFO ''Begin validating for import.'' [] # vevs @
        Log INFO ''Finished validating import validations for project %s.'' [PStr pn] # pevs @ hevs)"
| failed:
    "validation ''Validation error for project %s: %s'' pn 0 vevs (Inr ()) \<Longrightarrow>
     prepared cfg pn (new_ProjectImporter cfg pn (PStr (cfg_username cfg)) (PStr pn)) pevs
       (Inr (ue, pid, user, slug)) \<Longrightarrow>
     transferred (new_ProjectImporter cfg pn user slug) ue pid tevs (Inl e) \<Longrightarrow>
     import_handled e (Some (new_ProjectImporter cfg pn user slug)) hevs r \<Longrightarrow>
     import_body_run pn cfg r
       (Initialize_validators (import_validator_args cfg pn) (Inr n) #
        Log INFO ''Begin validating for import.'' [] # vevs @
        Log INFO ''Finished validating import validations for project %s.'' [PStr pn] #
        pevs @ tevs @ hevs)"
| completed:
    "validation ''Validation error for project %s: %s'' pn 0 vevs (Inr ()) \<Longrightarrow>
     prepared cfg pn (new_ProjectImporter cfg pn (PStr (cfg_username cfg)) (PStr pn)) pevs
       (Inr (ue, pid, user, slug)) \<Longrightarrow>
     transferred (new_ProjectImporter cfg pn user slug) ue pid tevs (Inr ()) \<Longrightarrow>
     import_body_run pn cfg (Inr ())
       (Initialize_validators (import_validator_args cfg pn) (Inr n) #
        Log INFO ''Begin validating for import.'' [] # vevs @
        Log INFO ''Finished validating import validations for project %s.'' [PStr pn] #
        pevs @ tevs)"

inductive import_run :: "string \<Rightarrow> error + unit \<Rightarrow> event list \<Rightarrow> bool" for pn where
  no_config: "import_run pn (Inl e) [Configure ''import-config.ini'' pn (Inl e)]"
| configured:
    "import_body_run pn cfg r evs \<Longrightarrow>
     import_run pn r
       (Configure ''import-config.ini'' pn (Inr cfg) #
        Log INFO ''Started importing project: %s'' [PStr pn] # evs)"

inductive export_body_run ::
  "string \<Rightarrow> config \<Rightarrow> ProjectExporter option \<Rightarrow> error + unit \<Rightarrow> event list \<Rightarrow> bool"
  for pn cfg where
  creator_raised:
    "export_body_run pn cfg None (Inl e)
       [Exporter_get_creator_username
          (new_ProjectExporter cfg pn (PStr (cfg_username cfg)) (PStr pn) (PStr '''')) (Inl e)]"
| not_found:
    "export_body_run pn cfg None (Inl (RuntimeError [''Validation error'']))
       [Exporter_get_creator_username
          (new_ProjectExporter cfg pn (PStr (cfg_username cfg)) (PStr pn) (PStr ''''))
          (Inr (PNone, slug, otype)),
        Log ERROR ''Validation error: Cannot find project - %s under username %s''
          [PStr pn, PStr (cfg_username cfg)]]"
| no_validators:
    "creator \<noteq> PNone \<Longrightarrow>
     export_body_run pn cfg None (Inl e)
       [Exporter_get_creator_username
          (new_ProjectExporter cfg pn (PStr (cfg_username cfg)) (PStr pn) (PStr ''''))
          (Inr (creator, slug, otype)),
        Log INFO ''Begin validating for export.'' [],
        Initialize_validators (export_validator_args cfg pn creator slug) (Inl e)]"
| invalid:
    "creator \<noteq> PNone \<Longrightarrow> validation ''Validation error: %s'' pn 0 vevs (Inl e) \<Longrightarrow>
     export_body_run pn cfg None (Inl e)
       (Exporter_get_creator_username
          (new_ProjectExporter cfg pn (PStr (cfg_username cfg)) (PStr pn) (PStr ''''))
          (Inr (creator, slug, otype)) #
        Log INFO ''Begin validating for export.'' [] #
        Initialize_validators (export_validator_args cfg pn creator slug) (Inr n) # vevs)"
| transfer_raised:
    "creator \<noteq> PNone \<Longrightarrow> validation ''Validation error: %s'' pn 0 vevs (Inr ()) \<Longrightarrow>
     pe = new_ProjectExporter cfg pn creator slug otype \<Longrightarrow>
     export_body_run pn cfg (Some pe) (Inl e)
       (Exporter_get_creator_username
          (new_ProjectExporter cfg pn (PStr (cfg_username cfg)) (PStr pn) (PStr ''''))
          (Inr (creator, slug, otype)) #
        Log INFO ''Begin validating for export.'' [] #
        Initialize_validators (export_validator_args cfg pn creator slug) (Inr n) # vevs @
        [Log INFO ''Finished validating export validations for project %s.'' [PStr pn],
         Log INFO ''File transfer has started.'' [],
         Transfer_project_files pe (Inl e)])"
| dumped:
    "creator \<noteq> PNone \<Longrightarrow> validation ''Validation error: %s'' pn 0 vevs (Inr ()) \<Longrightarrow>
     pe = new_ProjectExporter cfg pn creator slug otype \<Longrightarrow>
     export_body_run pn cfg (Some pe) x
       (Exporter_get_creator_username
          (new_ProjectExporter cfg pn (PStr (cfg_username cfg)) (PStr pn) (PStr ''''))
          (Inr (creator, slug, otype)) #
        Log INFO ''Begin validating for export.'' [] #
        Initialize_validators (export_validator_args cfg pn creator slug) (Inr n) # vevs @
        [Log INFO ''Finished validating export validations for project %s.'' [PStr pn],
         Log INFO ''File transfer has started.'' [],
         Transfer_project_files pe (Inr ()),
         Dump_project_and_related_metadata pe x])"

inductive export_handled :: "error \<Rightarrow> ProjectExporter option \<Rightarrow> event list \<Rightarrow> error + unit \<Rightarrow> bool"
  for e where
  no_session: "export_handled e None [Log_exception e, Exit] (Inl SystemExit)"
| closed: "export_handled e (Some pe)
     [Log_exception e, Exporter_terminate_ssh_session pe (Inr ()), Exit] (Inl SystemExit)"
| close_failed: "export_handled e (Some pe)
     [Log_exception e, Exporter_terminate_ssh_session pe (Inl e')] (Inl e')"

inductive export_run :: "string \<Rightarrow> error + unit \<Rightarrow> event list \<Rightarrow> bool" for pn where
  no_config: "export_run pn (Inl e) [Configure ''export-config.ini'' pn (Inl e)]"
| aborted:
    "export_body_run pn cfg h (Inl e) evs \<Longrightarrow> export_handled e h hevs r \<Longrightarrow>
     export_run pn r
       (Configure ''export-config.ini'' pn (Inr cfg) #
        Log INFO ''Started exporting project: %s'' [PStr pn] # evs @ hevs)"
| completed:
    "export_body_run pn cfg h (Inr ()) evs \<Longrightarrow>
     export_run pn (Inr ())
       (Configure ''export-config.ini'' pn (Inr cfg) #
        Log INFO ''Started exporting project: %s'' [PStr pn] # evs)"

text \<open>The kinds of events that each block can leave.\<close>

definition is_validating :: "event \<Rightarrow> bool" where
  "is_validating ev = (case ev of Validate _ _ \<Rightarrow> True | Log ERROR _ _ \<Rightarrow> True | _ \<Rightarrow> False)"

definition is_preparing :: "event \<Rightarrow> bool" where
  "is_preparing ev = (case ev of
       Get_project_metadata_file_path _ _ _ \<Rightarrow> True
     | Read_json_file _ _ \<Rightarrow> True
     | Check_project_exist _ _ _ \<Rightarrow> True
     | Log INFO _ _ \<Rightarrow> True
     | Log WARNING _ _ \<Rightarrow> True
     | Create_project_v2 _ _ _ \<Rightarrow> True
     | Importer_get_creator_username _ _ \<Rightarrow> True
     | _ \<Rightarrow> False)"

definition is_transferring :: "event \<Rightarrow> bool" where
  "is_transferring ev = (case ev of
       Transfer_project _ _ \<Rightarrow> True
     | Importer_terminate_ssh_session _ _ \<Rightarrow> True
     | Convert_project_to_engine_based _ _ _ \<Rightarrow> True
     | Import_metadata _ _ _ \<Rightarrow> True
     | _ \<Rightarrow> False)"

definition is_handling :: "event \<Rightarrow> bool" where
  "is_handling ev = (case ev of
       Log_exception _ \<Rightarrow> True
     | Importer_terminate_ssh_session _ _ \<Rightarrow> True
     | Exporter_terminate_ssh_session _ _ \<Rightarrow> True
     | Exit \<Rightarrow> True
     | _ \<Rightarrow> False)"

definition is_close :: "event \<Rightarrow> bool" where
  "is_close ev = (case ev of
       Importer_terminate_ssh_session _ _ \<Rightarrow> True
     | Exporter_terminate_ssh_session _ _ \<Rightarrow> True
     | _ \<Rightarrow> False)"

definition closes :: "event list \<Rightarrow> event list" where
  "closes tr = filter is_close tr"

definition is_setup :: "event \<Rightarrow> bool" where
  "is_setup ev = (case ev of
       Log _ _ _ \<Rightarrow> True
     | Initialize_validators _ _ \<Rightarrow> True
     | Validate _ _ \<Rightarrow> True
     | _ \<Rightarrow> False)"

definition is_early :: "event \<Rightarrow> bool" where
  "is_early ev = (case ev of
       Configure _ _ _ \<Rightarrow> True
     | Log _ _ _ \<Rightarrow> True
     | Initialize_validators _ _ \<Rightarrow> True
     | Validate _ _ \<Rightarrow> True
     | Log_exception _ \<Rightarrow> True
     | Exit \<Rightarrow> True
     | _ \<Rightarrow> False)"

definition is_transfer_call :: "event \<Rightarrow> bool" where
  "is_transfer_call ev = (case ev of
       Transfer_project _ _ \<Rightarrow> True
     | Transfer_project_files _ _ \<Rightarrow> True
     | _ \<Rightarrow> False)"

definition is_failed_transfer :: "event \<Rightarrow> bool" where
  "is_failed_transfer ev = (case ev of
       Transfer_project _ (Inl _) \<Rightarrow> True
     | Transfer_project_files _ (Inl _) \<Rightarrow> True
     | _ \<Rightarrow> False)"

section \<open>Replaying a trace\<close>

text \<open>
  A trace is a faithful log when every call it records was really made. \<open>replay\<close>
  makes the recorded calls again, in order, on a given world: a call must return what
  the trace says it returned, and leaves the world to the next call. The validators are
  objects that \<^verbatim>\<open>initialize_export_validators\<close> or
  \<^verbatim>\<open>initialize_import_validators\<close> returned, so the replay keeps that list beside
  the world. Logging and \<^verbatim>\<open>exit()\<close> call no collaborator.
\<close>

datatype command = Export_command | Import_command | Catalog_command

definition expect :: "('w, 'a) action \<Rightarrow> error + 'a \<Rightarrow> 'w \<Rightarrow> 'w option" where
  "expect f r w = (case f w of (r', w') \<Rightarrow> if r' = r then Some w' else None)"

definition keeping :: "'v \<Rightarrow> 'w option \<Rightarrow> ('w \<times> 'v) option" where
  "keeping vs x = map_option (\<lambda>w'. (w', vs)) x"

fun perform ::
  "'w env \<Rightarrow> command \<Rightarrow> event \<Rightarrow> 'w \<times> ('w, validation_response) action list
     \<Rightarrow> ('w \<times> ('w, validation_response) action list) option" where
  "perform env c (Configure file name r) (w, vs) = keeping vs (expect (configure env file name) r w)"
| "perform env c (Log level fmt args) (w, vs) = Some (w, vs)"
| "perform env c (Log_exception e) (w, vs) = Some (w, vs)"
| "perform env c Exit (w, vs) = Some (w, vs)"
| "perform env c (Exporter_get_creator_username p r) (w, vs) =
     keeping vs (expect (exporter_get_creator_username env p) r w)"
| "perform env c (Initialize_validators args r) (w, vs) =
     (case (case c of Export_command \<Rightarrow> initialize_export_validators env args w
                    | _ \<Rightarrow> initialize_import_validators env args w) of
        (Inl e, w') \<Rightarrow> if r = Inl e then Some (w', vs) else None
      | (Inr validators, w') \<Rightarrow> if r = Inr (length validators) then Some (w', validators) else None)"
| "perform env c (Validate i r) (w, vs) =
     (if i < length vs then keeping vs (expect (vs ! i) r w) else None)"
| "perform env c (Transfer_project_files p r) (w, vs) =
     keeping vs (expect (transfer_project_files env p) r w)"
| "perform env c (Dump_project_and_related_metadata p r) (w, vs) =
     keeping vs (expect (dump_project_and_related_metadata env p) r w)"
| "perform env c (Exporter_terminate_ssh_session p r) (w, vs) =
     keeping vs (expect (exporter_terminate_ssh_session env p) r w)"
| "perform env c (Get_project_metadata_file_path dir name r) (w, vs) =
     keeping vs (expect (get_project_metadata_file_path env dir name) r w)"
| "perform env c (Read_json_file path r) (w, vs) = keeping vs (expect (read_json_file env path) r w)"
| "perform env c (Check_project_exist p name r) (w, vs) =
     keeping vs (expect (check_project_exist env p name) r w)"
| "perform env c (Create_project_v2 p md r) (w, vs) =
     keeping vs (expect (create_project_v2 env p md) r w)"
| "perform env c (Importer_get_creator_username p r) (w, vs) =
     keeping vs (expect (importer_get_creator_username env p) r w)"
| "perform env c (Transfer_project p r) (w, vs) = keeping vs (expect (transfer_project env p) r w)"
| "perform env c (Importer_terminate_ssh_session p r) (w, vs) =
     keeping vs (expect (importer_terminate_ssh_session env p) r w)"
| "perform env c (Convert_project_to_engine_based p patch r) (w, vs) =
     keeping vs (expect (convert_project_to_engine_based env p patch) r w)"
| "perform env c (Import_metadata p project_id r) (w, vs) =
     keeping vs (expect (import_metadata env p project_id) r w)"
| "perform env c (Get_all_runtimes_v2 p tok r) (w, vs) =
     keeping vs (expect (get_all_runtimes_v2 env p tok) r w)"
| "perform env c (Parse_runtimes_v2 rts r) (w, vs) = keeping vs (expect (parse_runtimes_v2 env rts) r w)"
| "perform env c (Open_w path r) (w, vs) = keeping vs (expect (open_w env path) r w)"
| "perform env c (Json_dump m path r) (w, vs) = keeping vs (expect (json_dump env m path) r w)"
| "perform env c (Close_w path r) (w, vs) = keeping vs (expect (close_w env path) r w)"

fun replay ::
  "'w env \<Rightarrow> command \<Rightarrow> event list \<Rightarrow> 'w \<times> ('w, validation_response) action list
     \<Rightarrow> ('w \<times> ('w, validation_response) action list) option" where
  "replay env c [] st = Some st"
| "replay env c (ev # evs) st =
     (case perform env c ev st of None \<Rightarrow> None | Some st' \<Rightarrow> replay env c evs st')"

text \<open>
  \<open>performed env c w tr w'\<close>: the calls recorded in \<open>tr\<close>, made in this order on the
  world \<open>w\<close>, return what \<open>tr\<close> records and leave the world \<open>w'\<close>.
\<close>

definition performed :: "'w env \<Rightarrow> command \<Rightarrow> 'w \<Rightarrow> event list \<Rightarrow> 'w \<Rightarrow> bool" where
  "performed env c w tr w' = (map_option fst (replay env c tr (w, [])) = Some w')"

text \<open>Proof devices: a program whose every run is replayed by its events.\<close>

definition replays ::
  "'w env \<Rightarrow> command \<Rightarrow> ('w, validation_response) action list \<Rightarrow> ('w, 'h, 'a) prog \<Rightarrow> bool" where
  "replays env c vs m \<longleftrightarrow>
     (\<forall>s r s'. m s = (r, s') \<longrightarrow>
        (\<exists>evs. trace s' = trace s @ evs \<and> replay env c evs (world s, vs) = Some (world s', vs)))"

definition performs ::
  "'w env \<Rightarrow> command \<Rightarrow> ('w, validation_response) action list \<Rightarrow> ('w, 'h, 'a) prog \<Rightarrow> bool" where
  "performs env c vs m \<longleftrightarrow>
     (\<forall>s r s'. m s = (r, s') \<longrightarrow>
        (\<exists>evs vs'. trace s' = trace s @ evs \<and> replay env c evs (world s, vs) = Some (world s', vs')))"


text \<open>
  The objects on which a transfer was started and the objects whose session was ended,
  each in the order of the trace.
\<close>

datatype session = Import_session ProjectImporter | Export_session ProjectExporter

definition transfer_of :: "event \<Rightarrow> session list" where
  "transfer_of ev = (case ev of
       Transfer_project p _ \<Rightarrow> [Import_session p]
     | Transfer_project_files p _ \<Rightarrow> [Export_session p]
     | _ \<Rightarrow> [])"

definition close_of :: "event \<Rightarrow> session list" where
  "close_of ev = (case ev of
       Importer_terminate_ssh_session p _ \<Rightarrow> [Import_session p]
     | Exporter_terminate_ssh_session p _ \<Rightarrow> [Export_session p]
     | _ \<Rightarrow> [])"

definition transfer_sessions :: "event list \<Rightarrow> session list" where
  "transfer_sessions tr = concat (map transfer_of tr)"

definition closed_sessions :: "event list \<Rightarrow> session list" where
  "closed_sessions tr = concat (map close_of tr)"


section \<open>Runs of the catalog command\<close>

text \<open>
  What a run of the catalog command leaves in the trace: the requests for a page with
  what each returned, in order. A response is a page when it is a non-empty dictionary
  whose \<^verbatim>\<open>runtimes\<close>, if present, is a list and whose \<^verbatim>\<open>next_page_token\<close>, if
  present, is a string; any falsy value is a missing response.
\<close>

definition fetch_of :: "event \<Rightarrow> (pyval \<times> (error + pyval)) list" where
  "fetch_of ev = (case ev of Get_all_runtimes_v2 p tok r \<Rightarrow> [(tok, r)] | _ \<Rightarrow> [])"

definition fetches :: "event list \<Rightarrow> (pyval \<times> (error + pyval)) list" where
  "fetches evs = concat (map fetch_of evs)"

fun runtimes_in :: "pyval \<Rightarrow> pyval list" where
  "runtimes_in (PDict d) = (case dict_get d ''runtimes'' (PList []) of PList l \<Rightarrow> l | _ \<Rightarrow> [])"
| "runtimes_in PNone = []"
| "runtimes_in (PBool b) = []"
| "runtimes_in (PInt i) = []"
| "runtimes_in (PStr s) = []"
| "runtimes_in (PList l) = []"

fun next_token :: "pyval \<Rightarrow> pyval" where
  "next_token (PDict d) = dict_get d ''next_page_token'' (PStr [])"
| "next_token PNone = PStr []"
| "next_token (PBool b) = PStr []"
| "next_token (PInt i) = PStr []"
| "next_token (PStr s) = PStr []"
| "next_token (PList l) = PStr []"

fun is_list :: "pyval \<Rightarrow> bool" where
  "is_list (PList l) = True"
| "is_list PNone = False"
| "is_list (PBool b) = False"
| "is_list (PInt i) = False"
| "is_list (PStr s) = False"
| "is_list (PDict d) = False"

fun is_str :: "pyval \<Rightarrow> bool" where
  "is_str (PStr s) = True"
| "is_str PNone = False"
| "is_str (PBool b) = False"
| "is_str (PInt i) = False"
| "is_str (PList l) = False"
| "is_str (PDict d) = False"

fun is_page :: "pyval \<Rightarrow> bool" where
  "is_page (PDict d) =
     (d \<noteq> [] \<and> is_list (dict_get d ''runtimes'' (PList [])) \<and>
      is_str (dict_get d ''next_page_token'' (PStr [])))"
| "is_page PNone = False"
| "is_page (PBool b) = False"
| "is_page (PInt i) = False"
| "is_page (PStr s) = False"
| "is_page (PList l) = False"

definition well_formed :: "pyval \<times> (error + pyval) \<Rightarrow> bool" where
  "well_formed f = (case snd f of Inl e \<Rightarrow> True | Inr v \<Rightarrow> if truthy v then is_page v else True)"

definition page_runtimes :: "pyval \<times> (error + pyval) \<Rightarrow> pyval list" where
  "page_runtimes f = (case snd f of Inl e \<Rightarrow> [] | Inr v \<Rightarrow> if truthy v then runtimes_in v else [])"

definition aggregate :: "(pyval \<times> (error + pyval)) list \<Rightarrow> pyval list" where
  "aggregate fs = concat (map page_runtimes fs)"

definition raised_fetch :: "pyval \<times> (error + pyval) \<Rightarrow> bool" where
  "raised_fetch f = (case snd f of Inl e \<Rightarrow> True | Inr v \<Rightarrow> False)"

text \<open>
  Cursor-based pagination from the token \<open>tok\<close>: the first request carries \<open>tok\<close>,
  a page with a non-empty next token is followed by a request with that token, and
  nothing follows a page with an empty next token, a missing response or an exception.
\<close>

fun paginated :: "pyval \<Rightarrow> (pyval \<times> (error + pyval)) list \<Rightarrow> bool" where
  "paginated tok [] = False"
| "paginated tok ((t, res) # rest) =
     (t = tok \<and>
      (case res of
         Inl e \<Rightarrow> rest = []
       | Inr v \<Rightarrow>
           if truthy v then
             if next_token v = PStr [] then rest = [] else paginated (next_token v) rest
           else rest = []))"

definition is_fetch :: "event \<Rightarrow> bool" where
  "is_fetch ev = (case ev of Get_all_runtimes_v2 p tok r \<Rightarrow> True | _ \<Rightarrow> False)"

definition is_dump :: "event \<Rightarrow> bool" where
  "is_dump ev = (case ev of Json_dump m path r \<Rightarrow> True | _ \<Rightarrow> False)"

definition is_open :: "event \<Rightarrow> bool" where
  "is_open ev = (case ev of Open_w path r \<Rightarrow> True | _ \<Rightarrow> False)"

definition no_runtimes_error :: string where
  "no_runtimes_error = ''populate_engine_runtimes_mapping: No runtimes present in the get_runtimes API response''"

definition write_error :: string where
  "write_error = ''populate_engine_runtimes_mapping: Please make sure Write Perms are set write/overwrite data.Encountered Error during write/overwrite data in ''"

definition empty_response_info :: string where
  "empty_response_info = ''populate_engine_runtimes_mapping: Get Runtimes API returned empty response''"

text \<open>
  The event sequences that the loop, the writing of the file and the whole command can
  leave, one rule for each way through the code. They are used in the proofs only.
\<close>

inductive fetched :: "ProjectImporter \<Rightarrow> pyval \<Rightarrow> pyval \<Rightarrow> event list \<Rightarrow> error + pyval \<Rightarrow> bool"
  for p where
  bad_token: "py_len tok = Inl e \<Longrightarrow> fetched p tok rts [] (Inl e)"
| finished: "py_len tok = Inr 0 \<Longrightarrow> fetched p tok rts [] (Inr rts)"
| raised: "py_len tok = Inr n \<Longrightarrow> n > 0 \<Longrightarrow>
     fetched p tok rts [Get_all_runtimes_v2 p tok (Inl e)] (Inl e)"
| no_response: "py_len tok = Inr n \<Longrightarrow> n > 0 \<Longrightarrow> \<not> truthy v \<Longrightarrow>
     fetched p tok rts [Get_all_runtimes_v2 p tok (Inr v)] (Inr rts)"
| broken: "py_len tok = Inr n \<Longrightarrow> n > 0 \<Longrightarrow> truthy v \<Longrightarrow>
     py_get v ''runtimes'' (PList []) = Inl e \<or>
     (\<exists>rs. py_get v ''runtimes'' (PList []) = Inr rs \<and>
        (py_add rts rs = Inl e \<or> py_get v ''next_page_token'' (PStr []) = Inl e)) \<Longrightarrow>
     fetched p tok rts [Get_all_runtimes_v2 p tok (Inr v)] (Inl e)"
| page: "py_len tok = Inr n \<Longrightarrow> n > 0 \<Longrightarrow> truthy v \<Longrightarrow>
     py_get v ''runtimes'' (PList []) = Inr rs \<Longrightarrow> py_add rts rs = Inr rts' \<Longrightarrow>
     py_get v ''next_page_token'' (PStr []) = Inr tok' \<Longrightarrow>
     fetched p tok' rts' evs r \<Longrightarrow>
     fetched p tok rts (Get_all_runtimes_v2 p tok (Inr v) # evs) r"

inductive stored :: "string \<Rightarrow> pyval \<Rightarrow> (string \<rightharpoonup> content) \<Rightarrow> event list
    \<Rightarrow> error + unit \<Rightarrow> (string \<rightharpoonup> content) \<Rightarrow> bool"
  for path rts fs where
  unsized: "py_len rts = Inl e \<Longrightarrow> stored path rts fs [] (Inl e) fs"
| no_runtimes: "py_len rts = Inr 0 \<Longrightarrow>
     stored path rts fs [Log ERROR no_runtimes_error []] (Inr ()) fs"
| unparsed: "py_len rts = Inr n \<Longrightarrow> n > 0 \<Longrightarrow>
     stored path rts fs [Parse_runtimes_v2 rts (Inl e)] (Inl e) fs"
| unopened: "py_len rts = Inr n \<Longrightarrow> n > 0 \<Longrightarrow>
     stored path rts fs
       [Parse_runtimes_v2 rts (Inr m), Open_w path (Inl e), Log ERROR write_error [PStr path]]
       (Inr ()) fs"
| undumped: "py_len rts = Inr n \<Longrightarrow> n > 0 \<Longrightarrow>
     stored path rts fs
       [Parse_runtimes_v2 rts (Inr m), Open_w path (Inr ()), Json_dump m path (Inl e),
        Close_w path c, Log ERROR write_error [PStr path]]
       (Inr ()) (fs(path \<mapsto> Incomplete))"
| unclosed: "py_len rts = Inr n \<Longrightarrow> n > 0 \<Longrightarrow>
     stored path rts fs
       [Parse_runtimes_v2 rts (Inr m), Open_w path (Inr ()), Json_dump m path (Inr ()),
        Close_w path (Inl e), Log ERROR write_error [PStr path]]
       (Inr ()) (fs(path \<mapsto> Incomplete))"
| written: "py_len rts = Inr n \<Longrightarrow> n > 0 \<Longrightarrow>
     stored path rts fs
       [Parse_runtimes_v2 rts (Inr m), Open_w path (Inr ()), Json_dump m path (Inr ()),
        Close_w path (Inr ())]
       (Inr ()) (fs(path \<mapsto> Json m))"

inductive populate_run :: "string \<Rightarrow> (string \<rightharpoonup> content) \<Rightarrow> event list \<Rightarrow> error + unit
    \<Rightarrow> (string \<rightharpoonup> content) \<Rightarrow> bool"
  for path fs where
  no_config: "populate_run path fs [Configure ''import-config.ini'' ''DEFAULT'' (Inl e)] (Inl e) fs"
| first_raised: "p = new_ProjectImporter cfg ''DEFAULT'' (PStr (cfg_username cfg)) (PStr ''DEFAULT'') \<Longrightarrow>
     populate_run path fs
       [Configure ''import-config.ini'' ''DEFAULT'' (Inr cfg), Get_all_runtimes_v2 p (PStr []) (Inl e)]
       (Inl e) fs"
| first_missing: "p = new_ProjectImporter cfg ''DEFAULT'' (PStr (cfg_username cfg)) (PStr ''DEFAULT'') \<Longrightarrow>
     \<not> truthy v \<Longrightarrow>
     populate_run path fs
       [Configure ''import-config.ini'' ''DEFAULT'' (Inr cfg), Get_all_runtimes_v2 p (PStr []) (Inr v),
        Log INFO empty_response_info []]
       (Inr ()) fs"
| first_broken: "p = new_ProjectImporter cfg ''DEFAULT'' (PStr (cfg_username cfg)) (PStr ''DEFAULT'') \<Longrightarrow>
     truthy v \<Longrightarrow>
     py_get v ''runtimes'' (PList []) = Inl e \<or> py_get v ''next_page_token'' (PStr []) = Inl e \<Longrightarrow>
     populate_run path fs
       [Configure ''import-config.ini'' ''DEFAULT'' (Inr cfg), Get_all_runtimes_v2 p (PStr []) (Inr v)]
       (Inl e) fs"
| later_raised: "p = new_ProjectImporter cfg ''DEFAULT'' (PStr (cfg_username cfg)) (PStr ''DEFAULT'') \<Longrightarrow>
     truthy v \<Longrightarrow> py_get v ''runtimes'' (PList []) = Inr rs \<Longrightarrow>
     py_get v ''next_page_token'' (PStr []) = Inr tok \<Longrightarrow>
     fetched p tok rs evs (Inl e) \<Longrightarrow>
     populate_run path fs
       (Configure ''import-config.ini'' ''DEFAULT'' (Inr cfg) #
        Get_all_runtimes_v2 p (PStr []) (Inr v) # evs)
       (Inl e) fs"
| aggregated: "p = new_ProjectImporter cfg ''DEFAULT'' (PStr (cfg_username cfg)) (PStr ''DEFAULT'') \<Longrightarrow>
     truthy v \<Longrightarrow> py_get v ''runtimes'' (PList []) = Inr rs \<Longrightarrow>
     py_get v ''next_page_token'' (PStr []) = Inr tok \<Longrightarrow>
     fetched p tok rs evs (Inr rts) \<Longrightarrow>
     stored path rts fs sevs r fs' \<Longrightarrow>
     populate_run path fs
       (Configure ''import-config.ini'' ''DEFAULT'' (Inr cfg) #
        Get_all_runtimes_v2 p (PStr []) (Inr v) # evs @ sevs)
       r fs'"


section \<open>A concrete installation\<close>

text \<open>
  Collaborators that always return, used to run the commands on concrete inputs. The
  world is the list of responses that the runtime listing has yet to give.
\<close>

definition returns :: "'a \<Rightarrow> ('w, 'a) action" where
  "returns x w = (Inr x, w)"

definition raises :: "error \<Rightarrow> ('w, 'a) action" where
  "raises e w = (Inl e, w)"

definition next_response :: "(pyval list, pyval) action" where
  "next_response w = (case w of [] \<Rightarrow> (Inr PNone, []) | x # xs \<Rightarrow> (Inr x, xs))"

definition demo_config :: config where
  "demo_config = \<lparr>cfg_username = ''admin'', cfg_url = ''https://cml.example'',
     cfg_apiv1_key = ''key'', cfg_output_dir = ''/data'', cfg_ca_path = ''''\<rparr>"

definition passing :: validation_response where
  "passing = \<lparr>validation_status = PASSED, validation_msg = ''ok''\<rparr>"

definition failing :: validation_response where
  "failing = \<lparr>validation_status = FAILED, validation_msg = ''not enough disk space''\<rparr>"

definition demo_metadata :: dict where
  "demo_metadata =
     [(''name'', PStr ''demo''), (''team_name'', PStr ''team-a''),
      (''default_project_engine_type'', PStr ''legacy_engine'')]"

definition demo_env :: "pyval list env" where
  "demo_env = \<lparr>
     home = ''/home/admin'',
     configure = (\<lambda>_ _. returns demo_config),
     exporter_get_creator_username = (\<lambda>_. returns (PStr ''alice'', PStr ''demo-slug'', PStr ''user'')),
     initialize_export_validators = (\<lambda>_. returns [returns passing, returns passing]),
     transfer_project_files = (\<lambda>_. returns ()),
     dump_project_and_related_metadata = (\<lambda>_. returns ()),
     exporter_terminate_ssh_session = (\<lambda>_. returns ()),
     initialize_import_validators = (\<lambda>_. returns [returns passing, returns passing]),
     get_project_metadata_file_path = (\<lambda>_ _. returns ''/data/demo/project-metadata.json''),
     read_json_file = (\<lambda>_. returns demo_metadata),
     check_project_exist = (\<lambda>_ _. returns PNone),
     create_project_v2 = (\<lambda>_ _. returns (PInt 7)),
     importer_get_creator_username = (\<lambda>_. returns (PStr ''alice'', PStr ''demo-slug'')),
     transfer_project = (\<lambda>_. returns ()),
     importer_terminate_ssh_session = (\<lambda>_. returns ()),
     convert_project_to_engine_based = (\<lambda>_ _. returns ()),
     import_metadata = (\<lambda>_ _. returns ()),
     get_all_runtimes_v2 = (\<lambda>_ _. next_response),
     parse_runtimes_v2 = (\<lambda>rs. returns (PDict [(''images'', rs)])),
     open_w = (\<lambda>_. returns ()),
     json_dump = (\<lambda>_ _. returns ()),
     close_w = (\<lambda>_. returns ())\<rparr>"

definition demo_p :: ProjectImporter where
  "demo_p = new_ProjectImporter demo_config ''demo'' (PStr ''admin'') (PStr ''demo'')"

definition demo_pimport :: ProjectImporter where
  "demo_pimport = new_ProjectImporter demo_config ''demo'' (PStr ''team-a'') (PStr ''demo-slug'')"

definition demo_import_prefix :: "event list" where
  "demo_import_prefix =
     [Configure ''import-config.ini'' ''demo'' (Inr demo_config),
      Log INFO ''Started importing project: %s'' [PStr ''demo''],
      Initialize_validators (import_validator_args demo_config ''demo'') (Inr 2),
      Log INFO ''Begin validating for import.'' [],
      Validate 0 (Inr passing),
      Validate 1 (Inr passing),
      Log INFO ''Finished validating import validations for project %s.'' [PStr ''demo''],
      Get_project_metadata_file_path ''/data'' ''demo'' (Inr ''/data/demo/project-metadata.json''),
      Read_json_file ''/data/demo/project-metadata.json'' (Inr demo_metadata)]"

definition failing_validators_env :: "pyval list env" where
  "failing_validators_env = demo_env
     \<lparr>initialize_export_validators := (\<lambda>_. returns [returns passing, returns failing, returns passing]),
      initialize_import_validators := (\<lambda>_. returns [returns passing, returns failing, returns passing])\<rparr>"

definition existing_project_env :: "pyval list env" where
  "existing_project_env = demo_env\<lparr>check_project_exist := (\<lambda>_ _. returns (PInt 7))\<rparr>"

definition unknown_project_env :: "pyval list env" where
  "unknown_project_env = demo_env
     \<lparr>exporter_get_creator_username := (\<lambda>_. returns (PNone, PNone, PNone))\<rparr>"

definition failing_metadata_env :: "pyval list env" where
  "failing_metadata_env = demo_env
     \<lparr>import_metadata := (\<lambda>_ _. raises (Failure ''metadata import failed''))\<rparr>"

definition failing_transfer_env :: "pyval list env" where
  "failing_transfer_env = demo_env
     \<lparr>transfer_project_files := (\<lambda>_. raises (Failure ''connection lost''))\<rparr>"

definition nameless_env :: "pyval list env" where
  "nameless_env = demo_env\<lparr>read_json_file := (\<lambda>_. returns [(''team_name'', PStr ''team-a'')])\<rparr>"

definition demo_pobj :: ProjectExporter where
  "demo_pobj = new_ProjectExporter demo_config ''demo'' (PStr ''admin'') (PStr ''demo'') (PStr '''')"

definition demo_pexport :: ProjectExporter where
  "demo_pexport =
     new_ProjectExporter demo_config ''demo'' (PStr ''alice'') (PStr ''demo-slug'') (PStr ''user'')"

definition demo_export_prefix :: "event list" where
  "demo_export_prefix =
     [Configure ''export-config.ini'' ''demo'' (Inr demo_config),
      Log INFO ''Started exporting project: %s'' [PStr ''demo''],
      Exporter_get_creator_username demo_pobj (Inr (PStr ''alice'', PStr ''demo-slug'', PStr ''user'')),
      Log INFO ''Begin validating for export.'' [],
      Initialize_validators
        (export_validator_args demo_config ''demo'' (PStr ''alice'') (PStr ''demo-slug'')) (Inr 2),
      Validate 0 (Inr passing),
      Validate 1 (Inr passing),
      Log INFO ''Finished validating export validations for project %s.'' [PStr ''demo''],
      Log INFO ''File transfer has started.'' []]"


text \<open>The runs of the two commands on these installations.\<close>

definition demo_import_run :: "(error + unit) \<times> (pyval list, ProjectImporter) state" where
  "demo_import_run = project_import_cmd demo_env ''demo'' (initial [] Map.empty)"

definition existing_import_run :: "(error + unit) \<times> (pyval list, ProjectImporter) state" where
  "existing_import_run = project_import_cmd existing_project_env ''demo'' (initial [] Map.empty)"

definition failing_metadata_import_run :: "(error + unit) \<times> (pyval list, ProjectImporter) state" where
  "failing_metadata_import_run =
     project_import_cmd failing_metadata_env ''demo'' (initial [] Map.empty)"

definition nameless_import_run :: "(error + unit) \<times> (pyval list, ProjectImporter) state" where
  "nameless_import_run = project_import_cmd nameless_env ''demo'' (initial [] Map.empty)"

definition failing_validators_import_run :: "(error + unit) \<times> (pyval list, ProjectImporter) state" where
  "failing_validators_import_run =
     project_import_cmd failing_validators_env ''demo'' (initial [] Map.empty)"

definition demo_export_run :: "(error + unit) \<times> (pyval list, ProjectExporter) state" where
  "demo_export_run = project_export_cmd demo_env ''demo'' (initial [] Map.empty)"

definition failing_transfer_export_run :: "(error + unit) \<times> (pyval list, ProjectExporter) state" where
  "failing_transfer_export_run =
     project_export_cmd failing_transfer_env ''demo'' (initial [] Map.empty)"

definition unknown_project_export_run :: "(error + unit) \<times> (pyval list, ProjectExporter) state" where
  "unknown_project_export_run =
     project_export_cmd unknown_project_env ''demo'' (initial [] Map.empty)"

definition failing_validators_export_run :: "(error + unit) \<times> (pyval list, ProjectExporter) state" where
  "failing_validators_export_run =
     project_export_cmd failing_validators_env ''demo'' (initial [] Map.empty)"

text \<open>
  An installation whose world is the settings of the destination project, empty while
  the project does not exist: \<^verbatim>\<open>create_project_v2\<close> stores the document it receives,
  \<^verbatim>\<open>convert_project_to_engine_based\<close> writes the entries of its patch into the
  settings, and every other collaborator returns without touching them.
\<close>

definition write_entries :: "dict \<Rightarrow> dict \<Rightarrow> dict" where
  "write_entries patch settings = patch @ filter (\<lambda>kv. map_of patch (fst kv) = None) settings"

definition destination_env :: "dict env" where
  "destination_env = \<lparr>
     home = ''/home/admin'',
     configure = (\<lambda>_ _. returns demo_config),
     exporter_get_creator_username = (\<lambda>_. returns (PStr ''alice'', PStr ''demo-slug'', PStr ''user'')),
     initialize_export_validators = (\<lambda>_. returns [returns passing, returns passing]),
     transfer_project_files = (\<lambda>_. returns ()),
     dump_project_and_related_metadata = (\<lambda>_. returns ()),
     exporter_terminate_ssh_session = (\<lambda>_. returns ()),
     initialize_import_validators = (\<lambda>_. returns [returns passing, returns passing]),
     get_project_metadata_file_path = (\<lambda>_ _. returns ''/data/demo/project-metadata.json''),
     read_json_file = (\<lambda>_. returns demo_metadata),
     check_project_exist = (\<lambda>_ _ settings. (Inr (if settings = [] then PNone else PInt 7), settings)),
     create_project_v2 = (\<lambda>_ document settings. (Inr (PInt 7), document)),
     importer_get_creator_username = (\<lambda>_. returns (PStr ''alice'', PStr ''demo-slug'')),
     transfer_project = (\<lambda>_. returns ()),
     importer_terminate_ssh_session = (\<lambda>_. returns ()),
     convert_project_to_engine_based = (\<lambda>_ patch settings. (Inr (), write_entries patch settings)),
     import_metadata = (\<lambda>_ _. returns ()),
     get_all_runtimes_v2 = (\<lambda>_ _. returns PNone),
     parse_runtimes_v2 = (\<lambda>rs. returns rs),
     open_w = (\<lambda>_. returns ()),
     json_dump = (\<lambda>_ _. returns ()),
     close_w = (\<lambda>_. returns ())\<rparr>"

definition first_import_run :: "(error + unit) \<times> (dict, ProjectImporter) state" where
  "first_import_run = project_import_cmd destination_env ''demo'' (initial [] Map.empty)"

definition customised_settings :: dict where
  "customised_settings = [(''name'', PStr ''demo''), (''default_project_engine_type'', PStr ''ml_runtime'')]"

definition repeated_import_run :: "(error + unit) \<times> (dict, ProjectImporter) state" where
  "repeated_import_run =
     project_import_cmd destination_env ''demo'' (initial customised_settings Map.empty)"

definition is_creation :: "event \<Rightarrow> bool" where
  "is_creation ev = (case ev of Create_project_v2 _ _ _ \<Rightarrow> True | _ \<Rightarrow> False)"

text \<open>Pages of the runtime listing and runs of the catalog command on them.\<close>

definition catalog_file :: string where
  "catalog_file = ''/home/admin/.cmlutils/legacy_engine_runtime_constants.json''"

definition old_catalog :: "string \<rightharpoonup> content" where
  "old_catalog = [catalog_file \<mapsto> Json (PDict [])]"

definition demo_catalog_p :: ProjectImporter where
  "demo_catalog_p = new_ProjectImporter demo_config ''DEFAULT'' (PStr ''admin'') (PStr ''DEFAULT'')"

definition page_ab :: pyval where
  "page_ab = PDict [(''runtimes'', PList [PStr ''a'', PStr ''b'']), (''next_page_token'', PStr ''t1'')]"

definition page_c :: pyval where
  "page_c = PDict [(''runtimes'', PList [PStr ''c'']), (''next_page_token'', PStr '''')]"

definition empty_page :: pyval where
  "empty_page = PDict [(''runtimes'', PList []), (''next_page_token'', PStr '''')]"

definition page_a :: pyval where
  "page_a = PDict [(''runtimes'', PList [PStr ''a'']), (''next_page_token'', PStr ''t1'')]"

definition null_page :: pyval where
  "null_page = PDict [(''runtimes'', PNone)]"

definition two_pages_run :: "((error + unit) \<times> (pyval list, unit) state) option" where
  "two_pages_run = populate_engine_runtimes_mapping demo_env (initial [page_ab, page_c] old_catalog)"

definition empty_first_page_run :: "((error + unit) \<times> (pyval list, unit) state) option" where
  "empty_first_page_run = populate_engine_runtimes_mapping demo_env (initial [empty_page] old_catalog)"

definition interrupted_run :: "((error + unit) \<times> (pyval list, unit) state) option" where
  "interrupted_run = populate_engine_runtimes_mapping demo_env (initial [page_a] old_catalog)"

definition null_runtimes_run :: "((error + unit) \<times> (pyval list, unit) state) option" where
  "null_runtimes_run = populate_engine_runtimes_mapping demo_env (initial [null_page] old_catalog)"

section \<open>Stepping through a command\<close>

lemma seqE:
  assumes "seq m k s = (r, s')"
  obtains e where "m s = (Inl e, s')" "r = Inl e"
  | x s1 where "m s = (Inr x, s1)" "k x s1 = (r, s')"
  using assms by (auto simp: seq_def split: prod.splits sum.splits)

lemma try_exceptE:
  assumes "try_except m h s = (r, s')"
  obtains e s1 where "m s = (Inl e, s1)" "h e s1 = (r, s')"
  | x where "m s = (Inr x, s')" "r = Inr x"
  using assms by (auto simp: try_except_def split: prod.splits sum.splits)

lemma callE:
  assumes "call ev f s = (r, s')"
  obtains w' where "f (world s) = (r, w')" "s' = s\<lparr>world := w', trace := trace s @ [ev r]\<rparr>"
  using assms by (auto simp: call_def split: prod.splits)

lemma emit_eq [simp]: "emit ev s = (r, s') \<longleftrightarrow> r = Inr () \<and> s' = s\<lparr>trace := trace s @ [ev]\<rparr>"
  by (auto simp: emit_def)

lemma assign_eq [simp]: "assign v s = (r, s') \<longleftrightarrow> r = Inr () \<and> s' = s\<lparr>handle := v\<rparr>"
  by (auto simp: assign_def)

lemma ret_eq [simp]: "ret x s = (r, s') \<longleftrightarrow> r = Inr x \<and> s' = s"
  by (auto simp: ret_def)

lemma raise_eq [simp]: "raise e s = (r, s') \<longleftrightarrow> r = Inl e \<and> s' = s"
  by (auto simp: raise_def)

section \<open>Dictionaries\<close>

lemma map_of_dict_pop: "k' \<noteq> k \<Longrightarrow> map_of (dict_pop k d) k' = map_of d k'"
  by (induction d) (auto simp: dict_pop_def)

lemma map_of_dict_pop_same [simp]: "map_of (dict_pop k d) k = None"
  by (induction d) (auto simp: dict_pop_def)

lemma dict_pop_id: "map_of d k = None \<Longrightarrow> dict_pop k d = d"
  by (induction d) (auto simp: dict_pop_def split: if_splits)

lemma dict_pop_absent [simp]:
  "(if dict_contains k d then dict_pop k d else d) = dict_pop k d"
  by (auto simp: dict_contains_def dict_pop_id)

lemma name_after_pop [simp]:
  "map_of (dict_pop legacy_engine_key d) ''name'' = map_of d ''name''"
  "map_of (dict_pop legacy_engine_key d) ''team_name'' = map_of d ''team_name''"
  by (simp_all add: map_of_dict_pop legacy_engine_key_def)

lemma dict_get_name [simp]:
  "dict_get (dict_pop legacy_engine_key md) ''name'' dflt =
     (case map_of md ''name'' of None \<Rightarrow> dflt | Some v \<Rightarrow> v)"
  by (simp add: dict_get_def)

section \<open>The validator chain covers its runs\<close>

lemma run_validators_validation:
  "run_validators fmt pn vs i s = (r, s') \<Longrightarrow>
     \<exists>evs. trace s' = trace s @ evs \<and> files s' = files s \<and> handle s' = handle s \<and>
       validation fmt pn i evs r"
proof (induction vs arbitrary: i s)
  case Nil
  then show ?case by (auto intro: validation.all_passed)
next
  case (Cons v vs)
  from Cons.prems have "seq (call (Validate i) v) (\<lambda>validation_response.
       if validation_status validation_response = FAILED then
         seq (emit (Log ERROR fmt [PStr pn, PStr (validation_msg validation_response)])) (\<lambda>_.
           raise (RuntimeError [''validation error'', validation_msg validation_response]))
       else run_validators fmt pn vs (Suc i)) s = (r, s')" by simp
  then show ?case
  proof (cases rule: seqE)
    case (1 e)
    then show ?thesis by (auto elim!: callE intro: validation.raised)
  next
    case (2 resp s1)
    from 2(1) have s1: "trace s1 = trace s @ [Validate i (Inr resp)]" "files s1 = files s"
      "handle s1 = handle s"
      by (auto elim!: callE)
    show ?thesis
    proof (cases "validation_status resp = FAILED")
      case True
      with 2(2) s1 show ?thesis
        by (auto elim!: seqE intro: validation.failed)
    next
      case False
      with 2(2) have "run_validators fmt pn vs (Suc i) s1 = (r, s')" by simp
      from Cons.IH[OF this] obtain evs where
        "trace s' = trace s1 @ evs" "files s' = files s1" "handle s' = handle s1"
        "validation fmt pn (Suc i) evs r"
        by blast
      with s1 False have "trace s' = trace s @ Validate i (Inr resp) # evs"
        "files s' = files s" "handle s' = handle s"
        "validation fmt pn i (Validate i (Inr resp) # evs) r"
        by (auto intro: validation.passed)
      then show ?thesis by blast
    qed
  qed
qed

lemma run_validatorsE:
  assumes "run_validators fmt pn vs i s = (r, s')"
  obtains evs where "trace s' = trace s @ evs" "files s' = files s" "handle s' = handle s"
    "validation fmt pn i evs r"
  using run_validators_validation[OF assms] by blast

lemma validation_index: "validation fmt pn i evs r \<Longrightarrow> Validate j x \<in> set evs \<Longrightarrow> i \<le> j"
  by (induction rule: validation.induct) (auto dest: Suc_leD)

lemma validation_failed:
  "validation fmt pn i evs r \<Longrightarrow> Validate j (Inr resp) \<in> set evs \<Longrightarrow> validation_status resp = FAILED \<Longrightarrow>
     r = Inl (RuntimeError [''validation error'', validation_msg resp]) \<and>
     (\<forall>k x. Validate k x \<in> set evs \<longrightarrow> k \<le> j)"
proof (induction rule: validation.induct)
  case (passed resp' i evs r)
  then have in_evs: "Validate j (Inr resp) \<in> set evs" by auto
  with passed have r: "r = Inl (RuntimeError [''validation error'', validation_msg resp])"
    and k: "\<forall>k x. Validate k x \<in> set evs \<longrightarrow> k \<le> j" by blast+
  from validation_index[OF passed(2) in_evs] have "Suc i \<le> j" .
  with k have "\<forall>k x. Validate k x \<in> set (Validate i (Inr resp') # evs) \<longrightarrow> k \<le> j" by auto
  with r show ?case by simp
qed auto

section \<open>The import command covers its runs\<close>

lemma import_prepare_prepared:
  assumes "import_prepare env cfg pn p s = (r, s')"
  shows "\<exists>evs. trace s' = trace s @ evs \<and> files s' = files s \<and> handle s' = handle s \<and>
           prepared cfg pn p evs r"
  using assms unfolding import_prepare_def Let_def
  apply (elim seqE callE)
        apply (auto simp: dict_getitem_def outcome_def acting_user_def dict_contains_def dict_get_def
               dict_pop_id
             split: option.splits if_splits prod.splits
             elim!: seqE callE
             intro!: prepared.intros)
  done

lemma import_prepareE:
  assumes "import_prepare env cfg pn p s = (r, s')"
  obtains evs where "trace s' = trace s @ evs" "files s' = files s" "handle s' = handle s"
    "prepared cfg pn p evs r"
  using import_prepare_prepared[OF assms] by blast

lemma import_transfer_transferred:
  assumes "import_transfer env pi ue pid s = (r, s')"
  shows "\<exists>evs. trace s' = trace s @ evs \<and> files s' = files s \<and> handle s' = handle s \<and>
           transferred pi ue pid evs r"
  using assms unfolding import_transfer_def
  apply (elim seqE callE)
  apply (auto split: if_splits elim!: callE intro!: transferred.intros)
  done

lemma import_transferE:
  assumes "import_transfer env pi ue pid s = (r, s')"
  obtains evs where "trace s' = trace s @ evs" "files s' = files s" "handle s' = handle s"
    "transferred pi ue pid evs r"
  using import_transfer_transferred[OF assms] by blast

lemma import_handler_handled:
  assumes "import_handler env e s = (r, s')"
  shows "\<exists>evs. trace s' = trace s @ evs \<and> files s' = files s \<and> handle s' = handle s \<and>
           import_handled e (handle s) evs r"
  using assms unfolding import_handler_def
  apply (elim seqE)
  apply (auto split: option.splits elim!: callE intro!: import_handled.intros)
  done

lemma import_handlerE:
  assumes "import_handler env e s = (r, s')"
  obtains evs where "trace s' = trace s @ evs" "files s' = files s" "handle s' = handle s"
    "import_handled e (handle s) evs r"
  using import_handler_handled[OF assms] by blast

lemma project_import_cmd_run:
  assumes "project_import_cmd env pn (initial w fs) = (r, s')"
  shows "import_run pn r (trace s')"
  using assms unfolding project_import_cmd_def project_import_body_def import_project_def Let_def initial_def
  apply (elim seqE try_exceptE callE run_validatorsE import_prepareE import_transferE import_handlerE)
  apply (auto simp: outcome_def split: prod.splits elim!: seqE import_transferE
              intro: import_run.intros import_body_run.intros)
   apply (rule import_run.configured, rule import_body_run.failed; assumption)
  apply (rule import_run.configured, rule import_body_run.completed; assumption)
  done

section \<open>The export command covers its runs\<close>

lemma project_export_body_run:
  assumes "project_export_body env cfg pn s = (r, s')" and "handle s = None"
  shows "\<exists>evs. trace s' = trace s @ evs \<and> files s' = files s \<and>
           export_body_run pn cfg (handle s') r evs"
  using assms unfolding project_export_body_def Let_def
  apply (elim seqE callE run_validatorsE)
  apply (auto simp: outcome_def split: prod.splits if_splits elim!: seqE callE run_validatorsE
              intro: export_body_run.intros)
  done

lemma project_export_bodyE:
  assumes "project_export_body env cfg pn s = (r, s')" and "handle s = None"
  obtains evs where "trace s' = trace s @ evs" "files s' = files s"
    "export_body_run pn cfg (handle s') r evs"
  using project_export_body_run[OF assms] by blast

lemma export_handler_handled:
  assumes "export_handler env e s = (r, s')"
  shows "\<exists>evs. trace s' = trace s @ evs \<and> files s' = files s \<and> handle s' = handle s \<and>
           export_handled e (handle s) evs r"
  using assms unfolding export_handler_def
  apply (elim seqE)
  apply (auto split: option.splits elim!: callE intro!: export_handled.intros)
  done

lemma export_handlerE:
  assumes "export_handler env e s = (r, s')"
  obtains evs where "trace s' = trace s @ evs" "files s' = files s" "handle s' = handle s"
    "export_handled e (handle s) evs r"
  using export_handler_handled[OF assms] by blast

lemma project_export_cmd_run:
  assumes "project_export_cmd env pn (initial w fs) = (r, s')"
  shows "export_run pn r (trace s')"
  using assms unfolding project_export_cmd_def Let_def initial_def
  apply (elim seqE try_exceptE callE export_handlerE)
  apply (auto elim!: project_export_bodyE intro: export_run.intros)
  done

section \<open>What each block can leave in the trace\<close>

lemma validation_events:
  "validation fmt pn i evs r \<Longrightarrow> \<not> is_validating ev \<Longrightarrow> (ev \<in> set evs) = False"
  by (induction rule: validation.induct) (auto simp: is_validating_def)

lemma prepared_events:
  "prepared cfg pn p evs r \<Longrightarrow> \<not> is_preparing ev \<Longrightarrow> (ev \<in> set evs) = False"
  by (erule prepared.cases) (auto simp: is_preparing_def)

lemma transferred_events:
  "transferred pi ue pid evs r \<Longrightarrow> \<not> is_transferring ev \<Longrightarrow> (ev \<in> set evs) = False"
  by (erule transferred.cases) (auto simp: is_transferring_def)

lemma import_handled_events:
  "import_handled e h evs r \<Longrightarrow> \<not> is_handling ev \<Longrightarrow> (ev \<in> set evs) = False"
  by (erule import_handled.cases) (auto simp: is_handling_def)

lemmas stage_events = validation_events prepared_events transferred_events import_handled_events

lemmas stage_defs = is_validating_def is_preparing_def is_transferring_def is_handling_def

lemma transferred_importer:
  "transferred pi ue pid evs r \<Longrightarrow> Transfer_project pimport x \<in> set evs \<Longrightarrow> pimport = pi"
  by (erule transferred.cases) auto

lemma prepared_user:
  "prepared cfg pn p evs (Inr (ue, pid, user, slug)) \<Longrightarrow> Read_json_file path (Inr md) \<in> set evs \<Longrightarrow>
     user = acting_user cfg md \<and> ue = dict_contains legacy_engine_key md"
  by (erule prepared.cases) (auto simp: outcome_def split: sum.splits)

section \<open>The shape of an import run\<close>

lemma validation_setup: "validation fmt pn i evs r \<Longrightarrow> ev \<in> set evs \<Longrightarrow> is_setup ev"
  by (induction rule: validation.induct) (auto simp: is_setup_def)

lemma setup_early: "is_setup ev \<Longrightarrow> is_early ev"
  by (auto simp: is_setup_def is_early_def split: event.splits)

lemma list_all_events:
  "list_all P evs \<Longrightarrow> \<not> P ev \<Longrightarrow> (ev \<in> set evs) = False"
  by (auto simp: list_all_iff)

lemma import_run_cases [consumes 1, case_names early unprepared failed completed]:
  assumes "import_run pn r tr"
  obtains
    (early) "list_all is_early tr" "r \<noteq> Inr ()"
  | (unprepared) cfg pre pevs e where
      "tr = Configure ''import-config.ini'' pn (Inr cfg) # pre @ pevs @ [Log_exception e, Exit]"
      "list_all is_setup pre"
      "prepared cfg pn (new_ProjectImporter cfg pn (PStr (cfg_username cfg)) (PStr pn)) pevs (Inl e)"
      "r = Inl SystemExit"
  | (failed) cfg pre pevs ue pid user slug tevs e hevs where
      "tr = Configure ''import-config.ini'' pn (Inr cfg) # pre @ pevs @ tevs @ hevs"
      "list_all is_setup pre"
      "prepared cfg pn (new_ProjectImporter cfg pn (PStr (cfg_username cfg)) (PStr pn)) pevs
         (Inr (ue, pid, user, slug))"
      "transferred (new_ProjectImporter cfg pn user slug) ue pid tevs (Inl e)"
      "import_handled e (Some (new_ProjectImporter cfg pn user slug)) hevs r"
  | (completed) cfg pre pevs ue pid user slug tevs where
      "tr = Configure ''import-config.ini'' pn (Inr cfg) # pre @ pevs @ tevs"
      "list_all is_setup pre"
      "prepared cfg pn (new_ProjectImporter cfg pn (PStr (cfg_username cfg)) (PStr pn)) pevs
         (Inr (ue, pid, user, slug))"
      "transferred (new_ProjectImporter cfg pn user slug) ue pid tevs (Inr ())"
      "r = Inr ()"
  using assms
proof (cases rule: import_run.cases)
  case (no_config e)
  then show ?thesis by (intro early) (simp_all add: is_early_def)
next
  case (configured c evs)
  from configured(2) show ?thesis
  proof (cases rule: import_body_run.cases)
    case (no_validators e hevs)
    from no_validators(2) have "hevs = [Log_exception e, Exit]" "r = Inl SystemExit"
      by (auto elim: import_handled.cases)
    with configured(1) no_validators(1) show ?thesis
      by (intro early) (simp_all add: is_early_def)
  next
    case (invalid vevs e hevs n)
    from invalid(3) have "hevs = [Log_exception e, Exit]" "r = Inl SystemExit"
      by (auto elim: import_handled.cases)
    moreover from invalid(2) have "list_all is_early vevs"
      by (auto dest: validation_setup setup_early simp: list_all_iff)
    ultimately show ?thesis using configured(1) invalid(1)
      by (intro early) (simp_all add: is_early_def)
  next
    case (unprepared vevs pevs e hevs n)
    from unprepared(4) have h: "hevs = [Log_exception e, Exit]" "r = Inl SystemExit"
      by (auto elim: import_handled.cases)
    let ?pre = "Log INFO ''Started importing project: %s'' [PStr pn] #
        Initialize_validators (import_validator_args c pn) (Inr n) #
        Log INFO ''Begin validating for import.'' [] # vevs @
        [Log INFO ''Finished validating import validations for project %s.'' [PStr pn]]"
    from unprepared(2) have pre: "list_all is_setup ?pre"
      by (auto dest: validation_setup simp: is_setup_def list_all_iff)
    from configured(1) unprepared(1) h
    have tr: "tr = Configure ''import-config.ini'' pn (Inr c) # ?pre @ pevs @ [Log_exception e, Exit]"
      by simp
    show ?thesis by (rule that(2)[OF tr pre unprepared(3) h(2)])
  next
    case (failed vevs pevs ue pid user slug tevs e hevs n)
    let ?pre = "Log INFO ''Started importing project: %s'' [PStr pn] #
        Initialize_validators (import_validator_args c pn) (Inr n) #
        Log INFO ''Begin validating for import.'' [] # vevs @
        [Log INFO ''Finished validating import validations for project %s.'' [PStr pn]]"
    from failed(2) have pre: "list_all is_setup ?pre"
      by (auto dest: validation_setup simp: is_setup_def list_all_iff)
    from configured(1) failed(1)
    have tr: "tr = Configure ''import-config.ini'' pn (Inr c) # ?pre @ pevs @ tevs @ hevs"
      by simp
    show ?thesis by (rule that(3)[OF tr pre failed(3) failed(4) failed(5)])
  next
    case (completed vevs pevs ue pid user slug tevs n)
    let ?pre = "Log INFO ''Started importing project: %s'' [PStr pn] #
        Initialize_validators (import_validator_args c pn) (Inr n) #
        Log INFO ''Begin validating for import.'' [] # vevs @
        [Log INFO ''Finished validating import validations for project %s.'' [PStr pn]]"
    from completed(3) have pre: "list_all is_setup ?pre"
      by (auto dest: validation_setup simp: is_setup_def list_all_iff)
    from configured(1) completed(2)
    have tr: "tr = Configure ''import-config.ini'' pn (Inr c) # ?pre @ pevs @ tevs"
      by simp
    show ?thesis by (rule that(4)[OF tr pre completed(4) completed(5) completed(1)])
  qed
qed


lemmas mem_simps = prepared_events transferred_events import_handled_events list_all_events
  is_preparing_def is_transferring_def is_handling_def is_setup_def is_early_def

lemma prepared_name:
  "prepared cfg pn p evs r \<Longrightarrow> Read_json_file path (Inr md) \<in> set evs \<Longrightarrow>
     (\<forall>q name x. Check_project_exist q name x \<in> set evs \<longrightarrow> map_of md ''name'' = Some name) \<and>
     (\<forall>q m x. Create_project_v2 q m x \<in> set evs \<longrightarrow>
        map_of m ''name'' = map_of md ''name'' \<and> map_of md ''name'' \<noteq> None) \<and>
     (map_of md ''name'' = None \<longrightarrow>
        r = Inl (KeyError ''name'') \<and> (\<forall>q name x. Check_project_exist q name x \<notin> set evs) \<and>
        (\<forall>q m x. Create_project_v2 q m x \<notin> set evs))"
  by (erule prepared.cases) auto

lemma closes_simps [simp]:
  "closes [] = []"
  "closes (xs @ ys) = closes xs @ closes ys"
  "closes (ev # xs) = (if is_close ev then ev # closes xs else closes xs)"
  by (simp_all add: closes_def)

lemma setup_closes [simp]: "list_all is_setup evs \<Longrightarrow> closes evs = []"
  by (induction evs) (auto simp: is_setup_def is_close_def split: event.splits)

lemma early_closes [simp]: "list_all is_early evs \<Longrightarrow> closes evs = []"
  by (induction evs) (auto simp: is_early_def is_close_def split: event.splits)

lemma prepared_closes [simp]: "prepared cfg pn p evs r \<Longrightarrow> closes evs = []"
  by (erule prepared.cases) (auto simp: is_close_def)

lemma prepared_existing:
  "prepared cfg pn p evs r \<Longrightarrow> Check_project_exist q name (Inr found) \<in> set evs \<Longrightarrow> found \<noteq> PNone \<Longrightarrow>
     (\<forall>q m x. Create_project_v2 q m x \<notin> set evs) \<and>
     Log WARNING already_exists_warning [name] \<in> set evs \<and>
     (\<forall>ue pid user slug. r = Inr (ue, pid, user, slug) \<longrightarrow> pid = found) \<and>
     (\<forall>q c slug. Importer_get_creator_username q (Inr (c, slug)) \<in> set evs \<longrightarrow> (\<exists>v. r = Inr v))"
  by (erule prepared.cases) (auto simp: outcome_def split: sum.splits prod.splits)

lemma transferred_starts: "transferred pi ue pid evs r \<Longrightarrow> \<exists>x. Transfer_project pi x \<in> set evs"
  by (erule transferred.cases) auto

lemma transferred_metadata:
  "transferred pi ue pid evs r \<Longrightarrow> Import_metadata pi' pid' x \<in> set evs \<Longrightarrow> pid' = pid"
  by (erule transferred.cases) auto

section \<open>Validation failures\<close>

lemma import_validation_short_circuit:
  assumes run: "project_import_cmd env pn (initial w fs) = (r, s')"
    and v: "Validate i (Inr resp) \<in> set (trace s')"
    and f: "validation_status resp = FAILED"
  shows "r = Inl SystemExit \<and>
    (\<forall>j x. Validate j x \<in> set (trace s') \<longrightarrow> j \<le> i) \<and>
    (\<forall>pi x. Transfer_project pi x \<notin> set (trace s')) \<and>
    (\<exists>before. trace s' = before @
        [Log_exception (RuntimeError [''validation error'', validation_msg resp]), Exit])"
proof -
  from run have "import_run pn r (trace s')" by (rule project_import_cmd_run)
  then show ?thesis
  proof (cases rule: import_run.cases)
    case (no_config e)
    with v show ?thesis by simp
  next
    case (configured c evs)
    from configured(2) show ?thesis
    proof (cases rule: import_body_run.cases)
      case (no_validators e hevs)
      with v configured(1) show ?thesis by (simp add: stage_events stage_defs)
    next
      case (invalid vevs e hevs n)
      from invalid(3) have h: "hevs = [Log_exception e, Exit]" "r = Inl SystemExit"
        by (auto elim: import_handled.cases)
      from v configured(1) invalid(1) h have m: "Validate i (Inr resp) \<in> set vevs"
        by simp
      from validation_failed[OF invalid(2) m f]
      have e: "e = RuntimeError [''validation error'', validation_msg resp]"
        and k: "\<forall>k x. Validate k x \<in> set vevs \<longrightarrow> k \<le> i" by simp_all
      let ?before = "Configure ''import-config.ini'' pn (Inr c) #
        Log INFO ''Started importing project: %s'' [PStr pn] #
        Initialize_validators (import_validator_args c pn) (Inr n) #
        Log INFO ''Begin validating for import.'' [] # vevs"
      have t: "trace s' = ?before @
        [Log_exception (RuntimeError [''validation error'', validation_msg resp]), Exit]"
        using configured(1) invalid(1) h e by simp
      have "\<forall>pi x. Transfer_project pi x \<notin> set (trace s')"
        using invalid(2) by (simp add: t stage_events stage_defs)
      moreover have "\<forall>j x. Validate j x \<in> set (trace s') \<longrightarrow> j \<le> i"
        using k by (simp add: t)
      ultimately show ?thesis using h(2) t by blast
    next
      case (unprepared vevs pevs e hevs n)
      from v configured(1) unprepared have m: "Validate i (Inr resp) \<in> set vevs"
        by (simp add: stage_events stage_defs)
      from validation_failed[OF unprepared(2) m f] show ?thesis by simp
    next
      case (failed vevs pevs ue pid user slug tevs e hevs n)
      from v configured(1) failed have m: "Validate i (Inr resp) \<in> set vevs"
        by (simp add: stage_events stage_defs)
      from validation_failed[OF failed(2) m f] show ?thesis by simp
    next
      case (completed vevs pevs ue pid user slug tevs n)
      from v configured(1) completed have m: "Validate i (Inr resp) \<in> set vevs"
        by (simp add: stage_events stage_defs)
      from validation_failed[OF completed(3) m f] show ?thesis by simp
    qed
  qed
qed

lemma export_body_validation:
  assumes b: "export_body_run pn cfg h rb evs"
    and v: "Validate i (Inr resp) \<in> set evs"
    and f: "validation_status resp = FAILED"
  shows "h = None \<and> rb = Inl (RuntimeError [''validation error'', validation_msg resp]) \<and>
    (\<forall>j x. Validate j x \<in> set evs \<longrightarrow> j \<le> i) \<and>
    (\<forall>pe x. Transfer_project_files pe x \<notin> set evs)"
  using b
proof (cases rule: export_body_run.cases)
  case (creator_raised e)
  with v show ?thesis by simp
next
  case (not_found slug otype)
  with v show ?thesis by simp
next
  case (no_validators creator e slug otype)
  with v show ?thesis by simp
next
  case (invalid creator vevs e slug otype n)
  from v invalid have m: "Validate i (Inr resp) \<in> set vevs" by simp
  from validation_failed[OF invalid(5) m f] invalid show ?thesis
    by (simp add: stage_events stage_defs)
next
  case (transfer_raised creator vevs pe slug otype e n)
  from v transfer_raised have m: "Validate i (Inr resp) \<in> set vevs" by simp
  from validation_failed[OF transfer_raised(5) m f] show ?thesis by simp
next
  case (dumped creator vevs pe slug otype n)
  from v dumped have m: "Validate i (Inr resp) \<in> set vevs" by simp
  from validation_failed[OF dumped(4) m f] show ?thesis by simp
qed

lemma export_handled_events:
  "export_handled e h evs r \<Longrightarrow> \<not> is_handling ev \<Longrightarrow> (ev \<in> set evs) = False"
  by (erule export_handled.cases) (auto simp: is_handling_def)

lemma export_handled_none:
  "export_handled e None hevs r \<Longrightarrow> hevs = [Log_exception e, Exit] \<and> r = Inl SystemExit"
  by (auto elim: export_handled.cases)

lemma export_validation_short_circuit:
  assumes run: "project_export_cmd env pn (initial w fs) = (r, s')"
    and v: "Validate i (Inr resp) \<in> set (trace s')"
    and f: "validation_status resp = FAILED"
  shows "r = Inl SystemExit \<and>
    (\<forall>j x. Validate j x \<in> set (trace s') \<longrightarrow> j \<le> i) \<and>
    (\<forall>pe x. Transfer_project_files pe x \<notin> set (trace s')) \<and>
    (\<exists>before. trace s' = before @
        [Log_exception (RuntimeError [''validation error'', validation_msg resp]), Exit])"
proof -
  from run have "export_run pn r (trace s')" by (rule project_export_cmd_run)
  then show ?thesis
  proof (cases rule: export_run.cases)
    case (no_config e)
    with v show ?thesis by simp
  next
    case (aborted cfg h e evs hevs)
    from v aborted have m: "Validate i (Inr resp) \<in> set evs"
      by (simp add: export_handled_events is_handling_def)
    from export_body_validation[OF aborted(2) m f]
    have h: "h = None" and e: "e = RuntimeError [''validation error'', validation_msg resp]"
      and k: "\<forall>j x. Validate j x \<in> set evs \<longrightarrow> j \<le> i"
      and t: "\<forall>pe x. Transfer_project_files pe x \<notin> set evs" by simp_all
    from aborted(3) h have hevs: "hevs = [Log_exception e, Exit]" "r = Inl SystemExit"
      using export_handled_none by blast+
    let ?before = "Configure ''export-config.ini'' pn (Inr cfg) #
        Log INFO ''Started exporting project: %s'' [PStr pn] # evs"
    have tr: "trace s' = ?before @
        [Log_exception (RuntimeError [''validation error'', validation_msg resp]), Exit]"
      using aborted(1) hevs e by simp
    have "\<forall>pe x. Transfer_project_files pe x \<notin> set (trace s')"
      using t by (simp add: tr)
    moreover have "\<forall>j x. Validate j x \<in> set (trace s') \<longrightarrow> j \<le> i"
      using k by (simp add: tr)
    ultimately show ?thesis using hevs(2) tr by blast
  next
    case (completed cfg h evs)
    from v completed have m: "Validate i (Inr resp) \<in> set evs" by simp
    from export_body_validation[OF completed(3) m f] show ?thesis by simp
  qed
qed

lemma export_body_not_found:
  assumes b: "export_body_run pn cfg h rb evs"
    and g: "Exporter_get_creator_username pobj (Inr (PNone, slug, otype)) \<in> set evs"
  shows "h = None \<and> rb = Inl (RuntimeError [''Validation error'']) \<and>
    evs = [Exporter_get_creator_username pobj (Inr (PNone, slug, otype)),
           Log ERROR ''Validation error: Cannot find project - %s under username %s''
             [PStr pn, PStr (cfg_username cfg)]]"
  using b g
  by (cases rule: export_body_run.cases) (auto simp: stage_events stage_defs)

lemma export_body_dump:
  assumes b: "export_body_run pn cfg h rb evs"
  shows "(\<forall>pe x. Dump_project_and_related_metadata pe x \<in> set evs \<longrightarrow>
            (\<exists>before. evs = before @
               [Transfer_project_files pe (Inr ()), Dump_project_and_related_metadata pe x])) \<and>
         (\<forall>pe e. Transfer_project_files pe (Inl e) \<in> set evs \<longrightarrow>
            (\<forall>q x. Dump_project_and_related_metadata q x \<notin> set evs))"
  using b
proof (cases rule: export_body_run.cases)
  case (dumped creator vevs pe slug otype n)
  let ?before = "Exporter_get_creator_username
          (new_ProjectExporter cfg pn (PStr (cfg_username cfg)) (PStr pn) (PStr ''''))
          (Inr (creator, slug, otype)) #
        Log INFO ''Begin validating for export.'' [] #
        Initialize_validators (export_validator_args cfg pn creator slug) (Inr n) # vevs @
        [Log INFO ''Finished validating export validations for project %s.'' [PStr pn],
         Log INFO ''File transfer has started.'' []]"
  from dumped have e: "evs = ?before @
      [Transfer_project_files pe (Inr ()), Dump_project_and_related_metadata pe rb]" by simp
  have "\<And>q x. Dump_project_and_related_metadata q x \<in> set evs \<Longrightarrow> q = pe \<and> x = rb"
    using dumped by (simp add: stage_events stage_defs)
  moreover have "\<And>q e. Transfer_project_files q (Inl e) \<notin> set evs"
    using dumped by (simp add: stage_events stage_defs)
  ultimately show ?thesis using e by blast
qed (simp_all add: stage_events stage_defs)

section \<open>The legacy engine patch\<close>

lemma prepared_create_md:
  "prepared cfg pn p evs r \<Longrightarrow> Read_json_file path (Inr md) \<in> set evs \<Longrightarrow>
     Create_project_v2 q m x \<in> set evs \<Longrightarrow> m = dict_pop legacy_engine_key md"
  by (erule prepared.cases) auto

lemma transferred_convert:
  "transferred pi ue pid evs r \<Longrightarrow>
     (\<exists>pi' patch x. Convert_project_to_engine_based pi' patch x \<in> set evs) \<longleftrightarrow>
     ue \<and> (\<exists>pi' rest. Transfer_project pi' (Inr ()) \<in> set evs \<and>
             closes evs @ tl0 = Importer_terminate_ssh_session pi' (Inr ()) # rest)"
  by (erule transferred.cases) (auto simp: is_close_def)

lemma transferred_patch:
  "transferred pi ue pid evs r \<Longrightarrow> Convert_project_to_engine_based pi' patch x \<in> set evs \<Longrightarrow>
     pi' = pi \<and> patch = [(legacy_engine_key, PStr ''legacy_engine'')] \<and>
     (\<exists>after. evs = [Transfer_project pi (Inr ()), Importer_terminate_ssh_session pi (Inr ()),
                     Convert_project_to_engine_based pi patch x] @ after)"
  by (erule transferred.cases) auto

lemma import_create_without_marker:
  assumes run: "project_import_cmd env pn (initial w fs) = (r, s')"
    and md: "Read_json_file path (Inr md) \<in> set (trace s')"
    and cr: "Create_project_v2 q m x \<in> set (trace s')"
  shows "m = dict_pop legacy_engine_key md \<and> \<not> dict_contains legacy_engine_key m"
proof -
  from run have "import_run pn r (trace s')" by (rule project_import_cmd_run)
  then have "m = dict_pop legacy_engine_key md"
  proof (cases rule: import_run_cases)
    case early
    with md show ?thesis by (simp add: mem_simps)
  next
    case (unprepared cfg pre pevs e)
    from md cr unprepared have "Read_json_file path (Inr md) \<in> set pevs"
      "Create_project_v2 q m x \<in> set pevs" by (simp_all add: mem_simps)
    with unprepared(3) show ?thesis by (rule prepared_create_md)
  next
    case (failed cfg pre pevs ue pid user slug tevs e hevs)
    from md cr failed have "Read_json_file path (Inr md) \<in> set pevs"
      "Create_project_v2 q m x \<in> set pevs" by (simp_all add: mem_simps)
    with failed(3) show ?thesis by (rule prepared_create_md)
  next
    case (completed cfg pre pevs ue pid user slug tevs)
    from md cr completed have "Read_json_file path (Inr md) \<in> set pevs"
      "Create_project_v2 q m x \<in> set pevs" by (simp_all add: mem_simps)
    with completed(3) show ?thesis by (rule prepared_create_md)
  qed
  then show ?thesis by (simp add: dict_contains_def)
qed

lemma import_convert_iff:
  assumes run: "project_import_cmd env pn (initial w fs) = (r, s')"
    and md: "Read_json_file path (Inr md) \<in> set (trace s')"
  shows "(\<exists>pi patch x. Convert_project_to_engine_based pi patch x \<in> set (trace s')) \<longleftrightarrow>
     dict_contains legacy_engine_key md \<and>
     (\<exists>pi rest. Transfer_project pi (Inr ()) \<in> set (trace s') \<and>
         closes (trace s') = Importer_terminate_ssh_session pi (Inr ()) # rest)"
proof -
  from run have "import_run pn r (trace s')" by (rule project_import_cmd_run)
  then show ?thesis
  proof (cases rule: import_run_cases)
    case early
    with md show ?thesis by (simp add: mem_simps)
  next
    case (unprepared cfg pre pevs e)
    then show ?thesis by (simp add: mem_simps is_close_def)
  next
    case (failed cfg pre pevs ue pid user slug tevs e hevs)
    from md failed have m: "Read_json_file path (Inr md) \<in> set pevs"
      by (simp add: mem_simps)
    note P = prepared_user[OF failed(3) m] transferred_convert[OF failed(4), of "closes hevs"]
    show ?thesis using failed
      apply (simp add: mem_simps is_close_def)
      using P apply auto
      done
  next
    case (completed cfg pre pevs ue pid user slug tevs)
    from md completed have m: "Read_json_file path (Inr md) \<in> set pevs"
      by (simp add: mem_simps)
    note P = prepared_user[OF completed(3) m] transferred_convert[OF completed(4), of "[]"]
    show ?thesis using completed
      apply (simp add: mem_simps is_close_def)
      using P apply auto
      done
  qed
qed

lemma import_convert_order:
  assumes run: "project_import_cmd env pn (initial w fs) = (r, s')"
    and cv: "Convert_project_to_engine_based pi patch x \<in> set (trace s')"
  shows "patch = [(legacy_engine_key, PStr ''legacy_engine'')] \<and>
     (\<exists>before after. trace s' = before @
        [Transfer_project pi (Inr ()), Importer_terminate_ssh_session pi (Inr ()),
         Convert_project_to_engine_based pi patch x] @ after)"
proof -
  from run have "import_run pn r (trace s')" by (rule project_import_cmd_run)
  then show ?thesis
  proof (cases rule: import_run_cases)
    case early
    with cv show ?thesis by (simp add: mem_simps)
  next
    case (unprepared cfg pre pevs e)
    with cv show ?thesis by (simp add: mem_simps)
  next
    case (failed cfg pre pevs ue pid user slug tevs e hevs)
    from cv failed have "Convert_project_to_engine_based pi patch x \<in> set tevs"
      by (simp add: mem_simps)
    from transferred_patch[OF failed(4) this] obtain after where
      p: "patch = [(legacy_engine_key, PStr ''legacy_engine'')]"
      and t: "tevs = [Transfer_project pi (Inr ()), Importer_terminate_ssh_session pi (Inr ()),
                     Convert_project_to_engine_based pi patch x] @ after" by blast
    from failed(1) t have "trace s' =
        (Configure ''import-config.ini'' pn (Inr cfg) # pre @ pevs) @
        [Transfer_project pi (Inr ()), Importer_terminate_ssh_session pi (Inr ()),
         Convert_project_to_engine_based pi patch x] @ (after @ hevs)" by simp
    with p show ?thesis by blast
  next
    case (completed cfg pre pevs ue pid user slug tevs)
    from cv completed have "Convert_project_to_engine_based pi patch x \<in> set tevs"
      by (simp add: mem_simps)
    from transferred_patch[OF completed(4) this] obtain after where
      p: "patch = [(legacy_engine_key, PStr ''legacy_engine'')]"
      and t: "tevs = [Transfer_project pi (Inr ()), Importer_terminate_ssh_session pi (Inr ()),
                     Convert_project_to_engine_based pi patch x] @ after" by blast
    from completed(1) t have "trace s' =
        (Configure ''import-config.ini'' pn (Inr cfg) # pre @ pevs) @
        [Transfer_project pi (Inr ()), Importer_terminate_ssh_session pi (Inr ()),
         Convert_project_to_engine_based pi patch x] @ after" by simp
    with p show ?thesis by blast
  qed
qed

section \<open>Counting the calls that end the session\<close>

lemmas transfer_defs = is_transfer_call_def is_failed_transfer_def is_close_def

lemma setup_transfers [simp]:
  "list_all is_setup evs \<Longrightarrow> \<not> list_ex is_transfer_call evs \<and> \<not> list_ex is_failed_transfer evs"
  by (induction evs) (auto simp: is_setup_def transfer_defs split: event.splits)

lemma early_transfers [simp]:
  "list_all is_early evs \<Longrightarrow> \<not> list_ex is_transfer_call evs \<and> \<not> list_ex is_failed_transfer evs"
  by (induction evs) (auto simp: is_early_def transfer_defs split: event.splits)

lemma validation_transfers [simp]:
  "validation fmt pn i evs r \<Longrightarrow>
     \<not> list_ex is_transfer_call evs \<and> \<not> list_ex is_failed_transfer evs \<and> closes evs = []"
  by (induction rule: validation.induct) (auto simp: transfer_defs)

lemma prepared_transfers [simp]:
  "prepared cfg pn p evs r \<Longrightarrow> \<not> list_ex is_transfer_call evs \<and> \<not> list_ex is_failed_transfer evs"
  by (erule prepared.cases) (auto simp: transfer_defs)

lemma transferred_closes:
  "transferred pi ue pid evs r \<Longrightarrow>
     list_ex is_transfer_call evs \<and>
     length (closes evs) = (if list_ex is_failed_transfer evs then 0 else 1) \<and>
     (list_ex is_failed_transfer evs \<longrightarrow> r \<noteq> Inr ())"
  by (erule transferred.cases) (auto simp: transfer_defs)

lemma import_handled_closes:
  "import_handled e (Some pi) evs r \<Longrightarrow>
     \<not> list_ex is_transfer_call evs \<and> \<not> list_ex is_failed_transfer evs \<and>
     length (closes evs) = 1 \<and> r \<noteq> Inr ()"
  by (erule import_handled.cases) (auto simp: transfer_defs)

lemma import_close_count:
  assumes run: "project_import_cmd env pn (initial w fs) = (r, s')"
  shows "length (closes (trace s')) =
     (if \<not> list_ex is_transfer_call (trace s') then 0
      else if list_ex is_failed_transfer (trace s') \<or> r = Inr () then 1 else 2)"
proof -
  from run have "import_run pn r (trace s')" by (rule project_import_cmd_run)
  then show ?thesis
  proof (cases rule: import_run_cases)
    case early
    then show ?thesis by simp
  next
    case (unprepared cfg pre pevs e)
    then show ?thesis by (simp add: transfer_defs)
  next
    case (failed cfg pre pevs ue pid user slug tevs e hevs)
    note P = transferred_closes[OF failed(4)] import_handled_closes[OF failed(5)]
    show ?thesis using failed
      apply (simp add: transfer_defs)
      using P apply auto
      done
  next
    case (completed cfg pre pevs ue pid user slug tevs)
    note P = transferred_closes[OF completed(4)]
    show ?thesis using completed
      apply (simp add: transfer_defs)
      using P apply auto
      done
  qed
qed

lemma export_body_transfer:
  "export_body_run pn cfg h rb evs \<Longrightarrow>
     closes evs = [] \<and> (list_ex is_transfer_call evs \<longleftrightarrow> h \<noteq> None)"
  by (erule export_body_run.cases) (auto simp: transfer_defs)

lemma export_handled_closes:
  "export_handled e h evs r \<Longrightarrow>
     \<not> list_ex is_transfer_call evs \<and> length (closes evs) = (if h = None then 0 else 1)"
  by (erule export_handled.cases) (auto simp: transfer_defs)

lemma export_close_count:
  assumes run: "project_export_cmd env pn (initial w fs) = (r, s')"
    and failed: "r \<noteq> Inr ()"
  shows "length (closes (trace s')) = (if list_ex is_transfer_call (trace s') then 1 else 0)"
proof -
  from run have "export_run pn r (trace s')" by (rule project_export_cmd_run)
  then show ?thesis
  proof (cases rule: export_run.cases)
    case (no_config e)
    then show ?thesis by (simp add: transfer_defs)
  next
    case (aborted cfg h e evs hevs)
    note P = export_body_transfer[OF aborted(2)] export_handled_closes[OF aborted(3)]
    show ?thesis using aborted(1)
      apply (simp add: transfer_defs)
      using P apply auto
      done
  next
    case (completed cfg h evs)
    with failed show ?thesis by simp
  qed
qed

section \<open>Every recorded call is made\<close>

lemma replay_append:
  "replay env c (evs @ evs') st =
     (case replay env c evs st of None \<Rightarrow> None | Some st' \<Rightarrow> replay env c evs' st')"
  by (induction evs arbitrary: st) (auto split: option.splits)

lemma replay_appendI:
  "replay env c evs st = Some st' \<Longrightarrow> replay env c evs' st' = Some st'' \<Longrightarrow>
     replay env c (evs @ evs') st = Some st''"
  by (simp add: replay_append)

lemma expect_call: "f w = (r, w') \<Longrightarrow> expect f r w = Some w'"
  by (simp add: expect_def)

lemma replaysD:
  "replays env c vs m \<Longrightarrow> m s = (r, s') \<Longrightarrow>
     \<exists>evs. trace s' = trace s @ evs \<and> replay env c evs (world s, vs) = Some (world s', vs)"
  unfolding replays_def by blast

lemma drop_ConsD:
  "drop i l = v # vs \<Longrightarrow> i < length l \<and> l ! i = v \<and> drop (Suc i) l = vs"
proof -
  assume a: "drop i l = v # vs"
  then have i: "i < length l" by (cases "i < length l") auto
  from Cons_nth_drop_Suc[OF i] a show ?thesis using i by simp
qed

lemma replays_ret [intro!]: "replays env c vs (ret x)"
  by (auto simp: replays_def ret_def)

lemma replays_raise [intro!]: "replays env c vs (raise e)"
  by (auto simp: replays_def raise_def)

lemma replays_assign [intro!]: "replays env c vs (assign v)"
  by (auto simp: replays_def assign_def)

lemma replays_pure [intro!]: "replays env c vs (\<lambda>s. (x, s))"
  by (auto simp: replays_def)

lemma replays_emit:
  "(\<And>w. perform env c ev (w, vs) = Some (w, vs)) \<Longrightarrow> replays env c vs (emit ev)"
  by (auto simp: replays_def emit_def)

lemma replays_call:
  "(\<And>w r w'. f w = (r, w') \<Longrightarrow> perform env c (ev r) (w, vs) = Some (w', vs)) \<Longrightarrow>
     replays env c vs (call ev f)"
  by (auto simp: replays_def call_def split: prod.splits)

lemma replays_seq:
  assumes "replays env c vs m" and "\<And>x. replays env c vs (k x)"
  shows "replays env c vs (seq m k)"
  unfolding replays_def
proof (intro allI impI)
  fix s r s' assume "seq m k s = (r, s')"
  then show "\<exists>evs. trace s' = trace s @ evs \<and> replay env c evs (world s, vs) = Some (world s', vs)"
  proof (cases rule: seqE)
    case (1 e)
    with replaysD[OF assms(1)] show ?thesis by blast
  next
    case (2 x s1)
    from replaysD[OF assms(1) 2(1)] obtain evs where 1: "trace s1 = trace s @ evs"
      "replay env c evs (world s, vs) = Some (world s1, vs)" by blast
    from replaysD[OF assms(2) 2(2)] obtain evs' where 2: "trace s' = trace s1 @ evs'"
      "replay env c evs' (world s1, vs) = Some (world s', vs)" by blast
    from 1 2 have "trace s' = trace s @ (evs @ evs')"
      "replay env c (evs @ evs') (world s, vs) = Some (world s', vs)"
      by (simp_all add: replay_append)
    then show ?thesis by blast
  qed
qed

lemma replays_try:
  assumes "replays env c vs m" and "\<And>e. replays env c vs (h e)"
  shows "replays env c vs (try_except m h)"
  unfolding replays_def
proof (intro allI impI)
  fix s r s' assume "try_except m h s = (r, s')"
  then show "\<exists>evs. trace s' = trace s @ evs \<and> replay env c evs (world s, vs) = Some (world s', vs)"
  proof (cases rule: try_exceptE)
    case (1 e s1)
    from replaysD[OF assms(1) 1(1)] obtain evs where a: "trace s1 = trace s @ evs"
      "replay env c evs (world s, vs) = Some (world s1, vs)" by blast
    from replaysD[OF assms(2) 1(2)] obtain evs' where b: "trace s' = trace s1 @ evs'"
      "replay env c evs' (world s1, vs) = Some (world s', vs)" by blast
    from a b have "trace s' = trace s @ (evs @ evs')"
      "replay env c (evs @ evs') (world s, vs) = Some (world s', vs)"
      by (simp_all add: replay_append)
    then show ?thesis by blast
  next
    case (2 x)
    with replaysD[OF assms(1)] show ?thesis by blast
  qed
qed

lemma replays_if:
  "(b \<Longrightarrow> replays env c vs m) \<Longrightarrow> (\<not> b \<Longrightarrow> replays env c vs n) \<Longrightarrow>
     replays env c vs (if b then m else n)"
  by simp

lemma replays_case_prod:
  "(\<And>a b. replays env c vs (f a b)) \<Longrightarrow> replays env c vs (case_prod f x)"
  by (cases x) simp

lemma replays_handle:
  "(\<And>h. replays env c vs (f h)) \<Longrightarrow> replays env c vs (\<lambda>s. f (handle s) s)"
  by (auto simp: replays_def)

lemmas replays_intros =
  replays_seq replays_try replays_if replays_case_prod replays_emit replays_call

lemmas perform_simps = keeping_def expect_call

lemma replays_run_validators:
  "drop i l = rest \<Longrightarrow> replays env c l (run_validators fmt pname rest i)"
proof (induction rest arbitrary: i)
  case Nil
  then show ?case by auto
next
  case (Cons v vs)
  from drop_ConsD[OF Cons(2)] have i: "i < length l" "l ! i = v" "drop (Suc i) l = vs"
    by simp_all
  note IH = Cons(1)[OF i(3)]
  with i show ?case
    by (auto intro!: replays_intros simp: perform_simps)
qed

lemma replays_handle_case:
  "replays env c vs n \<Longrightarrow> (\<And>p. replays env c vs (f p)) \<Longrightarrow>
     replays env c vs (\<lambda>s. (case handle s of None \<Rightarrow> n | Some p \<Rightarrow> f p) s)"
  by (auto simp: replays_def split: option.splits)

lemma performsD:
  "performs env c vs m \<Longrightarrow> m s = (r, s') \<Longrightarrow>
     \<exists>evs vs'. trace s' = trace s @ evs \<and> replay env c evs (world s, vs) = Some (world s', vs')"
  unfolding performs_def by blast

lemma replays_performs: "replays env c vs m \<Longrightarrow> performs env c vs m"
  unfolding replays_def performs_def by blast

lemma performs_seq:
  assumes "replays env c vs m" and "\<And>x. performs env c vs (k x)"
  shows "performs env c vs (seq m k)"
  unfolding performs_def
proof (intro allI impI)
  fix s r s' assume "seq m k s = (r, s')"
  then show "\<exists>evs vs'. trace s' = trace s @ evs \<and> replay env c evs (world s, vs) = Some (world s', vs')"
  proof (cases rule: seqE)
    case (1 e)
    with replaysD[OF assms(1)] show ?thesis by blast
  next
    case (2 x s1)
    from replaysD[OF assms(1) 2(1)] obtain evs where 1: "trace s1 = trace s @ evs"
      "replay env c evs (world s, vs) = Some (world s1, vs)" by blast
    from performsD[OF assms(2) 2(2)] obtain evs' vs' where 2: "trace s' = trace s1 @ evs'"
      "replay env c evs' (world s1, vs) = Some (world s', vs')" by blast
    from 1 2 have "trace s' = trace s @ (evs @ evs')"
      "replay env c (evs @ evs') (world s, vs) = Some (world s', vs')"
      by (simp_all add: replay_append)
    then show ?thesis by blast
  qed
qed

lemma performs_try:
  assumes "performs env c vs m" and "\<And>e vs'. replays env c vs' (h e)"
  shows "performs env c vs (try_except m h)"
  unfolding performs_def
proof (intro allI impI)
  fix s r s' assume "try_except m h s = (r, s')"
  then show "\<exists>evs vs'. trace s' = trace s @ evs \<and> replay env c evs (world s, vs) = Some (world s', vs')"
  proof (cases rule: try_exceptE)
    case (1 e s1)
    from performsD[OF assms(1) 1(1)] obtain evs vs1 where a: "trace s1 = trace s @ evs"
      "replay env c evs (world s, vs) = Some (world s1, vs1)" by blast
    from replaysD[OF assms(2) 1(2)] obtain evs' where b: "trace s' = trace s1 @ evs'"
      "replay env c evs' (world s1, vs1) = Some (world s', vs1)" by blast
    from a b have "trace s' = trace s @ (evs @ evs')"
      "replay env c (evs @ evs') (world s, vs) = Some (world s', vs1)"
      by (simp_all add: replay_append)
    then show ?thesis by blast
  next
    case (2 x)
    with performsD[OF assms(1)] show ?thesis by blast
  qed
qed

lemma performs_initialize:
  assumes k: "\<And>l. replays env c l (k l)"
    and init: "init = (case c of Export_command \<Rightarrow> initialize_export_validators env args
                       | _ \<Rightarrow> initialize_import_validators env args)"
  shows "performs env c vs (seq (call (\<lambda>r. Initialize_validators args (outcome length r)) init) k)"
  unfolding performs_def
proof (intro allI impI)
  fix s r s' assume "seq (call (\<lambda>r. Initialize_validators args (outcome length r)) init) k s = (r, s')"
  then show "\<exists>evs vs'. trace s' = trace s @ evs \<and> replay env c evs (world s, vs) = Some (world s', vs')"
  proof (cases rule: seqE)
    case (1 e)
    then show ?thesis
      by (elim callE) (auto simp: init outcome_def split: command.splits)
  next
    case (2 l s1)
    from 2(1) have 1: "trace s1 = trace s @ [Initialize_validators args (Inr (length l))]"
      "replay env c [Initialize_validators args (Inr (length l))] (world s, vs) = Some (world s1, l)"
      by (auto elim!: callE simp: init outcome_def split: command.splits)
    from replaysD[OF k 2(2)] obtain evs' where 2: "trace s' = trace s1 @ evs'"
      "replay env c evs' (world s1, l) = Some (world s', l)" by blast
    from 1(1) 2(1) have "trace s' = trace s @ ([Initialize_validators args (Inr (length l))] @ evs')"
      by simp
    moreover note replay_appendI[OF 1(2) 2(2)]
    ultimately show ?thesis by blast
  qed
qed

lemma replays_import_handler: "replays env c vs (import_handler env e)"
  unfolding import_handler_def
  by (intro replays_seq replays_emit replays_handle_case replays_call replays_ret replays_raise)
    (simp_all add: perform_simps)

lemma replays_export_handler: "replays env c vs (export_handler env e)"
  unfolding export_handler_def
  by (intro replays_seq replays_emit replays_handle_case replays_call replays_ret replays_raise)
    (simp_all add: perform_simps)

lemma replays_import_prepare: "replays env c vs (import_prepare env config pname p)"
  unfolding import_prepare_def Let_def
  by (intro replays_intros replays_ret replays_pure) (simp_all add: perform_simps)

lemma replays_import_transfer: "replays env c vs (import_transfer env pimport uses_engine project_id)"
  unfolding import_transfer_def
  by (intro replays_intros replays_ret) (simp_all add: perform_simps)

lemma replays_import_project: "replays env c vs (import_project env config pname p)"
  unfolding import_project_def Let_def
  by (intro replays_intros replays_assign replays_import_prepare replays_import_transfer)

lemma performs_import_body:
  "performs env Import_command vs (project_import_body env config pname p)"
  unfolding project_import_body_def Let_def
  by (rule performs_initialize)
    (intro replays_seq replays_emit replays_run_validators replays_import_project, simp_all)

lemma performs_import_cmd: "performs env Import_command vs (project_import_cmd env pname)"
  unfolding project_import_cmd_def Let_def
  by (intro performs_seq performs_try replays_assign replays_call replays_emit
      performs_import_body replays_import_handler)
    (simp_all add: perform_simps)

lemma import_performed:
  assumes "project_import_cmd env pname (initial w fs) = (r, s')"
  shows "performed env Import_command w (trace s') (world s')"
  using performsD[OF performs_import_cmd assms, of "[]"]
  by (auto simp: performed_def initial_def)

lemma performs_case_prod:
  "(\<And>a b. performs env c vs (f a b)) \<Longrightarrow> performs env c vs (case_prod f x)"
  by (cases x) simp

lemma performs_export_body:
  "performs env Export_command vs (project_export_body env config pname)"
  unfolding project_export_body_def Let_def
  by (intro performs_initialize performs_seq performs_case_prod replays_intros replays_ret
      replays_raise replays_assign replays_run_validators)
    (simp_all add: perform_simps)

lemma performs_export_cmd: "performs env Export_command vs (project_export_cmd env pname)"
  unfolding project_export_cmd_def
  by (intro performs_seq performs_try replays_assign replays_call replays_emit
      performs_export_body replays_export_handler)
    (simp_all add: perform_simps)

lemma export_performed:
  assumes "project_export_cmd env pname (initial w fs) = (r, s')"
  shows "performed env Export_command w (trace s') (world s')"
  using performsD[OF performs_export_cmd assms, of "[]"]
  by (auto simp: performed_def initial_def)

section \<open>The sessions of a run\<close>

lemma sessions_simps [simp]:
  "transfer_sessions [] = []"
  "transfer_sessions (ev # evs) = transfer_of ev @ transfer_sessions evs"
  "transfer_sessions (evs @ evs') = transfer_sessions evs @ transfer_sessions evs'"
  "closed_sessions [] = []"
  "closed_sessions (ev # evs) = close_of ev @ closed_sessions evs"
  "closed_sessions (evs @ evs') = closed_sessions evs @ closed_sessions evs'"
  by (simp_all add: transfer_sessions_def closed_sessions_def)

lemmas session_defs = transfer_of_def close_of_def

lemma setup_sessions [simp]:
  "list_all is_setup evs \<Longrightarrow> transfer_sessions evs = [] \<and> closed_sessions evs = []"
  by (induction evs) (auto simp: is_setup_def session_defs split: event.splits)

lemma early_sessions [simp]:
  "list_all is_early evs \<Longrightarrow> transfer_sessions evs = [] \<and> closed_sessions evs = []"
  by (induction evs) (auto simp: is_early_def session_defs split: event.splits)

lemma validation_sessions [simp]:
  "validation fmt pn i evs r \<Longrightarrow> transfer_sessions evs = [] \<and> closed_sessions evs = []"
  by (induction rule: validation.induct) (auto simp: session_defs)

lemma prepared_sessions [simp]:
  "prepared cfg pn p evs r \<Longrightarrow> transfer_sessions evs = [] \<and> closed_sessions evs = []"
  by (erule prepared.cases) (auto simp: session_defs)

lemma transferred_sessions:
  "transferred pi ue pid evs r \<Longrightarrow>
     transfer_sessions evs = [Import_session pi] \<and>
     closed_sessions evs = (if list_ex is_failed_transfer evs then [] else [Import_session pi]) \<and>
     (list_ex is_failed_transfer evs \<longrightarrow> r \<noteq> Inr ())"
  by (erule transferred.cases) (auto simp: session_defs transfer_defs)

lemma import_handled_sessions:
  "import_handled e (Some pi) evs r \<Longrightarrow>
     transfer_sessions evs = [] \<and> \<not> list_ex is_failed_transfer evs \<and>
     closed_sessions evs = [Import_session pi] \<and> r \<noteq> Inr ()"
  by (erule import_handled.cases) (auto simp: session_defs transfer_defs)

lemma import_sessions:
  assumes run: "project_import_cmd env pn (initial w fs) = (r, s')"
  shows "length (transfer_sessions (trace s')) \<le> 1 \<and>
     closed_sessions (trace s') =
       concat (map (replicate (if list_ex is_failed_transfer (trace s') \<or> r = Inr () then 1 else 2))
         (transfer_sessions (trace s')))"
proof -
  from run have "import_run pn r (trace s')" by (rule project_import_cmd_run)
  then show ?thesis
  proof (cases rule: import_run_cases)
    case early
    then show ?thesis by simp
  next
    case (unprepared cfg pre pevs e)
    then show ?thesis by (simp add: session_defs transfer_defs)
  next
    case (failed cfg pre pevs ue pid user slug tevs e hevs)
    note P = transferred_sessions[OF failed(4)] import_handled_sessions[OF failed(5)]
    show ?thesis using failed
      apply (simp add: session_defs transfer_defs)
      using P apply (auto simp: numeral_2_eq_2)
      done
  next
    case (completed cfg pre pevs ue pid user slug tevs)
    note P = transferred_sessions[OF completed(4)]
    show ?thesis using completed
      apply (simp add: session_defs transfer_defs)
      using P apply auto
      done
  qed
qed

lemma export_body_sessions:
  "export_body_run pn cfg h rb evs \<Longrightarrow>
     closed_sessions evs = [] \<and>
     transfer_sessions evs = (case h of None \<Rightarrow> [] | Some pe \<Rightarrow> [Export_session pe])"
  by (erule export_body_run.cases) (auto simp: session_defs)

lemma export_handled_sessions:
  "export_handled e h evs r \<Longrightarrow>
     transfer_sessions evs = [] \<and>
     closed_sessions evs = (case h of None \<Rightarrow> [] | Some pe \<Rightarrow> [Export_session pe])"
  by (erule export_handled.cases) (auto simp: session_defs)

lemma export_sessions:
  assumes run: "project_export_cmd env pn (initial w fs) = (r, s')"
    and failed: "r \<noteq> Inr ()"
  shows "length (transfer_sessions (trace s')) \<le> 1 \<and>
     closed_sessions (trace s') = transfer_sessions (trace s')"
proof -
  from run have "export_run pn r (trace s')" by (rule project_export_cmd_run)
  then show ?thesis
  proof (cases rule: export_run.cases)
    case (no_config e)
    then show ?thesis by (simp add: session_defs)
  next
    case (aborted cfg h e evs hevs)
    note P = export_body_sessions[OF aborted(2)] export_handled_sessions[OF aborted(3)]
    show ?thesis using aborted(1)
      apply (simp add: session_defs)
      using P apply (auto split: option.splits)
      done
  next
    case (completed cfg h evs)
    with failed show ?thesis by simp
  qed
qed


section \<open>The catalog command covers its runs\<close>

lemma set_content_eq [simp]:
  "set_content path c s = (r, s') \<longleftrightarrow> r = Inr () \<and> s' = s\<lparr>files := (files s)(path \<mapsto> c)\<rparr>"
  by (auto simp: set_content_def)

lemma replays_set_content [intro!]: "replays env c vs (set_content path x)"
  by (auto simp: replays_def set_content_def)

lemma replays_write_catalog: "replays env c vs (write_catalog env m)"
  unfolding write_catalog_def
  by (intro replays_intros replays_set_content replays_raise) (simp_all add: perform_simps)

lemma replays_store_runtimes: "replays env c vs (store_runtimes env rts)"
  unfolding store_runtimes_def
  by (intro replays_intros replays_write_catalog replays_pure) (simp_all add: perform_simps)

lemma write_catalog_run:
  assumes "write_catalog env m s = (r, s')"
  shows "(\<exists>e. r = Inl e \<and> trace s' = trace s @ [Open_w (catalog_path env) (Inl e)] \<and> files s' = files s) \<or>
     (\<exists>e e' c. r = Inl e' \<and>
        trace s' = trace s @ [Open_w (catalog_path env) (Inr ()), Json_dump m (catalog_path env) (Inl e),
          Close_w (catalog_path env) c] \<and>
        files s' = (files s)(catalog_path env \<mapsto> Incomplete)) \<or>
     (\<exists>e. r = Inl e \<and>
        trace s' = trace s @ [Open_w (catalog_path env) (Inr ()), Json_dump m (catalog_path env) (Inr ()),
          Close_w (catalog_path env) (Inl e)] \<and>
        files s' = (files s)(catalog_path env \<mapsto> Incomplete)) \<or>
     (r = Inr () \<and>
        trace s' = trace s @ [Open_w (catalog_path env) (Inr ()), Json_dump m (catalog_path env) (Inr ()),
          Close_w (catalog_path env) (Inr ())] \<and>
        files s' = (files s)(catalog_path env \<mapsto> Json m))"
  using assms unfolding write_catalog_def
  apply (elim seqE try_exceptE callE)
          apply (auto simp: seq_def call_def try_except_def raise_def split: prod.splits sum.splits)
  done

lemma store_runtimes_run:
  assumes "store_runtimes env rts s = (r, s')"
  shows "\<exists>evs. trace s' = trace s @ evs \<and> stored (catalog_path env) rts (files s) evs r (files s')"
proof (cases "py_len rts")
  case (Inl e)
  with assms show ?thesis
    by (auto simp: store_runtimes_def seq_def intro: stored.unsized)
next
  case (Inr n)
  show ?thesis
  proof (cases "n = 0")
    case True
    with assms Inr show ?thesis
      by (auto simp: store_runtimes_def seq_def no_runtimes_error_def
          intro: stored.no_runtimes[unfolded no_runtimes_error_def])
  next
    case False
    then have n: "n > 0" by simp
    with assms Inr have "seq (call (Parse_runtimes_v2 rts) (parse_runtimes_v2 env rts)) (\<lambda>m.
        try_except (write_catalog env m) (\<lambda>e. emit (Log ERROR write_error [PStr (catalog_path env)]))) s = (r, s')"
      by (simp add: store_runtimes_def write_error_def seq_def)
    then show ?thesis
    proof (cases rule: seqE)
      case (1 e)
      then show ?thesis
        by (elim callE) (auto intro: stored.unparsed[OF Inr n])
    next
      case (2 m s1)
      from 2(1) have s1: "trace s1 = trace s @ [Parse_runtimes_v2 rts (Inr m)]" "files s1 = files s"
        by (auto elim!: callE)
      from 2(2) show ?thesis
      proof (cases rule: try_exceptE)
        case (1 e s2)
        from write_catalog_run[OF 1(1)] 1(2) s1 show ?thesis
          by (auto intro: stored.unopened[OF Inr n] stored.undumped[OF Inr n] stored.unclosed[OF Inr n])
      next
        case (2 x)
        from write_catalog_run[OF 2(1)] 2(2) s1 show ?thesis
          by (auto intro: stored.written[OF Inr n])
      qed
    qed
  qed
qed

lemma fetch_pages_run_aux:
  assumes "fetch_pages env p rts tok s = Some y"
  shows "\<exists>evs. trace (snd y) = trace s @ evs \<and> files (snd y) = files s \<and>
     fetched p tok rts evs (fst y) \<and>
     replay env c evs (world s, vs) = Some (world (snd y), vs)"
proof (rule fetch_pages.raw_induct[rotated, OF assms,
      where P = "\<lambda>env p rts tok s y. \<exists>evs. trace (snd y) = trace s @ evs \<and> files (snd y) = files s \<and>
         fetched p tok rts evs (fst y) \<and>
         replay env c evs (world s, vs) = Some (world (snd y), vs)"], goal_cases)
  case (1 f env p rts tok s y)
  show ?case
  proof (cases "py_len tok")
    case (Inl e)
    with 1(2) show ?thesis by (auto intro: fetched.bad_token)
  next
    case (Inr n)
    show ?thesis
    proof (cases "n = 0")
      case True
      with 1(2) Inr show ?thesis by (auto intro: fetched.finished)
    next
      case False
      then have n: "n > 0" by simp
      obtain r0 s0 where c: "call (Get_all_runtimes_v2 p tok) (get_all_runtimes_v2 env p tok) s = (r0, s0)"
        by (cases "call (Get_all_runtimes_v2 p tok) (get_all_runtimes_v2 env p tok) s")
      then have s0: "trace s0 = trace s @ [Get_all_runtimes_v2 p tok r0]" "files s0 = files s"
        "replay env c [Get_all_runtimes_v2 p tok r0] (world s, vs) = Some (world s0, vs)"
        by (auto elim!: callE simp: perform_simps)
      show ?thesis
      proof (cases r0)
        case (Inl e)
        with 1(2) Inr n c s0 show ?thesis
          by (auto intro: fetched.raised[OF Inr n] simp del: replay.simps)
      next
        case r0: (Inr v)
        show ?thesis
        proof (cases "truthy v")
          case False
          with 1(2) Inr n c s0 r0 show ?thesis
            by (auto intro: fetched.no_response[OF Inr n] simp del: replay.simps)
        next
          case True
          show ?thesis
          proof (cases "\<exists>rs rts' tok'. py_get v ''runtimes'' (PList []) = Inr rs \<and>
              py_add rts rs = Inr rts' \<and> py_get v ''next_page_token'' (PStr []) = Inr tok'")
            case False
            with 1(2) Inr n c r0 True obtain e where e: "y = (Inl e, s0)"
              "py_get v ''runtimes'' (PList []) = Inl e \<or>
               (\<exists>rs. py_get v ''runtimes'' (PList []) = Inr rs \<and>
                  (py_add rts rs = Inl e \<or> py_get v ''next_page_token'' (PStr []) = Inl e))"
              by (auto split: sum.splits)
            from fetched.broken[OF Inr n True e(2)] e(1) s0 r0 show ?thesis
              by (auto simp del: replay.simps)
          next
            case good: True
            then obtain rs rts' tok' where g: "py_get v ''runtimes'' (PList []) = Inr rs"
              "py_add rts rs = Inr rts'" "py_get v ''next_page_token'' (PStr []) = Inr tok'" by blast
            with 1(2) Inr n c r0 True have "f env p rts' tok' s0 = Some y" by simp
            from 1(1)[OF this] obtain evs where evs:
              "trace (snd y) = trace s0 @ evs" "files (snd y) = files s0"
              "fetched p tok' rts' evs (fst y)"
              "replay env c evs (world s0, vs) = Some (world (snd y), vs)" by blast
            from replay_appendI[OF s0(3) evs(4)]
            have "replay env c (Get_all_runtimes_v2 p tok r0 # evs) (world s, vs) = Some (world (snd y), vs)"
              by simp
            moreover from fetched.page[OF Inr n True g evs(3)]
            have "fetched p tok rts (Get_all_runtimes_v2 p tok r0 # evs) (fst y)" using r0 by simp
            moreover have "trace (snd y) = trace s @ (Get_all_runtimes_v2 p tok r0 # evs)"
              using evs(1) s0(1) by simp
            ultimately show ?thesis using evs(2) s0(2) by metis
          qed
        qed
      qed
    qed
  qed
qed

lemma fetch_pages_run:
  assumes "fetch_pages env p rts tok s = Some (r, s')"
  shows "\<exists>evs. trace s' = trace s @ evs \<and> files s' = files s \<and> fetched p tok rts evs r \<and>
     replay env c evs (world s, vs) = Some (world s', vs)"
  using fetch_pages_run_aux[OF assms] by simp

lemma populate_engine_runtimes_mapping_run:
  assumes "populate_engine_runtimes_mapping env (initial w fs) = Some (r, s')"
  shows "populate_run (catalog_path env) fs (trace s') r (files s') \<and>
     performed env c w (trace s') (world s')"
proof -
  let ?s = "initial w fs :: ('a, 'b) state"
  obtain r1 s1 where c1: "call (Configure ''import-config.ini'' ''DEFAULT'')
      (configure env ''import-config.ini'' ''DEFAULT'') ?s = (r1, s1)"
    by (cases "call (Configure ''import-config.ini'' ''DEFAULT'')
      (configure env ''import-config.ini'' ''DEFAULT'') ?s")
  then have s1: "trace s1 = [Configure ''import-config.ini'' ''DEFAULT'' r1]" "files s1 = fs"
    "replay env c [Configure ''import-config.ini'' ''DEFAULT'' r1] (w, []) = Some (world s1, [])"
    by (auto elim!: callE simp: initial_def perform_simps)
  show ?thesis
  proof (cases r1)
    case (Inl e)
    with assms c1 s1 show ?thesis
      by (auto simp: populate_engine_runtimes_mapping_def performed_def intro: populate_run.no_config)
  next
    case (Inr cfg)
    define p where "p = new_ProjectImporter cfg ''DEFAULT'' (PStr (cfg_username cfg)) (PStr ''DEFAULT'')"
    obtain r2 s2 where c2: "call (Get_all_runtimes_v2 p (PStr [])) (get_all_runtimes_v2 env p (PStr [])) s1 = (r2, s2)"
      by (cases "call (Get_all_runtimes_v2 p (PStr [])) (get_all_runtimes_v2 env p (PStr [])) s1")
    then have s2: "trace s2 = [Configure ''import-config.ini'' ''DEFAULT'' (Inr cfg), Get_all_runtimes_v2 p (PStr []) r2]"
      "files s2 = fs"
      "replay env c [Get_all_runtimes_v2 p (PStr []) r2] (world s1, []) = Some (world s2, [])"
      using s1 Inr by (auto elim!: callE simp: perform_simps)
    from replay_appendI[OF s1(3) s2(3)] Inr
    have rp2: "replay env c [Configure ''import-config.ini'' ''DEFAULT'' (Inr cfg),
        Get_all_runtimes_v2 p (PStr []) r2] (w, []) = Some (world s2, [])"
      by simp
    show ?thesis
    proof (cases r2)
      case (Inl e)
      with assms c1 c2 s2 rp2 Inr show ?thesis
        by (auto simp: populate_engine_runtimes_mapping_def p_def[symmetric] performed_def
            simp del: replay.simps intro: populate_run.first_raised[OF p_def])
    next
      case r2: (Inr v)
      show ?thesis
      proof (cases "truthy v")
        case False
        with assms c1 c2 Inr r2 have "s' = s2\<lparr>trace := trace s2 @ [Log INFO empty_response_info []]\<rparr>"
          "r = Inr ()"
          by (auto simp: populate_engine_runtimes_mapping_def p_def[symmetric] empty_response_info_def)
        moreover have "replay env c [Log INFO empty_response_info []] (world s2, []) = Some (world s2, [])"
          by simp
        note replay_appendI[OF rp2 this]
        ultimately show ?thesis using s2 r2 False
          by (auto simp: performed_def simp del: replay.simps
              intro: populate_run.first_missing[OF p_def])
      next
        case True
        show ?thesis
        proof (cases "\<exists>rs tok. py_get v ''runtimes'' (PList []) = Inr rs \<and>
            py_get v ''next_page_token'' (PStr []) = Inr tok")
          case False
          with assms c1 c2 Inr r2 True obtain e where e: "r = Inl e" "s' = s2"
            "py_get v ''runtimes'' (PList []) = Inl e \<or> py_get v ''next_page_token'' (PStr []) = Inl e"
            by (auto simp: populate_engine_runtimes_mapping_def p_def[symmetric] split: sum.splits)
          from populate_run.first_broken[OF p_def True e(3)] e(1,2) s2 r2 rp2 show ?thesis
            by (auto simp: performed_def simp del: replay.simps)
        next
          case good: True
          then obtain rs tok where g: "py_get v ''runtimes'' (PList []) = Inr rs"
            "py_get v ''next_page_token'' (PStr []) = Inr tok" by blast
          with assms c1 c2 Inr r2 True have *: "(case fetch_pages env p rs tok s2 of
                    None \<Rightarrow> None
                  | Some (Inl e, s3) \<Rightarrow> Some (Inl e, s3)
                  | Some (Inr runtimes', s3) \<Rightarrow> Some (store_runtimes env runtimes' s3)) = Some (r, s')"
            by (simp add: populate_engine_runtimes_mapping_def p_def[symmetric])
          then obtain r3 s3 where f: "fetch_pages env p rs tok s2 = Some (r3, s3)"
            by (cases "fetch_pages env p rs tok s2") auto
          from fetch_pages_run[OF f, of c "[]"] obtain evs where evs: "trace s3 = trace s2 @ evs"
            "files s3 = files s2" "fetched p tok rs evs r3"
            "replay env c evs (world s2, []) = Some (world s3, [])" by blast
          note rp3 = replay_appendI[OF rp2 evs(4)]
          show ?thesis
          proof (cases r3)
            case (Inl e)
            with * f have "r = Inl e" "s' = s3" by simp_all
            moreover from evs(3) Inl have "fetched p tok rs evs (Inl e)" by simp
            note populate_run.later_raised[OF p_def True g this]
            ultimately show ?thesis using evs Inl s2 r2 rp3
              by (auto simp: performed_def simp del: replay.simps)
          next
            case (Inr rts)
            with * f have st: "store_runtimes env rts s3 = (r, s')" by simp
            from store_runtimes_run[OF st] obtain sevs where sevs:
              "trace s' = trace s3 @ sevs" "stored (catalog_path env) rts (files s3) sevs r (files s')"
              by blast
            from replaysD[OF replays_store_runtimes st, of c "[]"] sevs(1) have
              "replay env c sevs (world s3, []) = Some (world s', [])" by auto
            note rp4 = replay_appendI[OF rp3 this]
            from evs(3) Inr have "fetched p tok rs evs (Inr rts)" by simp
            from populate_run.aggregated[OF p_def True g this sevs(2)]
              sevs evs s2 r2 rp4 show ?thesis
              by (auto simp: performed_def simp del: replay.simps)
          qed
        qed
      qed
    qed
  qed
qed

lemma fetches_simps [simp]:
  "fetches [] = []"
  "fetches (ev # evs) = fetch_of ev @ fetches evs"
  "fetches (evs @ evs') = fetches evs @ fetches evs'"
  by (simp_all add: fetches_def)

lemma aggregate_simps [simp]:
  "aggregate [] = []"
  "aggregate (f # fs) = page_runtimes f @ aggregate fs"
  "aggregate (fs @ fs') = aggregate fs @ aggregate fs'"
  by (simp_all add: aggregate_def)

lemma is_pageD:
  assumes "is_page v"
  shows "py_get v ''runtimes'' (PList []) = Inr (PList (runtimes_in v))"
    and "py_get v ''next_page_token'' (PStr []) = Inr (next_token v)"
    and "\<exists>t. next_token v = PStr t"
    and "truthy v"
proof -
  from assms obtain d where v: "v = PDict d" by (cases v) auto
  from assms v obtain l where l: "dict_get d ''runtimes'' (PList []) = PList l"
    by (cases "dict_get d ''runtimes'' (PList [])") auto
  from assms v obtain t where t: "dict_get d ''next_page_token'' (PStr []) = PStr t"
    by (cases "dict_get d ''next_page_token'' (PStr [])") auto
  from v l show "py_get v ''runtimes'' (PList []) = Inr (PList (runtimes_in v))" by simp
  from v show "py_get v ''next_page_token'' (PStr []) = Inr (next_token v)" by simp
  from v t show "\<exists>t. next_token v = PStr t" by simp
  from assms v show "truthy v" by simp
qed

lemma fetched_all: "fetched p tok rts evs r \<Longrightarrow> list_all is_fetch evs"
  by (induction rule: fetched.induct) (simp_all add: is_fetch_def)

lemma list_all_filter_empty:
  "list_all P evs \<Longrightarrow> (\<And>ev. P ev \<Longrightarrow> \<not> Q ev) \<Longrightarrow> filter Q evs = []"
  by (induction evs) auto

lemma fetched_no_dump: "fetched p tok rts evs r \<Longrightarrow> filter is_dump evs = []"
  by (rule list_all_filter_empty[OF fetched_all])
    (auto simp: is_fetch_def is_dump_def split: event.splits)

lemma fetched_no_open: "fetched p tok rts evs r \<Longrightarrow> filter is_open evs = []"
  by (rule list_all_filter_empty[OF fetched_all])
    (auto simp: is_fetch_def is_open_def split: event.splits)

lemma fetched_pages:
  "fetched p tok rts evs r \<Longrightarrow> rts = PList l \<Longrightarrow> tok = PStr t \<Longrightarrow>
     list_all well_formed (fetches evs) \<Longrightarrow>
     (if t = [] then evs = [] else paginated tok (fetches evs)) \<and>
     (\<forall>rts'. r = Inr rts' \<longrightarrow>
        rts' = PList (l @ aggregate (fetches evs)) \<and> \<not> list_ex raised_fetch (fetches evs)) \<and>
     (\<forall>e. r = Inl e \<longrightarrow> list_ex raised_fetch (fetches evs))"
proof (induction arbitrary: l t rule: fetched.induct)
  case (bad_token tok e rts)
  then show ?case by simp
next
  case (finished tok rts)
  then show ?case by simp
next
  case (raised tok n rts e)
  then show ?case by (auto simp: fetch_of_def raised_fetch_def)
next
  case (no_response tok n v rts)
  then show ?case by (auto simp: fetch_of_def raised_fetch_def page_runtimes_def)
next
  case (broken tok n v e rts)
  from broken.hyps(3) broken.prems(3) have pg: "is_page v" by (simp add: fetch_of_def well_formed_def)
  from is_pageD(1,2)[OF pg] broken.hyps(4) broken.prems(1) show ?case by (auto simp: py_add_def)
next
  case (page tok n v rs rts rts' tok' evs r)
  from page.hyps(3) page.prems(3) have pg: "is_page v" by (simp add: fetch_of_def well_formed_def)
  from is_pageD[OF pg] page.hyps(4,6) obtain t' where rs: "rs = PList (runtimes_in v)"
    and nt: "next_token v = PStr t'" and tok': "tok' = PStr t'" by auto
  from page.hyps(5) rs page.prems(1) have rts': "rts' = PList (l @ runtimes_in v)"
    by (simp add: py_add_def)
  from page.prems(3) have wf: "list_all well_formed (fetches evs)" by (simp add: fetch_of_def)
  note IH = page.IH[OF rts' tok' wf]
  from page.hyps(1,2) page.prems(2) have "t \<noteq> []" by auto
  with IH page.hyps(3) page.prems(2) tok' nt show ?case
    by (auto simp: fetch_of_def page_runtimes_def raised_fetch_def)
qed

lemma fetched_missing:
  "fetched p tok rts evs r \<Longrightarrow> Get_all_runtimes_v2 p' t (Inr v') \<in> set evs \<Longrightarrow> \<not> truthy v' \<Longrightarrow>
     last (fetches evs) = (t, Inr v') \<and> fetches evs \<noteq> [] \<and> (\<exists>rts'. r = Inr rts')"
  by (induction rule: fetched.induct) (auto simp: fetch_of_def)

lemma fetched_tokens:
  "fetched p tok rts evs r \<Longrightarrow> Get_all_runtimes_v2 p' (PStr []) x \<notin> set evs"
  by (induction rule: fetched.induct) auto

lemma stored_no_fetch:
  "stored path rts fs sevs r fs' \<Longrightarrow> fetches sevs = [] \<and> list_all (\<lambda>ev. \<not> is_fetch ev) sevs"
  by (erule stored.cases) (simp_all add: fetch_of_def is_fetch_def)

lemmas catalog_simps =
  fetch_of_def page_runtimes_def raised_fetch_def is_fetch_def is_dump_def is_open_def
  list_all_events well_formed_def

section \<open>Runs on the concrete installation\<close>

lemmas run_defs =
  project_import_cmd_def project_import_body_def import_project_def import_prepare_def
  import_transfer_def import_handler_def
  ret_def raise_def seq_def try_except_def emit_def call_def assign_def outcome_def
  initial_def returns_def raises_def Let_def
  dict_contains_def dict_pop_def dict_get_def dict_getitem_def legacy_engine_key_def

lemmas export_run_defs =
  project_export_cmd_def project_export_body_def export_handler_def

lemmas demo_defs =
  demo_env_def demo_metadata_def demo_import_prefix_def demo_p_def demo_pimport_def
  demo_config_def passing_def failing_def demo_pobj_def demo_pexport_def demo_export_prefix_def

lemma demo_import:
  "project_import_cmd demo_env ''demo'' (initial [] Map.empty) =
     (Inr (),
      \<lparr>world = [], files = Map.empty,
       trace = demo_import_prefix @
         [Check_project_exist demo_p (PStr ''demo'') (Inr PNone),
          Log INFO ''Creating project %s to migrate files and metadata.'' [PStr ''demo''],
          Create_project_v2 demo_p [(''name'', PStr ''demo''), (''team_name'', PStr ''team-a'')] (Inr (PInt 7)),
          Importer_get_creator_username demo_p (Inr (PStr ''alice'', PStr ''demo-slug'')),
          Transfer_project demo_pimport (Inr ()),
          Importer_terminate_ssh_session demo_pimport (Inr ()),
          Convert_project_to_engine_based demo_pimport
            [(''default_project_engine_type'', PStr ''legacy_engine'')] (Inr ()),
          Import_metadata demo_pimport (PInt 7) (Inr ())],
       handle = Some demo_pimport\<rparr>)"
  by (simp add: run_defs demo_env_def demo_metadata_def demo_import_prefix_def demo_p_def
      demo_pimport_def demo_config_def passing_def)

lemma demo_export:
  "project_export_cmd demo_env ''demo'' (initial [] Map.empty) =
     (Inr (),
      \<lparr>world = [], files = Map.empty,
       trace = demo_export_prefix @
         [Transfer_project_files demo_pexport (Inr ()),
          Dump_project_and_related_metadata demo_pexport (Inr ())],
       handle = Some demo_pexport\<rparr>)"
  by (simp add: run_defs export_run_defs demo_defs)

lemma failing_transfer_export:
  "project_export_cmd failing_transfer_env ''demo'' (initial [] Map.empty) =
     (Inl SystemExit,
      \<lparr>world = [], files = Map.empty,
       trace = demo_export_prefix @
         [Transfer_project_files demo_pexport (Inl (Failure ''connection lost'')),
          Log_exception (Failure ''connection lost''),
          Exporter_terminate_ssh_session demo_pexport (Inr ()),
          Exit],
       handle = Some demo_pexport\<rparr>)"
  by (simp add: run_defs export_run_defs demo_defs failing_transfer_env_def)

lemma unknown_project_export:
  "project_export_cmd unknown_project_env ''demo'' (initial [] Map.empty) =
     (Inl SystemExit,
      \<lparr>world = [], files = Map.empty,
       trace =
         [Configure ''export-config.ini'' ''demo'' (Inr demo_config),
          Log INFO ''Started exporting project: %s'' [PStr ''demo''],
          Exporter_get_creator_username demo_pobj (Inr (PNone, PNone, PNone)),
          Log ERROR ''Validation error: Cannot find project - %s under username %s''
            [PStr ''demo'', PStr ''admin''],
          Log_exception (RuntimeError [''Validation error'']),
          Exit],
       handle = None\<rparr>)"
  by (simp add: run_defs export_run_defs demo_defs unknown_project_env_def)

lemma failing_validators_export:
  "project_export_cmd failing_validators_env ''demo'' (initial [] Map.empty) =
     (Inl SystemExit,
      \<lparr>world = [], files = Map.empty,
       trace =
         [Configure ''export-config.ini'' ''demo'' (Inr demo_config),
          Log INFO ''Started exporting project: %s'' [PStr ''demo''],
          Exporter_get_creator_username demo_pobj (Inr (PStr ''alice'', PStr ''demo-slug'', PStr ''user'')),
          Log INFO ''Begin validating for export.'' [],
          Initialize_validators
            (export_validator_args demo_config ''demo'' (PStr ''alice'') (PStr ''demo-slug'')) (Inr 3),
          Validate 0 (Inr passing),
          Validate 1 (Inr failing),
          Log ERROR ''Validation error: %s'' [PStr ''demo'', PStr ''not enough disk space''],
          Log_exception (RuntimeError [''validation error'', ''not enough disk space'']),
          Exit],
       handle = None\<rparr>)"
  by (simp add: run_defs export_run_defs demo_defs failing_validators_env_def)

lemma failing_validators_import:
  "project_import_cmd failing_validators_env ''demo'' (initial [] Map.empty) =
     (Inl SystemExit,
      \<lparr>world = [], files = Map.empty,
       trace =
         [Configure ''import-config.ini'' ''demo'' (Inr demo_config),
          Log INFO ''Started importing project: %s'' [PStr ''demo''],
          Initialize_validators (import_validator_args demo_config ''demo'') (Inr 3),
          Log INFO ''Begin validating for import.'' [],
          Validate 0 (Inr passing),
          Validate 1 (Inr failing),
          Log ERROR ''Validation error for project %s: %s'' [PStr ''demo'', PStr ''not enough disk space''],
          Log_exception (RuntimeError [''validation error'', ''not enough disk space'']),
          Exit],
       handle = None\<rparr>)"
  by (simp add: run_defs demo_defs failing_validators_env_def)

lemma existing_project_import:
  "project_import_cmd existing_project_env ''demo'' (initial [] Map.empty) =
     (Inr (),
      \<lparr>world = [], files = Map.empty,
       trace = demo_import_prefix @
         [Check_project_exist demo_p (PStr ''demo'') (Inr (PInt 7)),
          Log WARNING already_exists_warning [PStr ''demo''],
          Importer_get_creator_username demo_p (Inr (PStr ''alice'', PStr ''demo-slug'')),
          Transfer_project demo_pimport (Inr ()),
          Importer_terminate_ssh_session demo_pimport (Inr ()),
          Convert_project_to_engine_based demo_pimport
            [(''default_project_engine_type'', PStr ''legacy_engine'')] (Inr ()),
          Import_metadata demo_pimport (PInt 7) (Inr ())],
       handle = Some demo_pimport\<rparr>)"
  by (simp add: run_defs demo_defs existing_project_env_def)

lemma failing_metadata_import:
  "project_import_cmd failing_metadata_env ''demo'' (initial [] Map.empty) =
     (Inl SystemExit,
      \<lparr>world = [], files = Map.empty,
       trace = demo_import_prefix @
         [Check_project_exist demo_p (PStr ''demo'') (Inr PNone),
          Log INFO ''Creating project %s to migrate files and metadata.'' [PStr ''demo''],
          Create_project_v2 demo_p [(''name'', PStr ''demo''), (''team_name'', PStr ''team-a'')] (Inr (PInt 7)),
          Importer_get_creator_username demo_p (Inr (PStr ''alice'', PStr ''demo-slug'')),
          Transfer_project demo_pimport (Inr ()),
          Importer_terminate_ssh_session demo_pimport (Inr ()),
          Convert_project_to_engine_based demo_pimport
            [(''default_project_engine_type'', PStr ''legacy_engine'')] (Inr ()),
          Import_metadata demo_pimport (PInt 7) (Inl (Failure ''metadata import failed'')),
          Log_exception (Failure ''metadata import failed''),
          Importer_terminate_ssh_session demo_pimport (Inr ()),
          Exit],
       handle = Some demo_pimport\<rparr>)"
  by (simp add: run_defs demo_defs failing_metadata_env_def)

lemma nameless_import:
  "project_import_cmd nameless_env ''demo'' (initial [] Map.empty) =
     (Inl SystemExit,
      \<lparr>world = [], files = Map.empty,
       trace =
         [Configure ''import-config.ini'' ''demo'' (Inr demo_config),
          Log INFO ''Started importing project: %s'' [PStr ''demo''],
          Initialize_validators (import_validator_args demo_config ''demo'') (Inr 2),
          Log INFO ''Begin validating for import.'' [],
          Validate 0 (Inr passing),
          Validate 1 (Inr passing),
          Log INFO ''Finished validating import validations for project %s.'' [PStr ''demo''],
          Get_project_metadata_file_path ''/data'' ''demo'' (Inr ''/data/demo/project-metadata.json''),
          Read_json_file ''/data/demo/project-metadata.json'' (Inr [(''team_name'', PStr ''team-a'')]),
          Log_exception (KeyError ''name''),
          Exit],
       handle = None\<rparr>)"
  by (simp add: run_defs demo_defs nameless_env_def)

lemma first_import:
  "first_import_run =
     (Inr (),
      \<lparr>world = [(''default_project_engine_type'', PStr ''legacy_engine''),
                (''name'', PStr ''demo''), (''team_name'', PStr ''team-a'')],
       files = Map.empty,
       trace = demo_import_prefix @
         [Check_project_exist demo_p (PStr ''demo'') (Inr PNone),
          Log INFO ''Creating project %s to migrate files and metadata.'' [PStr ''demo''],
          Create_project_v2 demo_p [(''name'', PStr ''demo''), (''team_name'', PStr ''team-a'')] (Inr (PInt 7)),
          Importer_get_creator_username demo_p (Inr (PStr ''alice'', PStr ''demo-slug'')),
          Transfer_project demo_pimport (Inr ()),
          Importer_terminate_ssh_session demo_pimport (Inr ()),
          Convert_project_to_engine_based demo_pimport
            [(''default_project_engine_type'', PStr ''legacy_engine'')] (Inr ()),
          Import_metadata demo_pimport (PInt 7) (Inr ())],
       handle = Some demo_pimport\<rparr>)"
  by (simp add: first_import_run_def run_defs destination_env_def demo_metadata_def
      demo_import_prefix_def demo_p_def demo_pimport_def demo_config_def passing_def write_entries_def)

lemma repeated_import:
  "repeated_import_run =
     (Inr (),
      \<lparr>world = [(''default_project_engine_type'', PStr ''legacy_engine''), (''name'', PStr ''demo'')],
       files = Map.empty,
       trace = demo_import_prefix @
         [Check_project_exist demo_p (PStr ''demo'') (Inr (PInt 7)),
          Log WARNING already_exists_warning [PStr ''demo''],
          Importer_get_creator_username demo_p (Inr (PStr ''alice'', PStr ''demo-slug'')),
          Transfer_project demo_pimport (Inr ()),
          Importer_terminate_ssh_session demo_pimport (Inr ()),
          Convert_project_to_engine_based demo_pimport
            [(''default_project_engine_type'', PStr ''legacy_engine'')] (Inr ()),
          Import_metadata demo_pimport (PInt 7) (Inr ())],
       handle = Some demo_pimport\<rparr>)"
  by (simp add: repeated_import_run_def run_defs destination_env_def demo_metadata_def
      demo_import_prefix_def demo_p_def demo_pimport_def demo_config_def passing_def write_entries_def
      customised_settings_def)

lemmas replay_defs = performed_def keeping_def expect_def returns_def raises_def

lemma fetch_pages_scripted:
  assumes env: "get_all_runtimes_v2 env = (\<lambda>_ _. next_response)"
  shows "world s = w \<Longrightarrow> fetch_pages env p rts tok s \<noteq> None"
proof (induction w arbitrary: s rts tok)
  case Nil
  then show ?case
    by (subst fetch_pages.simps) (auto simp: env call_def next_response_def split: sum.splits)
next
  case (Cons x xs)
  have "fetch_pages env p rts' tok'
      (s\<lparr>world := xs, trace := trace s @ [Get_all_runtimes_v2 p tok (Inr x)]\<rparr>) \<noteq> None" for rts' tok'
    by (rule Cons(1)) simp
  then have IH: "\<exists>a b. fetch_pages env p rts' tok'
      (s\<lparr>world := xs, trace := trace s @ [Get_all_runtimes_v2 p tok (Inr x)]\<rparr>) = Some (a, b)" for rts' tok'
    by auto
  from Cons(2) show ?case
    apply (subst fetch_pages.simps)
    apply (simp add: env call_def next_response_def IH split: sum.splits)
    done
qed

lemma populate_scripted_returns:
  assumes env: "get_all_runtimes_v2 env = (\<lambda>_ _. next_response)"
  shows "\<exists>y. populate_engine_runtimes_mapping env (s :: (pyval list, 'h) state) = Some y"
proof -
  have ne: "fetch_pages env p rts tok (s0 :: (pyval list, 'h) state) \<noteq> None" for p rts tok s0
    by (rule fetch_pages_scripted[OF env refl])
  show ?thesis
    unfolding populate_engine_runtimes_mapping_def Let_def
    by (auto simp: ne split: prod.splits sum.splits option.splits)
qed

lemmas catalog_run_defs =
  populate_engine_runtimes_mapping_def store_runtimes_def write_catalog_def catalog_path_def
  set_content_def call_def seq_def try_except_def emit_def raise_def initial_def
  returns_def next_response_def demo_env_def Let_def dict_get_def py_add_def
  page_ab_def page_c_def empty_page_def page_a_def null_page_def old_catalog_def catalog_file_def

lemma fetch_pages_finished: "fetch_pages env p rts (PStr []) s = Some (Inr rts, s)"
  by (subst fetch_pages.simps) simp

lemma fetch_pages_request:
  "t \<noteq> [] \<Longrightarrow> fetch_pages env p rts (PStr t) s =
     (case call (Get_all_runtimes_v2 p (PStr t)) (get_all_runtimes_v2 env p (PStr t)) s of
        (Inl e, s') \<Rightarrow> Some (Inl e, s')
      | (Inr response, s') \<Rightarrow>
          if \<not> truthy response then Some (Inr rts, s')
          else
            (case py_get response ''runtimes'' (PList []) of
               Inl e \<Rightarrow> Some (Inl e, s')
             | Inr rs \<Rightarrow>
                 (case py_add rts rs of
                    Inl e \<Rightarrow> Some (Inl e, s')
                  | Inr runtimes' \<Rightarrow>
                      (case py_get response ''next_page_token'' (PStr []) of
                         Inl e \<Rightarrow> Some (Inl e, s')
                       | Inr page_token' \<Rightarrow> fetch_pages env p runtimes' page_token' s'))))"
  by (subst fetch_pages.simps) simp

lemma two_pages_populate:
  "two_pages_run = Some (Inr (),
     \<lparr>world = [],
      files = [catalog_file \<mapsto> Json (PDict [(''images'', PList [PStr ''a'', PStr ''b'', PStr ''c''])])],
      trace =
        [Configure ''import-config.ini'' ''DEFAULT'' (Inr demo_config),
         Get_all_runtimes_v2 demo_catalog_p (PStr []) (Inr page_ab),
         Get_all_runtimes_v2 demo_catalog_p (PStr ''t1'') (Inr page_c),
         Parse_runtimes_v2 (PList [PStr ''a'', PStr ''b'', PStr ''c''])
           (Inr (PDict [(''images'', PList [PStr ''a'', PStr ''b'', PStr ''c''])])),
         Open_w catalog_file (Inr ()),
         Json_dump (PDict [(''images'', PList [PStr ''a'', PStr ''b'', PStr ''c''])]) catalog_file (Inr ()),
         Close_w catalog_file (Inr ())],
      handle = None\<rparr>)"
  by (simp add: two_pages_run_def catalog_run_defs fetch_pages_finished fetch_pages_request
      demo_catalog_p_def demo_config_def)

lemma empty_first_page_populate:
  "empty_first_page_run = Some (Inr (),
     \<lparr>world = [],
      files = old_catalog,
      trace =
        [Configure ''import-config.ini'' ''DEFAULT'' (Inr demo_config),
         Get_all_runtimes_v2 demo_catalog_p (PStr []) (Inr empty_page),
         Log ERROR no_runtimes_error []],
      handle = None\<rparr>)"
  by (simp add: empty_first_page_run_def catalog_run_defs fetch_pages_finished fetch_pages_request
      demo_catalog_p_def demo_config_def no_runtimes_error_def)

lemma interrupted_populate:
  "interrupted_run = Some (Inr (),
     \<lparr>world = [],
      files = [catalog_file \<mapsto> Json (PDict [(''images'', PList [PStr ''a''])])],
      trace =
        [Configure ''import-config.ini'' ''DEFAULT'' (Inr demo_config),
         Get_all_runtimes_v2 demo_catalog_p (PStr []) (Inr page_a),
         Get_all_runtimes_v2 demo_catalog_p (PStr ''t1'') (Inr PNone),
         Parse_runtimes_v2 (PList [PStr ''a'']) (Inr (PDict [(''images'', PList [PStr ''a''])])),
         Open_w catalog_file (Inr ()),
         Json_dump (PDict [(''images'', PList [PStr ''a''])]) catalog_file (Inr ()),
         Close_w catalog_file (Inr ())],
      handle = None\<rparr>)"
  by (simp add: interrupted_run_def catalog_run_defs fetch_pages_finished fetch_pages_request
      demo_catalog_p_def demo_config_def)

lemma null_runtimes_populate:
  "null_runtimes_run = Some (Inl TypeError,
     \<lparr>world = [],
      files = old_catalog,
      trace =
        [Configure ''import-config.ini'' ''DEFAULT'' (Inr demo_config),
         Get_all_runtimes_v2 demo_catalog_p (PStr []) (Inr null_page)],
      handle = None\<rparr>)"
  by (simp add: null_runtimes_run_def catalog_run_defs fetch_pages_finished fetch_pages_request
      demo_catalog_p_def demo_config_def)

lemmas catalog_runs =
  two_pages_populate empty_first_page_populate interrupted_populate
  fetch_of_def page_runtimes_def raised_fetch_def is_dump_def is_open_def well_formed_def
  old_catalog_def page_ab_def page_c_def empty_page_def page_a_def dict_get_def

lemmas demo_runs =
  demo_import_run_def existing_import_run_def failing_metadata_import_run_def
  nameless_import_run_def failing_validators_import_run_def demo_export_run_def
  failing_transfer_export_run_def unknown_project_export_run_def failing_validators_export_run_def
  demo_import existing_project_import failing_metadata_import nameless_import
  failing_validators_import demo_export failing_transfer_export unknown_project_export
  failing_validators_export demo_import_prefix_def demo_export_prefix_def

section \<open>Closing the session\<close>

text \<open>
  C1, as the source has it. The claim asks for exactly one call of
  \<^verbatim>\<open>terminate_ssh_session\<close> in every operation. The import command ends the session
  once in the body of its \<^verbatim>\<open>try\<close> (line 260) and once more in the handler (line
  272), whenever the importer that transfers exists; neither command calls it when the
  failure comes before that object is constructed.

  In every import, the calls recorded in the trace are the calls made on the
  installation (\<open>performed\<close>); a transfer is started on at most one object; and
  \<^verbatim>\<open>terminate_ssh_session\<close> is called on that object and on no other: not at all when
  no transfer was started, once when the transfer raised or the import returned, twice
  when a step after the transfer raised. In every export that does not return normally
  the calls recorded are the calls made, a transfer is started on at most one object,
  and the session is ended once, on that object, when the transfer was started and not
  at all otherwise. (\<open>transfer_sessions\<close> and \<open>closed_sessions\<close> list the objects on
  which a transfer was started and a session ended; \<open>closes\<close> keeps the calls that
  end a session, in the order of the trace.)
\<close>

theorem session_close_count:
  "(project_import_cmd env pn (initial w fs) = (r, s') \<longrightarrow>
      performed env Import_command w (trace s') (world s') \<and>
      length (transfer_sessions (trace s')) \<le> 1 \<and>
      closed_sessions (trace s') =
        concat (map (replicate (if list_ex is_failed_transfer (trace s') \<or> r = Inr () then 1 else 2))
          (transfer_sessions (trace s'))) \<and>
      length (closes (trace s')) =
        (if \<not> list_ex is_transfer_call (trace s') then 0
         else if list_ex is_failed_transfer (trace s') \<or> r = Inr () then 1 else 2)) \<and>
   (project_export_cmd env' pn' (initial w' fs') = (r', t') \<and> r' \<noteq> Inr () \<longrightarrow>
      performed env' Export_command w' (trace t') (world t') \<and>
      length (transfer_sessions (trace t')) \<le> 1 \<and>
      closed_sessions (trace t') = transfer_sessions (trace t') \<and>
      length (closes (trace t')) = (if list_ex is_transfer_call (trace t') then 1 else 0))"
  using import_close_count[of env pn w fs r s'] export_close_count[of env' pn' w' fs' r' t']
    import_sessions[of env pn w fs r s'] export_sessions[of env' pn' w' fs' r' t']
    import_performed[of env pn w fs r s'] export_performed[of env' pn' w' fs' r' t']
  by blast

theorem session_close_count_witness:
  "project_import_cmd demo_env ''demo'' (initial [] Map.empty) = demo_import_run \<and>
   performed demo_env Import_command [] (trace (snd demo_import_run)) (world (snd demo_import_run)) \<and>
   transfer_sessions (trace (snd demo_import_run)) = [Import_session demo_pimport] \<and>
   closed_sessions (trace (snd demo_import_run)) = [Import_session demo_pimport] \<and>
   length (closes (trace (snd demo_import_run))) = 1 \<and>
   project_export_cmd failing_transfer_env ''demo'' (initial [] Map.empty) = failing_transfer_export_run \<and>
   fst failing_transfer_export_run \<noteq> Inr () \<and>
   performed failing_transfer_env Export_command []
     (trace (snd failing_transfer_export_run)) (world (snd failing_transfer_export_run)) \<and>
   transfer_sessions (trace (snd failing_transfer_export_run)) = [Export_session demo_pexport] \<and>
   closed_sessions (trace (snd failing_transfer_export_run)) = [Export_session demo_pexport] \<and>
   length (closes (trace (snd failing_transfer_export_run))) = 1"
proof -
  have i: "project_import_cmd demo_env ''demo'' (initial [] Map.empty) =
      (Inr (), snd demo_import_run)"
    by (simp add: demo_runs)
  have e: "project_export_cmd failing_transfer_env ''demo'' (initial [] Map.empty) =
      (Inl SystemExit, snd failing_transfer_export_run) \<and> Inl SystemExit \<noteq> (Inr () :: error + unit)"
    by (simp add: demo_runs)
  from session_close_count[THEN conjunct1, THEN mp, OF i]
    session_close_count[THEN conjunct2, THEN mp, OF e]
  show ?thesis
    by (simp add: demo_runs transfer_defs session_defs)
qed

text \<open>
  The claim itself fails: when \<^verbatim>\<open>import_metadata\<close> raises after a transfer that
  returned, the session of the importer that transferred is ended twice, and both
  calls are made.
\<close>

theorem import_closes_twice_counterexample:
  "fst failing_metadata_import_run = Inl SystemExit \<and>
   Import_metadata demo_pimport (PInt 7) (Inl (Failure ''metadata import failed''))
     \<in> set (trace (snd failing_metadata_import_run)) \<and>
   performed failing_metadata_env Import_command []
     (trace (snd failing_metadata_import_run)) (world (snd failing_metadata_import_run)) \<and>
   transfer_sessions (trace (snd failing_metadata_import_run)) = [Import_session demo_pimport] \<and>
   closed_sessions (trace (snd failing_metadata_import_run)) =
     [Import_session demo_pimport, Import_session demo_pimport] \<and>
   closes (trace (snd failing_metadata_import_run)) =
     [Importer_terminate_ssh_session demo_pimport (Inr ()),
      Importer_terminate_ssh_session demo_pimport (Inr ())] \<and>
   length (closes (trace (snd failing_metadata_import_run))) = 2"
  apply (simp add: demo_runs closes_def is_close_def session_defs)
  apply (simp add: replay_defs failing_metadata_env_def demo_env_def)
  done

section \<open>The validator chain stops at the first failure\<close>

text \<open>
  C3. In an export and in an import alike, when the validator at position \<open>i\<close>
  returns a FAILED result, no validator at a later position is called, no transfer is
  started, and the exception that the handler catches and logs before it exits is the
  \<^verbatim>\<open>RuntimeError\<close> that carries the message of that result.
\<close>

theorem validation_short_circuit:
  "(project_export_cmd env pn (initial w fs) = (r, s') \<and>
      Validate i (Inr resp) \<in> set (trace s') \<and> validation_status resp = FAILED \<longrightarrow>
      r = Inl SystemExit \<and>
      (\<forall>j x. Validate j x \<in> set (trace s') \<longrightarrow> j \<le> i) \<and>
      (\<forall>pe x. Transfer_project_files pe x \<notin> set (trace s')) \<and>
      (\<exists>before. trace s' = before @
          [Log_exception (RuntimeError [''validation error'', validation_msg resp]), Exit])) \<and>
   (project_import_cmd env' pn' (initial w' fs') = (r', t') \<and>
      Validate i' (Inr resp') \<in> set (trace t') \<and> validation_status resp' = FAILED \<longrightarrow>
      r' = Inl SystemExit \<and>
      (\<forall>j x. Validate j x \<in> set (trace t') \<longrightarrow> j \<le> i') \<and>
      (\<forall>pi x. Transfer_project pi x \<notin> set (trace t')) \<and>
      (\<exists>before. trace t' = before @
          [Log_exception (RuntimeError [''validation error'', validation_msg resp']), Exit]))"
  using export_validation_short_circuit[of env pn w fs r s' i resp]
    import_validation_short_circuit[of env' pn' w' fs' r' t' i' resp']
  by blast


theorem validation_short_circuit_witness:
  "Validate 1 (Inr failing) \<in> set (trace (snd failing_validators_export_run)) \<and>
   validation_status failing = FAILED \<and>
   fst failing_validators_export_run = Inl SystemExit \<and>
   Validate 2 (Inr passing) \<notin> set (trace (snd failing_validators_export_run)) \<and>
   Validate 1 (Inr failing) \<in> set (trace (snd failing_validators_import_run)) \<and>
   fst failing_validators_import_run = Inl SystemExit \<and>
   Validate 2 (Inr passing) \<notin> set (trace (snd failing_validators_import_run))"
proof -
  have e: "project_export_cmd failing_validators_env ''demo'' (initial [] Map.empty) =
        (Inl SystemExit, snd failing_validators_export_run) \<and>
      Validate 1 (Inr failing) \<in> set (trace (snd failing_validators_export_run)) \<and>
      validation_status failing = FAILED"
    by (simp add: demo_runs failing_def)
  have i: "project_import_cmd failing_validators_env ''demo'' (initial [] Map.empty) =
        (Inl SystemExit, snd failing_validators_import_run) \<and>
      Validate 1 (Inr failing) \<in> set (trace (snd failing_validators_import_run)) \<and>
      validation_status failing = FAILED"
    by (simp add: demo_runs failing_def)
  from validation_short_circuit[THEN conjunct1, THEN mp, OF e]
  have "\<forall>j x. Validate j x \<in> set (trace (snd failing_validators_export_run)) \<longrightarrow> j \<le> 1"
    by blast
  then have 1: "Validate 2 (Inr passing) \<notin> set (trace (snd failing_validators_export_run))"
    by fastforce
  from validation_short_circuit[THEN conjunct2, THEN mp, OF i]
  have "\<forall>j x. Validate j x \<in> set (trace (snd failing_validators_import_run)) \<longrightarrow> j \<le> 1"
    by blast
  then have 2: "Validate 2 (Inr passing) \<notin> set (trace (snd failing_validators_import_run))"
    by fastforce
  from e i 1 2 show ?thesis by (simp add: demo_runs)
qed

section \<open>The legacy engine\<close>

text \<open>
  C4. In every import that has read its metadata document: the calls recorded in the
  trace are the calls made on the installation, with the recorded arguments and
  results; the document passed to \<^verbatim>\<open>create_project_v2\<close> is the one read without the
  key \<^verbatim>\<open>default_project_engine_type\<close>; \<^verbatim>\<open>convert_project_to_engine_based\<close> is
  called if and only if the document read has that key, the transfer returned and the
  first call that ends the session returned; and whenever it is called, its argument is
  \<^verbatim>\<open>{"default_project_engine_type": "legacy_engine"}\<close> and the call comes right after
  the transfer and the end of the session, on the same importer. So a document without
  the key never leads to the patch.
\<close>

theorem legacy_engine_patch:
  assumes run: "project_import_cmd env pn (initial w fs) = (r, s')"
    and md: "Read_json_file path (Inr md) \<in> set (trace s')"
  shows "performed env Import_command w (trace s') (world s') \<and>
    (\<forall>p m x. Create_project_v2 p m x \<in> set (trace s') \<longrightarrow>
            m = dict_pop legacy_engine_key md \<and> \<not> dict_contains legacy_engine_key m) \<and>
    ((\<exists>pi patch x. Convert_project_to_engine_based pi patch x \<in> set (trace s')) \<longleftrightarrow>
       dict_contains legacy_engine_key md \<and>
       (\<exists>pi rest. Transfer_project pi (Inr ()) \<in> set (trace s') \<and>
           closes (trace s') = Importer_terminate_ssh_session pi (Inr ()) # rest)) \<and>
    (\<forall>pi patch x. Convert_project_to_engine_based pi patch x \<in> set (trace s') \<longrightarrow>
       patch = [(legacy_engine_key, PStr ''legacy_engine'')] \<and>
       (\<exists>before after. trace s' = before @
          [Transfer_project pi (Inr ()), Importer_terminate_ssh_session pi (Inr ()),
           Convert_project_to_engine_based pi patch x] @ after))"
  using import_create_without_marker[OF run md] import_convert_iff[OF run md]
    import_convert_order[OF run] import_performed[OF run]
  by (intro conjI allI impI) blast+

theorem legacy_engine_patch_witness:
  "Read_json_file ''/data/demo/project-metadata.json'' (Inr demo_metadata)
     \<in> set (trace (snd first_import_run)) \<and>
   dict_contains legacy_engine_key demo_metadata \<and>
   performed destination_env Import_command [] (trace (snd first_import_run)) (world (snd first_import_run)) \<and>
   Create_project_v2 demo_p (dict_pop legacy_engine_key demo_metadata) (Inr (PInt 7))
     \<in> set (trace (snd first_import_run)) \<and>
   Convert_project_to_engine_based demo_pimport [(legacy_engine_key, PStr ''legacy_engine'')] (Inr ())
     \<in> set (trace (snd first_import_run)) \<and>
   closes (trace (snd first_import_run)) = [Importer_terminate_ssh_session demo_pimport (Inr ())] \<and>
   world (snd first_import_run) =
     [(legacy_engine_key, PStr ''legacy_engine''), (''name'', PStr ''demo''), (''team_name'', PStr ''team-a'')]"
proof -
  have run: "project_import_cmd destination_env ''demo'' (initial [] Map.empty) =
      (Inr (), snd first_import_run)"
    unfolding first_import_run_def[symmetric] by (simp add: first_import)
  have md: "Read_json_file ''/data/demo/project-metadata.json'' (Inr demo_metadata)
      \<in> set (trace (snd first_import_run))"
    by (simp add: first_import demo_import_prefix_def)
  from legacy_engine_patch[OF run md] md show ?thesis
    by (simp add: first_import demo_import_prefix_def closes_def is_close_def dict_contains_def
        dict_pop_def legacy_engine_key_def demo_metadata_def)
qed

section \<open>Importing into a project that exists\<close>

text \<open>
  What every import does once \<^verbatim>\<open>check_project_exist\<close> has returned a project id:
  \<^verbatim>\<open>create_project_v2\<close> is never called, the warning of line 243 is logged, the
  transfer is started as soon as the lookup of the creator returns, and the metadata is
  imported into the project that was found.
\<close>

lemma import_existing_project_calls:
  assumes run: "project_import_cmd env pn (initial w fs) = (r, s')"
    and ck: "Check_project_exist q name (Inr found) \<in> set (trace s')"
    and found: "found \<noteq> PNone"
  shows "(\<forall>p m x. Create_project_v2 p m x \<notin> set (trace s')) \<and>
    Log WARNING already_exists_warning [name] \<in> set (trace s') \<and>
    (\<forall>p c slug. Importer_get_creator_username p (Inr (c, slug)) \<in> set (trace s') \<longrightarrow>
        (\<exists>pi x. Transfer_project pi x \<in> set (trace s'))) \<and>
    (\<forall>pi pid x. Import_metadata pi pid x \<in> set (trace s') \<longrightarrow> pid = found)"
proof -
  from run have "import_run pn r (trace s')" by (rule project_import_cmd_run)
  then show ?thesis
  proof (cases rule: import_run_cases)
    case early
    with ck show ?thesis by (simp add: mem_simps)
  next
    case (unprepared cfg pre pevs e)
    from ck unprepared have c: "Check_project_exist q name (Inr found) \<in> set pevs"
      by (simp add: mem_simps)
    note P = prepared_existing[OF unprepared(3) c found]
    show ?thesis using unprepared
      apply (simp add: mem_simps)
      using P apply auto
      done
  next
    case (failed cfg pre pevs ue pid user slug tevs e hevs)
    from ck failed have c: "Check_project_exist q name (Inr found) \<in> set pevs"
      by (simp add: mem_simps)
    note P = prepared_existing[OF failed(3) c found] transferred_starts[OF failed(4)]
      transferred_metadata[OF failed(4)]
    show ?thesis using failed
      apply (simp add: mem_simps)
      using P apply auto
      done
  next
    case (completed cfg pre pevs ue pid user slug tevs)
    from ck completed have c: "Check_project_exist q name (Inr found) \<in> set pevs"
      by (simp add: mem_simps)
    note P = prepared_existing[OF completed(3) c found] transferred_starts[OF completed(4)]
      transferred_metadata[OF completed(4)]
    show ?thesis using completed
      apply (simp add: mem_simps)
      using P apply auto
      done
  qed
qed

text \<open>
  C5. The claim asks that an import into a project that exists leaves the settings of
  that project alone, as the warning logged at line 243 promises (\<^verbatim>\<open>Retrying the
  import won't update existing project settings or artifacts\<close>). Lines 262 to 266 send
  the patch of the engine type whenever the metadata document has the key, whether the
  project was created by this run or not. On the installation below the project exists
  with the engine type \<^verbatim>\<open>ml_runtime\<close>; the import creates nothing, logs the warning,
  transfers the files, and then calls \<^verbatim>\<open>convert_project_to_engine_based\<close>, which
  leaves the engine type \<^verbatim>\<open>legacy_engine\<close>.
\<close>

theorem existing_project_engine_type_overwritten:
  "fst repeated_import_run = Inr () \<and>
   Check_project_exist demo_p (PStr ''demo'') (Inr (PInt 7)) \<in> set (trace (snd repeated_import_run)) \<and>
   Log WARNING already_exists_warning [PStr ''demo''] \<in> set (trace (snd repeated_import_run)) \<and>
   filter is_creation (trace (snd repeated_import_run)) = [] \<and>
   Transfer_project demo_pimport (Inr ()) \<in> set (trace (snd repeated_import_run)) \<and>
   Convert_project_to_engine_based demo_pimport [(legacy_engine_key, PStr ''legacy_engine'')] (Inr ())
     \<in> set (trace (snd repeated_import_run)) \<and>
   performed destination_env Import_command customised_settings
     (trace (snd repeated_import_run)) (world (snd repeated_import_run)) \<and>
   dict_get customised_settings legacy_engine_key PNone = PStr ''ml_runtime'' \<and>
   dict_get (world (snd repeated_import_run)) legacy_engine_key PNone = PStr ''legacy_engine''"
  by (simp add: repeated_import demo_import_prefix_def is_creation_def replay_defs destination_env_def
      customised_settings_def legacy_engine_key_def dict_get_def write_entries_def
      import_validator_args_def demo_config_def demo_p_def demo_pimport_def new_ProjectImporter_def
      demo_metadata_def passing_def)

section \<open>Exporting a project that cannot be found\<close>

text \<open>
  C6. In every export where \<^verbatim>\<open>get_creator_username\<close> returns no creator, the
  command logs the error, raises, and leaves through the handler: the whole trace is
  the configuration, the start message, the one lookup, the error message, the logged
  exception and the exit. There is no second lookup, no exporter for the transfer, no
  transfer and no session.
\<close>

theorem export_project_not_found:
  assumes run: "project_export_cmd env pn (initial w fs) = (r, s')"
    and g: "Exporter_get_creator_username pobj (Inr (PNone, slug, otype)) \<in> set (trace s')"
  shows "\<exists>cfg. r = Inl SystemExit \<and>
    trace s' =
      [Configure ''export-config.ini'' pn (Inr cfg),
       Log INFO ''Started exporting project: %s'' [PStr pn],
       Exporter_get_creator_username pobj (Inr (PNone, slug, otype)),
       Log ERROR ''Validation error: Cannot find project - %s under username %s''
         [PStr pn, PStr (cfg_username cfg)],
       Log_exception (RuntimeError [''Validation error'']),
       Exit]"
proof -
  from run have "export_run pn r (trace s')" by (rule project_export_cmd_run)
  then show ?thesis
  proof (cases rule: export_run.cases)
    case (no_config e)
    with g show ?thesis by simp
  next
    case (aborted cfg h e evs hevs)
    from g aborted have m: "Exporter_get_creator_username pobj (Inr (PNone, slug, otype)) \<in> set evs"
      by (simp add: export_handled_events is_handling_def)
    from export_body_not_found[OF aborted(2) m]
    have h: "h = None" and e: "e = RuntimeError [''Validation error'']"
      and evs: "evs = [Exporter_get_creator_username pobj (Inr (PNone, slug, otype)),
           Log ERROR ''Validation error: Cannot find project - %s under username %s''
             [PStr pn, PStr (cfg_username cfg)]]" by simp_all
    from aborted(3) h have hevs: "hevs = [Log_exception e, Exit]" "r = Inl SystemExit"
      using export_handled_none by blast+
    show ?thesis using aborted(1) evs hevs e by simp
  next
    case (completed cfg h evs)
    from g completed have m: "Exporter_get_creator_username pobj (Inr (PNone, slug, otype)) \<in> set evs"
      by simp
    from export_body_not_found[OF completed(3) m] show ?thesis by simp
  qed
qed


theorem export_project_not_found_witness:
  "Exporter_get_creator_username demo_pobj (Inr (PNone, PNone, PNone))
     \<in> set (trace (snd unknown_project_export_run)) \<and>
   fst unknown_project_export_run = Inl SystemExit \<and>
   length (trace (snd unknown_project_export_run)) = 6"
proof -
  have run: "project_export_cmd unknown_project_env ''demo'' (initial [] Map.empty) =
      (Inl SystemExit, snd unknown_project_export_run)"
    by (simp add: demo_runs)
  have g: "Exporter_get_creator_username demo_pobj (Inr (PNone, PNone, PNone))
      \<in> set (trace (snd unknown_project_export_run))"
    by (simp add: demo_runs)
  from export_project_not_found[OF run g] obtain cfg where
    "trace (snd unknown_project_export_run) =
      [Configure ''export-config.ini'' ''demo'' (Inr cfg),
       Log INFO ''Started exporting project: %s'' [PStr ''demo''],
       Exporter_get_creator_username demo_pobj (Inr (PNone, PNone, PNone)),
       Log ERROR ''Validation error: Cannot find project - %s under username %s''
         [PStr ''demo'', PStr (cfg_username cfg)],
       Log_exception (RuntimeError [''Validation error'']),
       Exit]" by blast
  then have "length (trace (snd unknown_project_export_run)) = 6" by simp
  with g show ?thesis by (simp add: demo_runs)
qed

section \<open>The metadata of an export\<close>

text \<open>
  C8. In every export, a call of \<^verbatim>\<open>dump_project_and_related_metadata\<close> comes right
  after a call of \<^verbatim>\<open>transfer_project_files\<close> on the same exporter that returned; and
  when the transfer raises, the dump is never called. The dump is the only call through
  which the command writes metadata.
\<close>

theorem export_metadata_after_transfer:
  assumes run: "project_export_cmd env pn (initial w fs) = (r, s')"
  shows "(\<forall>pe x. Dump_project_and_related_metadata pe x \<in> set (trace s') \<longrightarrow>
            (\<exists>before after. trace s' = before @
               [Transfer_project_files pe (Inr ()), Dump_project_and_related_metadata pe x] @ after)) \<and>
         (\<forall>pe e. Transfer_project_files pe (Inl e) \<in> set (trace s') \<longrightarrow>
            (\<forall>q x. Dump_project_and_related_metadata q x \<notin> set (trace s')))"
proof -
  from run have "export_run pn r (trace s')" by (rule project_export_cmd_run)
  then show ?thesis
  proof (cases rule: export_run.cases)
    case (no_config e)
    then show ?thesis by simp
  next
    case (aborted cfg h e evs hevs)
    note B = export_body_dump[OF aborted(2)]
    have 1: "\<exists>before after. trace s' = before @
               [Transfer_project_files pe (Inr ()), Dump_project_and_related_metadata pe x] @ after"
      if "Dump_project_and_related_metadata pe x \<in> set (trace s')" for pe x
    proof -
      from that aborted have "Dump_project_and_related_metadata pe x \<in> set evs"
        by (simp add: export_handled_events is_handling_def)
      with B obtain before where "evs = before @
               [Transfer_project_files pe (Inr ()), Dump_project_and_related_metadata pe x]"
        by blast
      with aborted(1) have "trace s' =
         (Configure ''export-config.ini'' pn (Inr cfg) #
          Log INFO ''Started exporting project: %s'' [PStr pn] # before) @
         [Transfer_project_files pe (Inr ()), Dump_project_and_related_metadata pe x] @ hevs"
        by simp
      then show ?thesis by blast
    qed
    have 2: "Dump_project_and_related_metadata q x \<notin> set (trace s')"
      if "Transfer_project_files pe (Inl e') \<in> set (trace s')" for pe e' q x
    proof -
      from that aborted have "Transfer_project_files pe (Inl e') \<in> set evs"
        by (simp add: export_handled_events is_handling_def)
      with B have "Dump_project_and_related_metadata q x \<notin> set evs" by blast
      with aborted show ?thesis by (simp add: export_handled_events is_handling_def)
    qed
    from 1 2 show ?thesis by blast
  next
    case (completed cfg h evs)
    note B = export_body_dump[OF completed(3)]
    have 1: "\<exists>before after. trace s' = before @
               [Transfer_project_files pe (Inr ()), Dump_project_and_related_metadata pe x] @ after"
      if "Dump_project_and_related_metadata pe x \<in> set (trace s')" for pe x
    proof -
      from that completed have "Dump_project_and_related_metadata pe x \<in> set evs"
        by simp
      with B obtain before where "evs = before @
               [Transfer_project_files pe (Inr ()), Dump_project_and_related_metadata pe x]"
        by blast
      with completed(2) have "trace s' =
         (Configure ''export-config.ini'' pn (Inr cfg) #
          Log INFO ''Started exporting project: %s'' [PStr pn] # before) @
         [Transfer_project_files pe (Inr ()), Dump_project_and_related_metadata pe x] @ []"
        by simp
      then show ?thesis by blast
    qed
    have 2: "Dump_project_and_related_metadata q x \<notin> set (trace s')"
      if "Transfer_project_files pe (Inl e') \<in> set (trace s')" for pe e' q x
    proof -
      from that completed have "Transfer_project_files pe (Inl e') \<in> set evs"
        by simp
      with B have "Dump_project_and_related_metadata q x \<notin> set evs" by blast
      with completed show ?thesis by simp
    qed
    from 1 2 show ?thesis by blast
  qed
qed


theorem export_metadata_after_transfer_witness:
  "Dump_project_and_related_metadata demo_pexport (Inr ()) \<in> set (trace (snd demo_export_run)) \<and>
   Transfer_project_files demo_pexport (Inr ()) \<in> set (trace (snd demo_export_run)) \<and>
   Transfer_project_files demo_pexport (Inl (Failure ''connection lost''))
     \<in> set (trace (snd failing_transfer_export_run)) \<and>
   Dump_project_and_related_metadata demo_pexport (Inr ())
     \<notin> set (trace (snd failing_transfer_export_run))"
proof -
  have ok: "project_export_cmd demo_env ''demo'' (initial [] Map.empty) =
      (Inr (), snd demo_export_run)"
    by (simp add: demo_runs)
  have d: "Dump_project_and_related_metadata demo_pexport (Inr ()) \<in> set (trace (snd demo_export_run))"
    by (simp add: demo_runs)
  from export_metadata_after_transfer[OF ok] d obtain before after where
    "trace (snd demo_export_run) = before @
       [Transfer_project_files demo_pexport (Inr ()),
        Dump_project_and_related_metadata demo_pexport (Inr ())] @ after" by blast
  then have t: "Transfer_project_files demo_pexport (Inr ()) \<in> set (trace (snd demo_export_run))"
    by simp
  have bad: "project_export_cmd failing_transfer_env ''demo'' (initial [] Map.empty) =
      (Inl SystemExit, snd failing_transfer_export_run)"
    by (simp add: demo_runs)
  have f: "Transfer_project_files demo_pexport (Inl (Failure ''connection lost''))
      \<in> set (trace (snd failing_transfer_export_run))"
    by (simp add: demo_runs)
  from export_metadata_after_transfer[OF bad] f
  have "Dump_project_and_related_metadata demo_pexport (Inr ())
      \<notin> set (trace (snd failing_transfer_export_run))" by blast
  with d t f show ?thesis by simp
qed

section \<open>The acting user of an import\<close>

text \<open>
  C9. In every import, the importer that transfers the files is constructed with the
  value under \<^verbatim>\<open>team_name\<close> of the metadata document as its user name when the
  document has that key, and with the configured user name otherwise.
\<close>

theorem import_acting_username:
  assumes run: "project_import_cmd env pn (initial w fs) = (r, s')"
    and cfg: "Configure f n (Inr cfg) \<in> set (trace s')"
    and md: "Read_json_file path (Inr md) \<in> set (trace s')"
    and tr: "Transfer_project pimport x \<in> set (trace s')"
  shows "username pimport =
     (case map_of md ''team_name'' of Some t \<Rightarrow> t | None \<Rightarrow> PStr (cfg_username cfg))"
proof -
  from run have "import_run pn r (trace s')" by (rule project_import_cmd_run)
  then show ?thesis
  proof cases
    case (no_config e)
    with cfg show ?thesis by simp
  next
    case (configured c evs)
    from configured(2) show ?thesis
    proof cases
      case (no_validators e hevs)
      with tr configured(1) show ?thesis by (simp add: stage_events stage_defs)
    next
      case (invalid vevs e hevs n)
      with tr configured(1) show ?thesis by (simp add: stage_events stage_defs)
    next
      case (unprepared vevs pevs e hevs n)
      with tr configured(1) show ?thesis by (simp add: stage_events stage_defs)
    next
      case (failed vevs pevs ue pid user slug tevs e hevs n)
      with tr md cfg configured(1) have "pimport = new_ProjectImporter c pn user slug"
        "user = acting_user c md" "c = cfg"
        by (auto simp: stage_events stage_defs dest: transferred_importer prepared_user)
      then show ?thesis by (simp add: new_ProjectImporter_def acting_user_def)
    next
      case (completed vevs pevs ue pid user slug tevs n)
      with tr md cfg configured(1) have "pimport = new_ProjectImporter c pn user slug"
        "user = acting_user c md" "c = cfg"
        by (auto simp: stage_events stage_defs dest: transferred_importer prepared_user)
      then show ?thesis by (simp add: new_ProjectImporter_def acting_user_def)
    qed
  qed
qed

theorem import_acting_username_witness:
  "Transfer_project demo_pimport (Inr ())
     \<in> set (trace (snd (project_import_cmd demo_env ''demo'' (initial [] Map.empty)))) \<and>
   map_of demo_metadata ''team_name'' = Some (PStr ''team-a'') \<and>
   username demo_pimport = PStr ''team-a''"
proof -
  let ?s = "snd (project_import_cmd demo_env ''demo'' (initial [] Map.empty))"
  have run: "project_import_cmd demo_env ''demo'' (initial [] Map.empty) = (Inr (), ?s)"
    by (simp add: demo_import)
  have cfg: "Configure ''import-config.ini'' ''demo'' (Inr demo_config) \<in> set (trace ?s)"
    and md: "Read_json_file ''/data/demo/project-metadata.json'' (Inr demo_metadata) \<in> set (trace ?s)"
    and tr: "Transfer_project demo_pimport (Inr ()) \<in> set (trace ?s)"
    by (simp_all add: demo_import demo_import_prefix_def)
  from import_acting_username[OF run cfg md tr] tr show ?thesis
    by (simp add: demo_metadata_def)
qed


section \<open>The name under which a project is imported\<close>

text \<open>
  C10. In every import that has read its metadata document, the name passed to
  \<^verbatim>\<open>check_project_exist\<close> is the value under \<^verbatim>\<open>name\<close> of that document, and the
  document passed to \<^verbatim>\<open>create_project_v2\<close> carries the same name; the project name
  of the command line is used for neither. When the document has no \<^verbatim>\<open>name\<close>, the
  handler catches \<^verbatim>\<open>KeyError('name')\<close> and exits, and the trace has no lookup, no
  creation and no transfer.
\<close>

theorem import_keyed_on_metadata_name:
  assumes run: "project_import_cmd env pn (initial w fs) = (r, s')"
    and md: "Read_json_file path (Inr md) \<in> set (trace s')"
  shows "(\<forall>q name x. Check_project_exist q name x \<in> set (trace s') \<longrightarrow> map_of md ''name'' = Some name) \<and>
    (\<forall>q m x. Create_project_v2 q m x \<in> set (trace s') \<longrightarrow>
        map_of m ''name'' = map_of md ''name'' \<and> map_of md ''name'' \<noteq> None) \<and>
    (map_of md ''name'' = None \<longrightarrow>
        r = Inl SystemExit \<and> Log_exception (KeyError ''name'') \<in> set (trace s') \<and>
        (\<forall>q name x. Check_project_exist q name x \<notin> set (trace s')) \<and>
        (\<forall>q m x. Create_project_v2 q m x \<notin> set (trace s')) \<and>
        (\<forall>pi x. Transfer_project pi x \<notin> set (trace s')))"
proof -
  from run have "import_run pn r (trace s')" by (rule project_import_cmd_run)
  then show ?thesis
  proof (cases rule: import_run_cases)
    case early
    with md show ?thesis by (simp add: mem_simps)
  next
    case (unprepared cfg pre pevs e)
    from md unprepared have m: "Read_json_file path (Inr md) \<in> set pevs"
      by (simp add: mem_simps)
    note P = prepared_name[OF unprepared(3) m]
    show ?thesis using unprepared
      apply (simp add: mem_simps)
      using P apply blast
      done
  next
    case (failed cfg pre pevs ue pid user slug tevs e hevs)
    from md failed have m: "Read_json_file path (Inr md) \<in> set pevs"
      by (simp add: mem_simps)
    note P = prepared_name[OF failed(3) m]
    show ?thesis using failed
      apply (simp add: mem_simps)
      using P apply blast
      done
  next
    case (completed cfg pre pevs ue pid user slug tevs)
    from md completed have m: "Read_json_file path (Inr md) \<in> set pevs"
      by (simp add: mem_simps)
    note P = prepared_name[OF completed(3) m]
    show ?thesis using completed
      apply (simp add: mem_simps)
      using P apply blast
      done
  qed
qed


theorem import_keyed_on_metadata_name_witness:
  "Read_json_file ''/data/demo/project-metadata.json'' (Inr demo_metadata)
     \<in> set (trace (snd demo_import_run)) \<and>
   Check_project_exist demo_p (PStr ''demo'') (Inr PNone) \<in> set (trace (snd demo_import_run)) \<and>
   map_of demo_metadata ''name'' = Some (PStr ''demo'') \<and>
   Read_json_file ''/data/demo/project-metadata.json'' (Inr [(''team_name'', PStr ''team-a'')])
     \<in> set (trace (snd nameless_import_run)) \<and>
   map_of [(''team_name'', PStr ''team-a'')] ''name'' = None \<and>
   fst nameless_import_run = Inl SystemExit \<and>
   Log_exception (KeyError ''name'') \<in> set (trace (snd nameless_import_run))"
proof -
  have run: "project_import_cmd demo_env ''demo'' (initial [] Map.empty) =
      (Inr (), snd demo_import_run)"
    by (simp add: demo_runs)
  have md: "Read_json_file ''/data/demo/project-metadata.json'' (Inr demo_metadata)
      \<in> set (trace (snd demo_import_run))"
    and ck: "Check_project_exist demo_p (PStr ''demo'') (Inr PNone) \<in> set (trace (snd demo_import_run))"
    by (simp_all add: demo_runs)
  from import_keyed_on_metadata_name[OF run md] ck
  have 1: "map_of demo_metadata ''name'' = Some (PStr ''demo'')" by blast
  have run': "project_import_cmd nameless_env ''demo'' (initial [] Map.empty) =
      (fst nameless_import_run, snd nameless_import_run)"
    by (simp add: demo_runs)
  have md': "Read_json_file ''/data/demo/project-metadata.json'' (Inr [(''team_name'', PStr ''team-a'')])
      \<in> set (trace (snd nameless_import_run))"
    by (simp add: demo_runs)
  have none: "map_of [(''team_name'', PStr ''team-a'')] ''name'' = None" by simp
  from import_keyed_on_metadata_name[OF run' md'] none
  have 2: "fst nameless_import_run = Inl SystemExit"
    "Log_exception (KeyError ''name'') \<in> set (trace (snd nameless_import_run))" by blast+
  from md ck 1 md' none 2 show ?thesis by simp
qed

section \<open>The runtime catalog\<close>

text \<open>
  C7. In every run of the catalog command that has read its configuration and in which
  every response that is not falsy is a page (a dictionary whose \<^verbatim>\<open>runtimes\<close> is a
  list and whose \<^verbatim>\<open>next_page_token\<close> is a string, each possibly absent):

  \<^item> the calls recorded in the trace are the calls made on the installation;
  \<^item> the first request carries the empty token, a page with a non-empty next token is
    followed by a request with that token, and nothing is requested after a page with
    an empty next token, a missing response or an exception;
  \<^item> the parser is called on nothing but the runtimes of the pages, appended in the
    order of the requests, and only when there is at least one;
  \<^item> when no request raised: with no runtimes at all the command returns without
    opening or writing any file and without an exception, and otherwise the parser is
    called on the aggregate;
  \<^item> when the parser returned, the catalog file is opened, and when that returned, the
    document is dumped and the file is closed;
  \<^item> when a dump returned, it is the only dump of the run, it went to the fixed path
    with the document that the parser returned for the aggregate, the command returns
    normally, and the catalog file holds exactly that document once the file has been
    closed (whatever it held before), all other files being untouched.

  The witness runs the pages \<^verbatim>\<open>{runtimes: [a, b], next_page_token: "t1"}\<close> and
  \<^verbatim>\<open>{runtimes: [c], next_page_token: ""}\<close>, which aggregate to \<^verbatim>\<open>[a, b, c]\<close>,
  and a single empty first page.
\<close>

theorem runtime_catalog_pagination:
  assumes run: "populate_engine_runtimes_mapping env (initial w fs) = Some (r, s')"
    and configured: "Configure ''import-config.ini'' ''DEFAULT'' (Inr cfg) \<in> set (trace s')"
    and pages: "list_all well_formed (fetches (trace s'))"
  shows "performed env Catalog_command w (trace s') (world s') \<and>
     paginated (PStr []) (fetches (trace s')) \<and>
     (\<forall>rts x. Parse_runtimes_v2 rts x \<in> set (trace s') \<longrightarrow>
        rts = PList (aggregate (fetches (trace s'))) \<and> aggregate (fetches (trace s')) \<noteq> []) \<and>
     (\<not> list_ex raised_fetch (fetches (trace s')) \<longrightarrow>
        (if aggregate (fetches (trace s')) = []
         then r = Inr () \<and> files s' = fs \<and>
              filter is_open (trace s') = [] \<and> filter is_dump (trace s') = []
         else \<exists>x. Parse_runtimes_v2 (PList (aggregate (fetches (trace s')))) x \<in> set (trace s'))) \<and>
     (\<forall>m. Parse_runtimes_v2 (PList (aggregate (fetches (trace s')))) (Inr m) \<in> set (trace s') \<longrightarrow>
        (\<exists>y. Open_w (catalog_path env) y \<in> set (trace s')) \<and>
        (Open_w (catalog_path env) (Inr ()) \<in> set (trace s') \<longrightarrow>
           (\<exists>z. Json_dump m (catalog_path env) z \<in> set (trace s')) \<and>
           (\<exists>c. Close_w (catalog_path env) c \<in> set (trace s')))) \<and>
     (\<forall>m pth. Json_dump m pth (Inr ()) \<in> set (trace s') \<longrightarrow>
        filter is_dump (trace s') = [Json_dump m pth (Inr ())] \<and> pth = catalog_path env \<and>
        Parse_runtimes_v2 (PList (aggregate (fetches (trace s')))) (Inr m) \<in> set (trace s') \<and>
        r = Inr () \<and>
        files s' = fs(catalog_path env \<mapsto>
          (if Close_w (catalog_path env) (Inr ()) \<in> set (trace s') then Json m else Incomplete)))"
proof -
  from populate_engine_runtimes_mapping_run[OF run, of Catalog_command]
  have shape: "populate_run (catalog_path env) fs (trace s') r (files s')"
    and made: "performed env Catalog_command w (trace s') (world s')" by simp_all
  from shape have "paginated (PStr []) (fetches (trace s')) \<and>
     (\<forall>rts x. Parse_runtimes_v2 rts x \<in> set (trace s') \<longrightarrow>
        rts = PList (aggregate (fetches (trace s'))) \<and> aggregate (fetches (trace s')) \<noteq> []) \<and>
     (\<not> list_ex raised_fetch (fetches (trace s')) \<longrightarrow>
        (if aggregate (fetches (trace s')) = []
         then r = Inr () \<and> files s' = fs \<and>
              filter is_open (trace s') = [] \<and> filter is_dump (trace s') = []
         else \<exists>x. Parse_runtimes_v2 (PList (aggregate (fetches (trace s')))) x \<in> set (trace s'))) \<and>
     (\<forall>m. Parse_runtimes_v2 (PList (aggregate (fetches (trace s')))) (Inr m) \<in> set (trace s') \<longrightarrow>
        (\<exists>y. Open_w (catalog_path env) y \<in> set (trace s')) \<and>
        (Open_w (catalog_path env) (Inr ()) \<in> set (trace s') \<longrightarrow>
           (\<exists>z. Json_dump m (catalog_path env) z \<in> set (trace s')) \<and>
           (\<exists>c. Close_w (catalog_path env) c \<in> set (trace s')))) \<and>
     (\<forall>m pth. Json_dump m pth (Inr ()) \<in> set (trace s') \<longrightarrow>
        filter is_dump (trace s') = [Json_dump m pth (Inr ())] \<and> pth = catalog_path env \<and>
        Parse_runtimes_v2 (PList (aggregate (fetches (trace s')))) (Inr m) \<in> set (trace s') \<and>
        r = Inr () \<and>
        files s' = fs(catalog_path env \<mapsto>
          (if Close_w (catalog_path env) (Inr ()) \<in> set (trace s') then Json m else Incomplete)))"
  proof (cases rule: populate_run.cases)
    case (no_config e)
    with configured show ?thesis by simp
  next
    case (first_raised p c e)
    then show ?thesis by (simp add: catalog_simps)
  next
    case (first_missing p c v)
    then show ?thesis by (simp add: catalog_simps)
  next
    case (first_broken p c v e)
    from pages first_broken(1,5) have "is_page v" by (simp add: catalog_simps)
    from is_pageD(1,2)[OF this] first_broken(6) show ?thesis by auto
  next
    case (later_raised p c v rs tok evs e)
    from pages later_raised(1,5) have pg: "is_page v" and wf: "list_all well_formed (fetches evs)"
      by (simp_all add: fetch_of_def well_formed_def)
    from is_pageD[OF pg] later_raised(6,7) obtain t where rs: "rs = PList (runtimes_in v)"
      and nt: "next_token v = PStr t" and tok: "tok = PStr t" by auto
    note P = fetched_all[OF later_raised(8)] fetched_pages[OF later_raised(8) rs tok wf]
    from P(2) tok have pg': "if t = [] then evs = [] else paginated (PStr t) (fetches evs)"
      and rf: "list_ex raised_fetch (fetches evs)" by (auto split: if_splits)
    show ?thesis using later_raised(1,2,3,5) nt pg' rf P(1)
      by (simp add: catalog_simps)
  next
    case (aggregated p c v rs tok evs rts sevs)
    from stored_no_fetch[OF aggregated(7)] have S: "fetches sevs = []" by simp
    from pages aggregated(1,3) S have pg: "is_page v" and wf: "list_all well_formed (fetches evs)"
      by (simp_all add: fetch_of_def well_formed_def)
    from is_pageD[OF pg] aggregated(4,5) obtain t where rs: "rs = PList (runtimes_in v)"
      and nt: "next_token v = PStr t" and tok: "tok = PStr t" by auto
    note F = fetched_all[OF aggregated(6)] fetched_pages[OF aggregated(6) rs tok wf]
      fetched_no_dump[OF aggregated(6)] fetched_no_open[OF aggregated(6)]
    from F(2) have rts: "rts = PList (runtimes_in v @ aggregate (fetches evs))"
      and nr: "\<not> list_ex raised_fetch (fetches evs)" by simp_all
    from F(2) tok have pg': "if t = [] then evs = [] else paginated (PStr t) (fetches evs)"
      by (auto split: if_splits)
    from aggregated(7) show ?thesis
    proof (cases rule: stored.cases)
      case (unsized e)
      with rts show ?thesis by simp
    next
      case no_runtimes
      show ?thesis using aggregated(1,3) no_runtimes rts nr pg' nt F(1,3,4)
        by (simp add: catalog_simps; auto split: if_splits)
    next
      case (unparsed n e)
      show ?thesis using aggregated(1,3) unparsed rts nr pg' nt F(1,3,4)
        by (simp add: catalog_simps; auto split: if_splits)
    next
      case (unopened n m e)
      show ?thesis using aggregated(1,3) unopened rts nr pg' nt F(1,3,4)
        by (simp add: catalog_simps; auto split: if_splits)
    next
      case (undumped n m e c)
      show ?thesis using aggregated(1,3) undumped rts nr pg' nt F(1,3,4)
        by (simp add: catalog_simps; auto split: if_splits)
    next
      case (unclosed n m e)
      show ?thesis using aggregated(1,3) unclosed rts nr pg' nt F(1,3,4)
        by (simp add: catalog_simps; auto split: if_splits)
    next
      case (written n m)
      show ?thesis using aggregated(1,3) written rts nr pg' nt F(1,3,4)
        by (simp add: catalog_simps; auto split: if_splits)
    qed
  qed
  with made show ?thesis by blast
qed

theorem runtime_catalog_pagination_witness:
  "two_pages_run \<noteq> None \<and> fst (the two_pages_run) = Inr () \<and>
   Configure ''import-config.ini'' ''DEFAULT'' (Inr demo_config) \<in> set (trace (snd (the two_pages_run))) \<and>
   list_all well_formed (fetches (trace (snd (the two_pages_run)))) \<and>
   performed demo_env Catalog_command [page_ab, page_c]
     (trace (snd (the two_pages_run))) (world (snd (the two_pages_run))) \<and>
   fetches (trace (snd (the two_pages_run))) = [(PStr [], Inr page_ab), (PStr ''t1'', Inr page_c)] \<and>
   aggregate (fetches (trace (snd (the two_pages_run)))) = [PStr ''a'', PStr ''b'', PStr ''c''] \<and>
   filter is_dump (trace (snd (the two_pages_run))) =
     [Json_dump (PDict [(''images'', PList [PStr ''a'', PStr ''b'', PStr ''c''])]) catalog_file (Inr ())] \<and>
   old_catalog catalog_file = Some (Json (PDict [])) \<and>
   files (snd (the two_pages_run)) =
     [catalog_file \<mapsto> Json (PDict [(''images'', PList [PStr ''a'', PStr ''b'', PStr ''c''])])] \<and>
   empty_first_page_run \<noteq> None \<and> fst (the empty_first_page_run) = Inr () \<and>
   fetches (trace (snd (the empty_first_page_run))) = [(PStr [], Inr empty_page)] \<and>
   files (snd (the empty_first_page_run)) = old_catalog \<and>
   filter is_open (trace (snd (the empty_first_page_run))) = []"
proof -
  have run: "populate_engine_runtimes_mapping demo_env (initial [page_ab, page_c] old_catalog) =
      Some (Inr (), snd (the two_pages_run))"
    unfolding two_pages_run_def[symmetric] by (simp add: two_pages_populate)
  have cfg: "Configure ''import-config.ini'' ''DEFAULT'' (Inr demo_config)
      \<in> set (trace (snd (the two_pages_run)))"
    by (simp add: two_pages_populate)
  have wf: "list_all well_formed (fetches (trace (snd (the two_pages_run))))"
    by (simp add: catalog_runs)
  have run': "populate_engine_runtimes_mapping demo_env (initial [empty_page] old_catalog) =
      Some (Inr (), snd (the empty_first_page_run))"
    unfolding empty_first_page_run_def[symmetric] by (simp add: empty_first_page_populate)
  have cfg': "Configure ''import-config.ini'' ''DEFAULT'' (Inr demo_config)
      \<in> set (trace (snd (the empty_first_page_run)))"
    by (simp add: empty_first_page_populate)
  have wf': "list_all well_formed (fetches (trace (snd (the empty_first_page_run))))"
    by (simp add: catalog_runs)
  from runtime_catalog_pagination[OF run cfg wf] runtime_catalog_pagination[OF run' cfg' wf']
  show ?thesis
    by (simp add: catalog_runs catalog_path_def demo_env_def catalog_file_def)
qed


section \<open>A page that does not arrive\<close>

text \<open>
  The claim C2 fails. On the installation that answers the first request with the page
  \<^verbatim>\<open>{runtimes: [a], next_page_token: "t1"}\<close> and the second with \<^verbatim>\<open>None\<close>, the
  loop is left by \<^verbatim>\<open>break\<close> (line 326) and the command goes on to parse, dump and
  close: the catalog file, which held an older document, now holds the document of the
  one runtime that arrived.
\<close>

theorem partial_catalog_counterexample:
  "interrupted_run \<noteq> None \<and> fst (the interrupted_run) = Inr () \<and>
   fetches (trace (snd (the interrupted_run))) = [(PStr [], Inr page_a), (PStr ''t1'', Inr PNone)] \<and>
   runtimes_in page_a = [PStr ''a''] \<and>
   performed demo_env Catalog_command [page_a]
     (trace (snd (the interrupted_run))) (world (snd (the interrupted_run))) \<and>
   filter is_dump (trace (snd (the interrupted_run))) =
     [Json_dump (PDict [(''images'', PList [PStr ''a''])]) catalog_file (Inr ())] \<and>
   Close_w catalog_file (Inr ()) \<in> set (trace (snd (the interrupted_run))) \<and>
   old_catalog catalog_file = Some (Json (PDict [])) \<and>
   files (snd (the interrupted_run)) catalog_file = Some (Json (PDict [(''images'', PList [PStr ''a''])]))"
  apply (simp add: catalog_runs)
  apply (simp add: replay_defs demo_env_def next_response_def demo_catalog_p_def catalog_file_def)
  done


text \<open>
  C2, as the source has it. In every run in which the first response is a page with at
  least one runtime and a later request gets a falsy response (all other responses
  being pages): the calls recorded are the calls made; that request is the last one;
  the runtimes aggregated so far are not empty and are passed to the parser; when the
  parser returned, the catalog file is opened, which truncates it, and it then holds
  the document parsed from the partial aggregate once the dump and the close have
  returned.
\<close>

theorem partial_catalog_is_written:
  assumes run: "populate_engine_runtimes_mapping env (initial w fs) = Some (r, s')"
    and pages: "list_all well_formed (fetches (trace s'))"
    and first: "Get_all_runtimes_v2 p (PStr []) (Inr v) \<in> set (trace s')"
    and nonempty: "truthy v" "runtimes_in v \<noteq> []"
    and missing: "Get_all_runtimes_v2 p' tok (Inr v') \<in> set (trace s')" "\<not> truthy v'"
  shows "performed env Catalog_command w (trace s') (world s') \<and>
     last (fetches (trace s')) = (tok, Inr v') \<and>
     aggregate (fetches (trace s')) \<noteq> [] \<and>
     (\<exists>x. Parse_runtimes_v2 (PList (aggregate (fetches (trace s')))) x \<in> set (trace s')) \<and>
     (\<forall>m. Parse_runtimes_v2 (PList (aggregate (fetches (trace s')))) (Inr m) \<in> set (trace s') \<longrightarrow>
        (\<exists>y. Open_w (catalog_path env) y \<in> set (trace s')) \<and>
        (Open_w (catalog_path env) (Inr ()) \<in> set (trace s') \<longrightarrow>
           files s' = fs(catalog_path env \<mapsto> Incomplete) \<or>
           files s' = fs(catalog_path env \<mapsto> Json m)) \<and>
        (Json_dump m (catalog_path env) (Inr ()) \<in> set (trace s') \<and>
         Close_w (catalog_path env) (Inr ()) \<in> set (trace s') \<longrightarrow>
           files s' = fs(catalog_path env \<mapsto> Json m)))"
proof -
  from populate_engine_runtimes_mapping_run[OF run, of Catalog_command]
  have shape: "populate_run (catalog_path env) fs (trace s') r (files s')"
    and made: "performed env Catalog_command w (trace s') (world s')" by simp_all
  from shape have "last (fetches (trace s')) = (tok, Inr v') \<and>
     aggregate (fetches (trace s')) \<noteq> [] \<and>
     (\<exists>x. Parse_runtimes_v2 (PList (aggregate (fetches (trace s')))) x \<in> set (trace s')) \<and>
     (\<forall>m. Parse_runtimes_v2 (PList (aggregate (fetches (trace s')))) (Inr m) \<in> set (trace s') \<longrightarrow>
        (\<exists>y. Open_w (catalog_path env) y \<in> set (trace s')) \<and>
        (Open_w (catalog_path env) (Inr ()) \<in> set (trace s') \<longrightarrow>
           files s' = fs(catalog_path env \<mapsto> Incomplete) \<or>
           files s' = fs(catalog_path env \<mapsto> Json m)) \<and>
        (Json_dump m (catalog_path env) (Inr ()) \<in> set (trace s') \<and>
         Close_w (catalog_path env) (Inr ()) \<in> set (trace s') \<longrightarrow>
           files s' = fs(catalog_path env \<mapsto> Json m)))"
  proof (cases rule: populate_run.cases)
    case (no_config e)
    with first show ?thesis by simp
  next
    case (first_raised p0 c e)
    with first show ?thesis by simp
  next
    case (first_missing p0 c v0)
    with first nonempty(1) show ?thesis by auto
  next
    case (first_broken p0 c v0 e)
    with first have "v0 = v" by auto
    with pages first_broken(1) nonempty(1) have "is_page v0" by (simp add: catalog_simps)
    from is_pageD(1,2)[OF this] first_broken(6) show ?thesis by auto
  next
    case (later_raised p0 c v0 rs tok0 evs e)
    from missing later_raised(1,5) have "Get_all_runtimes_v2 p' tok (Inr v') \<in> set evs"
      by auto
    from fetched_missing[OF later_raised(8) this missing(2)] show ?thesis by simp
  next
    case (aggregated p0 c v0 rs tok0 evs rts sevs)
    from stored_no_fetch[OF aggregated(7)] have S: "fetches sevs = []"
      "list_all (\<lambda>ev. \<not> is_fetch ev) sevs" by simp_all
    from S(2) have nf: "Get_all_runtimes_v2 a b c \<notin> set sevs" for a b c
      by (auto simp: list_all_iff is_fetch_def)
    from first aggregated(1) nf fetched_tokens[OF aggregated(6)] have v: "v0 = v"
      by auto
    from missing aggregated(1,3) nf have "Get_all_runtimes_v2 p' tok (Inr v') \<in> set evs"
      by auto
    note M = fetched_missing[OF aggregated(6) this missing(2)]
    from pages aggregated(1,3) S have pg: "is_page v0" and wf: "list_all well_formed (fetches evs)"
      by (simp_all add: fetch_of_def well_formed_def)
    from is_pageD[OF pg] aggregated(4,5) obtain t where rs: "rs = PList (runtimes_in v0)"
      and tok0: "tok0 = PStr t" by auto
    note F = fetched_all[OF aggregated(6)] fetched_pages[OF aggregated(6) rs tok0 wf]
    from F(2) have rts: "rts = PList (runtimes_in v0 @ aggregate (fetches evs))" by simp
    from aggregated(7) show ?thesis
    proof (cases rule: stored.cases)
      case (unsized e)
      with rts show ?thesis by simp
    next
      case no_runtimes
      with rts v nonempty show ?thesis by simp
    next
      case (unparsed n e)
      show ?thesis using aggregated(1,3) unparsed rts M v nonempty F(1)
        by (simp add: catalog_simps)
    next
      case (unopened n m e)
      show ?thesis using aggregated(1,3) unopened rts M v nonempty F(1)
        by (simp add: catalog_simps)
    next
      case (undumped n m e c)
      show ?thesis using aggregated(1,3) undumped rts M v nonempty F(1)
        by (simp add: catalog_simps)
    next
      case (unclosed n m e)
      show ?thesis using aggregated(1,3) unclosed rts M v nonempty F(1)
        by (simp add: catalog_simps)
    next
      case (written n m)
      show ?thesis using aggregated(1,3) written rts M v nonempty F(1)
        by (simp add: catalog_simps)
    qed
  qed
  with made show ?thesis by blast
qed


theorem partial_catalog_is_written_witness:
  "interrupted_run \<noteq> None \<and>
   list_all well_formed (fetches (trace (snd (the interrupted_run)))) \<and>
   Get_all_runtimes_v2 demo_catalog_p (PStr []) (Inr page_a) \<in> set (trace (snd (the interrupted_run))) \<and>
   truthy page_a \<and> runtimes_in page_a \<noteq> [] \<and>
   Get_all_runtimes_v2 demo_catalog_p (PStr ''t1'') (Inr PNone) \<in> set (trace (snd (the interrupted_run))) \<and>
   \<not> truthy PNone \<and>
   aggregate (fetches (trace (snd (the interrupted_run)))) = [PStr ''a''] \<and>
   Parse_runtimes_v2 (PList [PStr ''a'']) (Inr (PDict [(''images'', PList [PStr ''a''])]))
     \<in> set (trace (snd (the interrupted_run))) \<and>
   Json_dump (PDict [(''images'', PList [PStr ''a''])]) catalog_file (Inr ())
     \<in> set (trace (snd (the interrupted_run))) \<and>
   files (snd (the interrupted_run)) = [catalog_file \<mapsto> Json (PDict [(''images'', PList [PStr ''a''])])]"
proof -
  have run: "populate_engine_runtimes_mapping demo_env (initial [page_a] old_catalog) =
      Some (Inr (), snd (the interrupted_run))"
    unfolding interrupted_run_def[symmetric] by (simp add: interrupted_populate)
  have wf: "list_all well_formed (fetches (trace (snd (the interrupted_run))))"
    by (simp add: catalog_runs)
  have first: "Get_all_runtimes_v2 demo_catalog_p (PStr []) (Inr page_a)
      \<in> set (trace (snd (the interrupted_run)))"
    and missing: "Get_all_runtimes_v2 demo_catalog_p (PStr ''t1'') (Inr PNone)
      \<in> set (trace (snd (the interrupted_run)))"
    by (simp_all add: interrupted_populate)
  have nonempty: "truthy page_a" "runtimes_in page_a \<noteq> []"
    by (simp_all add: page_a_def dict_get_def)
  have none: "\<not> truthy PNone" by simp
  from partial_catalog_is_written[OF run wf first nonempty missing none]
  show ?thesis
    by (simp add: catalog_runs catalog_path_def demo_env_def catalog_file_def)
qed
end
